theory Spec2Isabelle
  imports Main "HOL-Library.Char_ord" "HOL-Library.List_Lexorder" "HOL-Library.AList"
begin


subsection \<open>Strings\<close>

text \<open>
  The functions of \<^verbatim>\<open>strings\<close>, \<^verbatim>\<open>strconv\<close> and \<^verbatim>\<open>regexp\<close> the encoder calls, on
  byte strings. Letter case and white space are those of ASCII: a byte from 0x80 on is
  neither a letter nor a space and is left as it is, so names are taken to be ASCII
  wherever the source folds case (\<^verbatim>\<open>strings.ToLower\<close>, \<^verbatim>\<open>strings.Title\<close>).
\<close>

abbreviation (input) TAB :: string where "TAB \<equiv> [CHR 0x09]"
abbreviation (input) DQ :: string where "DQ \<equiv> [CHR 0x22]"
abbreviation (input) BQ :: string where "BQ \<equiv> [CHR 0x60]"
abbreviation (input) SQ :: string where "SQ \<equiv> [CHR 0x27]"

definition isDigit :: "char \<Rightarrow> bool" where
  "isDigit c = (CHR ''0'' \<le> c \<and> c \<le> CHR ''9'')"

definition isLower :: "char \<Rightarrow> bool" where
  "isLower c = (CHR ''a'' \<le> c \<and> c \<le> CHR ''z'')"

definition isUpper :: "char \<Rightarrow> bool" where
  "isUpper c = (CHR ''A'' \<le> c \<and> c \<le> CHR ''Z'')"

definition toUpperC :: "char \<Rightarrow> char" where
  "toUpperC c =
     (case map_of (zip ''abcdefghijklmnopqrstuvwxyz'' ''ABCDEFGHIJKLMNOPQRSTUVWXYZ'') c of
        Some u \<Rightarrow> u | None \<Rightarrow> c)"

definition toLowerC :: "char \<Rightarrow> char" where
  "toLowerC c =
     (case map_of (zip ''ABCDEFGHIJKLMNOPQRSTUVWXYZ'' ''abcdefghijklmnopqrstuvwxyz'') c of
        Some l \<Rightarrow> l | None \<Rightarrow> c)"

definition toLower :: "string \<Rightarrow> string" where
  "toLower s = map toLowerC s"

text \<open>\<^verbatim>\<open>strings.Split(s, sep)\<close> for a separator of one byte.\<close>

fun split :: "char \<Rightarrow> string \<Rightarrow> string list" where
  "split sep [] = [[]]"
| "split sep (c # cs) =
     (if c = sep then [] # split sep cs
      else (case split sep cs of w # ws \<Rightarrow> (c # w) # ws | [] \<Rightarrow> [[c]]))"

fun join :: "string \<Rightarrow> string list \<Rightarrow> string" where
  "join sep [] = []"
| "join sep [x] = x"
| "join sep (x # y # ys) = x @ sep @ join sep (y # ys)"

definition hasPrefix :: "string \<Rightarrow> string \<Rightarrow> bool" where
  "hasPrefix s p = (take (length p) s = p)"

definition trimPrefix :: "string \<Rightarrow> string \<Rightarrow> string" where
  "trimPrefix s p = (if hasPrefix s p then drop (length p) s else s)"

text \<open>\<^verbatim>\<open>strings.Trim(s, " ")\<close> and \<^verbatim>\<open>strings.TrimSpace\<close>.\<close>

definition trimBoth :: "(char \<Rightarrow> bool) \<Rightarrow> string \<Rightarrow> string" where
  "trimBoth p s = rev (dropWhile p (rev (dropWhile p s)))"

definition isSpace :: "char \<Rightarrow> bool" where
  "isSpace c = (c = CHR '' '' \<or> (CHR 0x09 \<le> c \<and> c \<le> CHR 0x0D))"

definition trimSpace :: "string \<Rightarrow> string" where
  "trimSpace s = trimBoth isSpace s"

text \<open>\<^verbatim>\<open>trimns\<close>: the text after the first colon, when there is one
  (\<^verbatim>\<open>strings.SplitN(s, ":", 2)\<close>).\<close>

definition trimns :: "string \<Rightarrow> string" where
  "trimns s = (if CHR '':'' \<in> set s then tl (dropWhile (\<lambda>c. c \<noteq> CHR '':'') s) else s)"

text \<open>\<^verbatim>\<open>strings.Title\<close>: the letter after a separator (at first: a space) is put in
  upper case. Letters, digits and the underscore are no separators.\<close>

definition isSymbolChar :: "char \<Rightarrow> bool" where
  "isSymbolChar c = (isDigit c \<or> isLower c \<or> isUpper c \<or> c = CHR ''_'')"

definition isSeparator :: "char \<Rightarrow> bool" where
  "isSeparator c = (c < CHR 0x80 \<and> \<not> isSymbolChar c)"

fun titleFrom :: "char \<Rightarrow> string \<Rightarrow> string" where
  "titleFrom prev [] = []"
| "titleFrom prev (c # cs) = (if isSeparator prev then toUpperC c else c) # titleFrom c cs"

definition title :: "string \<Rightarrow> string" where
  "title s = titleFrom (CHR '' '') s"

text \<open>
  \<^verbatim>\<open>invalidGoSymbol.ReplaceAllString(s, " ")\<close> for the pattern
  \<^verbatim>\<open>[0-9_]*[^0-9a-zA-Z_]+\<close>: the leftmost match starts at the first position from which a
  run of digits and underscores is followed by a byte outside \<^verbatim>\<open>[0-9a-zA-Z_]\<close>; it
  takes that run and all the bytes outside the class that follow.
\<close>

definition isDigitOrUnderscore :: "char \<Rightarrow> bool" where
  "isDigitOrUnderscore c = (isDigit c \<or> c = CHR ''_'')"

function replaceInvalid :: "string \<Rightarrow> string" where
  "replaceInvalid [] = []"
| "replaceInvalid (c # cs) =
     (case dropWhile isDigitOrUnderscore (c # cs) of
        [] \<Rightarrow> c # replaceInvalid cs
      | r # rest \<Rightarrow>
          if isSymbolChar r then c # replaceInvalid cs
          else CHR '' '' # replaceInvalid (dropWhile (\<lambda>x. \<not> isSymbolChar x) rest))"
  by pat_completeness auto
termination
proof (relation "measure length")
  show "wf (measure length)" by simp
next
  fix c cs show "(cs, c # cs) \<in> measure length" by simp
next
  fix c cs r rest
  assume "dropWhile isDigitOrUnderscore (c # cs) = r # rest"
  then show "(cs, c # cs) \<in> measure length" by simp
next
  fix c :: char and cs r rest
  assume a: "dropWhile isDigitOrUnderscore (c # cs) = r # rest"
  have "length (dropWhile (\<lambda>x. \<not> isSymbolChar x) rest) \<le> length rest"
    by (rule length_dropWhile_le)
  also have "length rest < length (r # rest)" by simp
  also have "length (r # rest) \<le> length (c # cs)"
    unfolding a[symmetric] by (rule length_dropWhile_le)
  finally show "(dropWhile (\<lambda>x. \<not> isSymbolChar x) rest, c # cs) \<in> measure length" by simp
qed

definition goSymbol :: "string \<Rightarrow> string" where
  "goSymbol s = concat (map title (split (CHR '' '') (replaceInvalid (trimns s))))"

text \<open>\<^verbatim>\<open>strconv.Quote\<close> and the verb \<^verbatim>\<open>%q\<close>: bytes from 0x80 on are copied, as printable
  text is.\<close>

definition hexDigit :: "nat \<Rightarrow> char" where
  "hexDigit n = ''0123456789abcdef'' ! (n mod 16)"

definition quoteChar :: "char \<Rightarrow> string" where
  "quoteChar c =
     (if c = CHR 0x22 then [CHR 0x5C, CHR 0x22]
      else if c = CHR 0x5C then [CHR 0x5C, CHR 0x5C]
      else if c = CHR 0x07 then [CHR 0x5C, CHR ''a'']
      else if c = CHR 0x08 then [CHR 0x5C, CHR ''b'']
      else if c = CHR 0x0C then [CHR 0x5C, CHR ''f'']
      else if c = CHR 0x0A then [CHR 0x5C, CHR ''n'']
      else if c = CHR 0x0D then [CHR 0x5C, CHR ''r'']
      else if c = CHR 0x09 then [CHR 0x5C, CHR ''t'']
      else if c = CHR 0x0B then [CHR 0x5C, CHR ''v'']
      else if c < CHR 0x20 \<or> c = CHR 0x7F
        then [CHR 0x5C, CHR ''x'', hexDigit (of_char c div 16), hexDigit (of_char c mod 16)]
      else [c])"

definition goQuote :: "string \<Rightarrow> string" where
  "goQuote s = DQ @ concat (map quoteChar s) @ DQ"
section \<open>wsdl2go: the WSDL to Go encoder (package wsdlgo)\<close>

text \<open>
  A shallow embedding of the encoder of \<^verbatim>\<open>wsdlgo\<close>. Go strings are byte strings
  (\<^typ>\<open>string\<close>); a Go \<^verbatim>\<open>map[string]T\<close> is an association list with distinct keys
  (\<^const>\<open>map_of\<close> looks a key up, \<^const>\<open>AList.update\<close> stores one), so that its keys
  can be enumerated; a \<^verbatim>\<open>map[string]bool\<close> that only ever stores \<^verbatim>\<open>true\<close> is the
  set of its keys. Objects the code reaches through pointers and mutates in place
  (complex types, attributes) live in an explicit store and are named by their address.
  A slice is a list; the decoder leaves a slice \<^verbatim>\<open>nil\<close> exactly when it is empty, so
  \<^verbatim>\<open>s != nil\<close> is read as \<open>s \<noteq> []\<close>.

  A call either runs out of fuel (it does not return), panics, or returns.
\<close>

datatype 'a outcome = OutOfFuel | Panic string | Done 'a

subsection \<open>The schema object model (package wsdl), as the encoder reads it\<close>

text \<open>
  The declarations of package \<^verbatim>\<open>wsdl\<close> are not among the sources; the records below hold
  the fields the encoder reads and writes, under the field names it uses (prefixed by the
  record, since Isabelle's field names are global). Elements are not mutated after the
  registry is built, so the flattener and the emitter see them as values; complex types
  and attributes are mutated in place and are addresses into the store.
\<close>

record element =
  el_Name :: string
  el_Type :: string
  el_Ref :: string
  el_Min :: int
  el_Max :: string
  el_Nillable :: bool
  el_Tag :: string
  el_ComplexType :: "nat option"

record attribute =
  at_Name :: string
  at_Ref :: string
  at_Type :: string
  at_ArrayType :: string
  at_TagName :: string
  at_Min :: int
  at_Nillable :: bool

record anyElement =
  any_Min :: int
  any_Max :: string

text \<open>A \<^verbatim>\<open>Choice\<close> listed in \<^verbatim>\<open>Sequence.Choices\<close>: the encoder never reads the
  \<^verbatim>\<open>Sequence\<close> field of such a choice.\<close>

record seqchoice =
  sc_ComplexTypes :: "nat list"
  sc_Elements :: "element list"
  sc_Any :: "anyElement list"

record sequence =
  sq_ComplexTypes :: "nat list"
  sq_Elements :: "element list"
  sq_Any :: "anyElement list"
  sq_Choices :: "seqchoice list"

record choice =
  ch_ComplexTypes :: "nat list"
  ch_Elements :: "element list"
  ch_Any :: "anyElement list"
  ch_Sequence :: "sequence option"

record enum =
  en_Value :: string

record restriction =
  rs_Base :: string
  rs_Enum :: "enum list"
  rs_Attributes :: "nat list"

record extension =
  ex_Base :: string
  ex_Sequence :: "sequence option"
  ex_Choice :: "choice option"
  ex_Attributes :: "nat list"

record complexContent =
  cc_Extension :: "extension option"
  cc_Restriction :: "restriction option"

record simpleContent =
  sc_Extension :: "extension option"
  sc_Restriction :: "restriction option"

record complexType =
  ct_Name :: string
  ct_Doc :: string
  ct_TargetNamespace :: string
  ct_Abstract :: bool
  ct_AllElements :: "element list"
  ct_Attributes :: "nat list"
  ct_Sequence :: "sequence option"
  ct_Choice :: "choice option"
  ct_ComplexContent :: "complexContent option"
  ct_SimpleContent :: "simpleContent option"

text \<open>The store: what each \<^verbatim>\<open>*wsdl.ComplexType\<close> and \<^verbatim>\<open>*wsdl.Attribute\<close> points to.
  The attribute addresses from \<open>at_next\<close> on are free.\<close>

record heap =
  cts :: "nat \<Rightarrow> complexType"
  ats :: "nat \<Rightarrow> attribute"
  at_next :: nat

definition setct :: "heap \<Rightarrow> nat \<Rightarrow> complexType \<Rightarrow> heap" where
  "setct H a ct = H\<lparr>cts := (cts H)(a := ct)\<rparr>"

definition emptySequence :: sequence where
  "emptySequence = \<lparr>sq_ComplexTypes = [], sq_Elements = [], sq_Any = [], sq_Choices = []\<rparr>"

subsection \<open>The type flattener\<close>

text \<open>\<^verbatim>\<open>RedefinedStructFields\<close> is a \<^verbatim>\<open>map[string]bool\<close>: the set of names marked.\<close>

type_synonym RedefinedStructFields = "string set"

definition flatElementField ::
  "element list \<Rightarrow> element \<Rightarrow> RedefinedStructFields \<Rightarrow> element list \<times> RedefinedStructFields" where
  "flatElementField elements el redefined =
     (if el_Name el \<in> redefined then (elements, redefined)
      else (elements @ [el], insert (el_Name el) redefined))"

fun flatElementFields ::
  "element list \<Rightarrow> element list \<Rightarrow> RedefinedStructFields \<Rightarrow> element list \<times> RedefinedStructFields" where
  "flatElementFields elements [] redefined = (elements, redefined)"
| "flatElementFields elements (attr # appendedElements) redefined =
     (case flatElementField elements attr redefined of
        (elements', redefined') \<Rightarrow> flatElementFields elements' appendedElements redefined')"

definition flatAttributeField ::
  "heap \<Rightarrow> nat list \<Rightarrow> nat \<Rightarrow> RedefinedStructFields \<Rightarrow> nat list \<times> RedefinedStructFields" where
  "flatAttributeField H attrs attr redefined =
     (if at_Name (ats H attr) \<in> redefined then (attrs, redefined)
      else (attrs @ [attr], insert (at_Name (ats H attr)) redefined))"

fun flatAttributeFields ::
  "heap \<Rightarrow> nat list \<Rightarrow> nat list \<Rightarrow> RedefinedStructFields \<Rightarrow> nat list \<times> RedefinedStructFields" where
  "flatAttributeFields H attrs [] redefined = (attrs, redefined)"
| "flatAttributeFields H attrs (attr # appendedAttrs) redefined =
     (case flatAttributeField H attrs attr redefined of
        (attrs', redefined') \<Rightarrow> flatAttributeFields H attrs' appendedAttrs redefined')"

text \<open>The sequences \<^verbatim>\<open>flatComplexContent\<close> collects from an extension: its sequence, one
  per choice of that sequence, its choice, and that choice's sequence.\<close>

definition choiceAsSequence :: "seqchoice \<Rightarrow> sequence" where
  "choiceAsSequence c =
     \<lparr>sq_ComplexTypes = sc_ComplexTypes c, sq_Elements = sc_Elements c, sq_Any = sc_Any c,
      sq_Choices = []\<rparr>"

definition extSequences :: "extension \<Rightarrow> sequence list" where
  "extSequences ext =
     (case ex_Sequence ext of
        None \<Rightarrow> []
      | Some s \<Rightarrow> s # map choiceAsSequence (sq_Choices s))
     @ (case ex_Choice ext of
        None \<Rightarrow> []
      | Some c \<Rightarrow>
          \<lparr>sq_ComplexTypes = ch_ComplexTypes c, sq_Elements = ch_Elements c, sq_Any = ch_Any c,
           sq_Choices = []\<rparr>
          # (case ch_Sequence c of None \<Rightarrow> [] | Some s \<Rightarrow> [s]))"

text \<open>One round of the loop \<^verbatim>\<open>for _, seq := range sequences\<close>: each of the three
  appends dereferences \<^verbatim>\<open>ct.Sequence\<close> only when the appended slice is not nil.\<close>

definition appendSequence :: "complexType \<Rightarrow> sequence \<Rightarrow> complexType outcome" where
  "appendSequence ct seq =
     (if sq_ComplexTypes seq = [] \<and> sq_Elements seq = [] \<and> sq_Any seq = [] then Done ct
      else case ct_Sequence ct of
        None \<Rightarrow> Panic ''nil pointer dereference''
      | Some s \<Rightarrow> Done (ct\<lparr>ct_Sequence := Some (s\<lparr>
          sq_ComplexTypes := sq_ComplexTypes s @ sq_ComplexTypes seq,
          sq_Elements := sq_Elements s @ sq_Elements seq,
          sq_Any := sq_Any s @ sq_Any seq\<rparr>)\<rparr>))"

fun appendSequences :: "complexType \<Rightarrow> sequence list \<Rightarrow> complexType outcome" where
  "appendSequences ct [] = Done ct"
| "appendSequences ct (seq # sequences) =
     (case appendSequence ct seq of
        Done ct' \<Rightarrow> appendSequences ct' sequences
      | Panic m \<Rightarrow> Panic m
      | OutOfFuel \<Rightarrow> OutOfFuel)"

text \<open>\<^verbatim>\<open>ct.Sequence.ComplexTypes = append(ct.Sequence.ComplexTypes, base)\<close>.\<close>

definition appendBase :: "complexType \<Rightarrow> nat \<Rightarrow> complexType outcome" where
  "appendBase ct base =
     (case ct_Sequence ct of
        None \<Rightarrow> Panic ''nil pointer dereference''
      | Some s \<Rightarrow> Done (ct\<lparr>ct_Sequence := Some (s\<lparr>sq_ComplexTypes := sq_ComplexTypes s @ [base]\<rparr>)\<rparr>))"

definition flatComplexContent :: "(string \<times> nat) list \<Rightarrow> heap \<Rightarrow> nat \<Rightarrow> heap outcome" where
  "flatComplexContent ctypes H a =
     (let ct = cts H a in
      case ct_ComplexContent ct of
        None \<Rightarrow> Done H
      | Some cc \<Rightarrow>
         (case cc_Extension cc of
            None \<Rightarrow> Done H
          | Some ext \<Rightarrow>
             (let ct1 = ct\<lparr>ct_ComplexContent :=
                          (if cc_Restriction cc = None then None
                           else Some (cc\<lparr>cc_Extension := None\<rparr>))\<rparr>;
                  r2 = (if ex_Base ext \<noteq> [] then
                          (case map_of ctypes (trimns (ex_Base ext)) of
                             Some base \<Rightarrow> appendBase ct1 base
                           | None \<Rightarrow> Done ct1)
                        else Done ct1)
              in case r2 of
                   Done ct2 \<Rightarrow>
                     (let ct3 = ct2\<lparr>ct_Attributes :=
                                  fst (flatAttributeFields H (ct_Attributes ct2) (ex_Attributes ext) {})\<rparr>
                      in case appendSequences ct3 (extSequences ext) of
                           Done ct4 \<Rightarrow> Done (setct H a ct4)
                         | Panic m \<Rightarrow> Panic m
                         | OutOfFuel \<Rightarrow> OutOfFuel)
                 | Panic m \<Rightarrow> Panic m
                 | OutOfFuel \<Rightarrow> OutOfFuel)))"

text \<open>The element \<^verbatim>\<open>flatSimpleContent\<close> makes for the text of a simple-typed base.\<close>

definition contentElement :: "string \<Rightarrow> element" where
  "contentElement base =
     \<lparr>el_Name = ''Content'', el_Type = trimns base, el_Ref = [], el_Min = 0, el_Max = [],
      el_Nillable = False, el_Tag = '',chardata'', el_ComplexType = None\<rparr>"

definition flatSimpleContent :: "(string \<times> nat) list \<Rightarrow> heap \<Rightarrow> nat \<Rightarrow> heap outcome" where
  "flatSimpleContent ctypes H a =
     (let ct = cts H a in
      case ct_SimpleContent ct of
        None \<Rightarrow> Done H
      | Some sc \<Rightarrow>
         (case sc_Extension sc of
            None \<Rightarrow> Done H
          | Some ext \<Rightarrow>
             (let ct1 = ct\<lparr>ct_SimpleContent :=
                          (if sc_Restriction sc = None then None
                           else Some (sc\<lparr>sc_Extension := None\<rparr>))\<rparr>;
                  ct2 = ct1\<lparr>ct_Attributes :=
                          fst (flatAttributeFields H (ct_Attributes ct1) (ex_Attributes ext) {})\<rparr>
              in if ex_Base ext \<noteq> [] then
                   (case map_of ctypes (trimns (ex_Base ext)) of
                      Some baseComplex \<Rightarrow>
                        (case appendBase ct2 baseComplex of
                           Done ct3 \<Rightarrow> Done (setct H a ct3)
                         | Panic m \<Rightarrow> Panic m
                         | OutOfFuel \<Rightarrow> OutOfFuel)
                    | None \<Rightarrow>
                        Done (setct H a (ct2\<lparr>ct_AllElements :=
                          fst (flatElementField (ct_AllElements ct2)
                                 (contentElement (ex_Base ext)) {})\<rparr>)))
                 else Done (setct H a ct2))))"

text \<open>One round of the loop over \<^verbatim>\<open>ct.Sequence.ComplexTypes\<close> in \<^verbatim>\<open>flatFields\<close>:
  flatten the fragment \<open>v\<close>, then append its attributes and its fields to those of the
  type at \<open>a\<close>, each with a fresh \<^verbatim>\<open>RedefinedStructFields{}\<close>. \<open>rec\<close> is the recursive
  call of \<^verbatim>\<open>flatTypeElements\<close>.\<close>

definition mergeFragment ::
  "(heap \<Rightarrow> nat \<Rightarrow> heap outcome) \<Rightarrow> heap \<Rightarrow> nat \<Rightarrow> nat \<Rightarrow> heap outcome" where
  "mergeFragment rec H a v =
     (case rec H v of
        Done H1 \<Rightarrow>
          (let ct = cts H1 a;
               ct1 = ct\<lparr>ct_Attributes :=
                       fst (flatAttributeFields H1 (ct_Attributes ct) (ct_Attributes (cts H1 v)) {})\<rparr>;
               ct2 = ct1\<lparr>ct_AllElements :=
                       fst (flatElementFields (ct_AllElements ct1) (ct_AllElements (cts H1 v)) {})\<rparr>
           in Done (setct H1 a ct2))
      | Panic m \<Rightarrow> Panic m
      | OutOfFuel \<Rightarrow> OutOfFuel)"

fun mergeFragments ::
  "(heap \<Rightarrow> nat \<Rightarrow> heap outcome) \<Rightarrow> heap \<Rightarrow> nat \<Rightarrow> nat list \<Rightarrow> heap outcome" where
  "mergeFragments rec H a [] = Done H"
| "mergeFragments rec H a (v # vs) =
     (case mergeFragment rec H a v of
        Done H' \<Rightarrow> mergeFragments rec H' a vs
      | Panic m \<Rightarrow> Panic m
      | OutOfFuel \<Rightarrow> OutOfFuel)"

text \<open>The fields of the choices of a sequence, appended under the shared \<open>redefined\<close>.\<close>

fun flatChoicesFields ::
  "element list \<Rightarrow> seqchoice list \<Rightarrow> RedefinedStructFields \<Rightarrow> element list \<times> RedefinedStructFields" where
  "flatChoicesFields elements [] redefined = (elements, redefined)"
| "flatChoicesFields elements (c # cs) redefined =
     (case flatElementFields elements (sc_Elements c) redefined of
        (elements', redefined') \<Rightarrow> flatChoicesFields elements' cs redefined')"

text \<open>The second half of \<^verbatim>\<open>flatFields\<close>: the type's own choice, under the \<open>redefined\<close>
  left by its sequence; then \<^verbatim>\<open>ct.Choice = nil\<close>.\<close>

definition flatChoice :: "complexType \<Rightarrow> RedefinedStructFields \<Rightarrow> complexType" where
  "flatChoice ct redefined =
     (case ct_Choice ct of
        None \<Rightarrow> ct\<lparr>ct_Choice := None\<rparr>
      | Some c \<Rightarrow>
          (case flatElementFields (ct_AllElements ct) (ch_Elements c) redefined of
             (els1, red1) \<Rightarrow>
               (case ch_Sequence c of
                  None \<Rightarrow> ct\<lparr>ct_AllElements := els1, ct_Choice := None\<rparr>
                | Some s \<Rightarrow>
                    ct\<lparr>ct_AllElements := fst (flatElementFields els1 (sq_Elements s) red1),
                       ct_Choice := None\<rparr>)))"

definition flatFields ::
  "(heap \<Rightarrow> nat \<Rightarrow> heap outcome) \<Rightarrow> heap \<Rightarrow> nat \<Rightarrow> heap outcome" where
  "flatFields rec H a =
     (case ct_Sequence (cts H a) of
        None \<Rightarrow> Done (setct H a (flatChoice ((cts H a)\<lparr>ct_Sequence := None\<rparr>) {}))
      | Some s0 \<Rightarrow>
          (case mergeFragments rec H a (sq_ComplexTypes s0) of
             Done H1 \<Rightarrow>
               (let ct = cts H1 a in
                case ct_Sequence ct of
                  None \<Rightarrow> Panic ''nil pointer dereference''
                | Some s \<Rightarrow>
                    (case flatElementFields (ct_AllElements ct) (sq_Elements s) {} of
                       (els1, red1) \<Rightarrow>
                         (case flatChoicesFields els1 (sq_Choices s) red1 of
                            (els2, red2) \<Rightarrow>
                              Done (setct H1 a
                                (flatChoice (ct\<lparr>ct_AllElements := els2, ct_Sequence := None\<rparr>)
                                   red2)))))
           | Panic m \<Rightarrow> Panic m
           | OutOfFuel \<Rightarrow> OutOfFuel))"

text \<open>\<^verbatim>\<open>flatTypeElements\<close>, with fuel for the depth of the recursion through the
  fragments: a cyclic chain of bases never returns.\<close>

primrec flatTypeElements :: "nat \<Rightarrow> (string \<times> nat) list \<Rightarrow> heap \<Rightarrow> nat \<Rightarrow> heap outcome" where
  "flatTypeElements 0 ctypes H a = OutOfFuel"
| "flatTypeElements (Suc n) ctypes H a =
     (let H0 = (if ct_Sequence (cts H a) = None
                then setct H a ((cts H a)\<lparr>ct_Sequence := Some emptySequence\<rparr>) else H)
      in case flatComplexContent ctypes H0 a of
           Done H1 \<Rightarrow>
             (case flatSimpleContent ctypes H1 a of
                Done H2 \<Rightarrow> flatFields (flatTypeElements n ctypes) H2 a
              | Panic m \<Rightarrow> Panic m
              | OutOfFuel \<Rightarrow> OutOfFuel)
         | Panic m \<Rightarrow> Panic m
         | OutOfFuel \<Rightarrow> OutOfFuel)"

subsection \<open>Definitions, messages, operations and the encoder\<close>

text \<open>A nested simple type of a union is read for its restriction only.\<close>

record union =
  un_MemberTypes :: string
  un_SimpleTypes :: "restriction option list"

record simpleType =
  st_Name :: string
  st_TargetNamespace :: string
  st_Restriction :: "restriction option"
  st_Union :: "union option"

record part =
  pt_Name :: string
  pt_Type :: string
  pt_Element :: string

record message =
  msg_Name :: string
  msg_Parts :: "part list"

text \<open>\<^verbatim>\<open>Input\<close> and \<^verbatim>\<open>Output\<close> point to an \<^verbatim>\<open>IO\<close>, read for its \<^verbatim>\<open>Message\<close>:
  \<open>None\<close> is the nil pointer.\<close>

record operation =
  op_Name :: string
  op_Doc :: string
  op_Input :: "string option"
  op_Output :: "string option"

record portType =
  ptt_Name :: string
  ptt_Operations :: "operation list"

text \<open>\<^verbatim>\<open>Operation.Action\<close> is the SOAP 1.2 action, \<^verbatim>\<open>Operation11.Action\<close> the
  SOAP 1.1 one.\<close>

record bindingOperation =
  bo_Name :: string
  bo_Operation_Action :: string
  bo_Operation11_Action :: string

record binding =
  bd_Name :: string
  bd_Type :: string
  bd_BindingType_Style :: "string option"
  bd_Operations :: "bindingOperation list"

text \<open>A schema as the import resolver sees it: every listed type is a fresh object of
  the decoder, owned by its list, so the lists hold values. A map that may be nil is an
  option.\<close>

record schema =
  sch_TargetNamespace :: string
  sch_Namespaces :: "(string \<times> string) list"
  sch_Imports :: "string list"
  sch_Includes :: "string list"
  sch_SimpleTypes :: "simpleType list"
  sch_ComplexTypes :: "complexType list"
  sch_Elements :: "element list"

record definitions =
  df_TargetNamespace :: string
  df_Namespaces :: "(string \<times> string) list option"
  df_Schema :: schema
  df_Imports :: "string list"
  df_Messages :: "message list"
  df_PortType :: portType
  df_Binding :: binding

record goEncoder =
  ge_authInfo :: "(string \<times> string) list"
  ge_packageName :: "string option"
  ge_goClientType :: string
  ge_requestVersion :: string
  ge_generateOnlyInterface :: bool
  ge_generateOnlyTypes :: bool
  ge_noSimpleTypeIndirect :: bool
  ge_stypes :: "(string \<times> simpleType) list"
  ge_ctypes :: "(string \<times> nat) list"
  ge_typeAliases :: "(string \<times> string) list"
  ge_wroteOpStruct :: "string set"
  ge_elements :: "(string \<times> element) list"
  ge_funcs :: "(string \<times> operation) list"
  ge_funcnames :: "string list"
  ge_messages :: "(string \<times> message) list"
  ge_soapOps :: "(string \<times> bindingOperation) list"
  ge_needsDateType :: bool
  ge_needsTimeType :: bool
  ge_needsDateTimeType :: bool
  ge_needsDurationType :: bool
  ge_needsTag :: "(string \<times> string) list"
  ge_needsStdPkg :: "string list"
  ge_needsExtPkg :: "string list"
  ge_importedSchemas :: "string set"
  ge_usedNamespaces :: "(string \<times> string) list option"
  ge_localNamespace :: string

text \<open>\<^verbatim>\<open>NewEncoder\<close>: every cache empty. (\<^verbatim>\<open>usedNamespaces\<close> is left nil.)\<close>

definition NewEncoder :: goEncoder where
  "NewEncoder = \<lparr>ge_authInfo = [], ge_packageName = None, ge_goClientType = [],
     ge_requestVersion = [], ge_generateOnlyInterface = False, ge_generateOnlyTypes = False,
     ge_noSimpleTypeIndirect = False, ge_stypes = [], ge_ctypes = [], ge_typeAliases = [],
     ge_wroteOpStruct = {}, ge_elements = [], ge_funcs = [], ge_funcnames = [],
     ge_messages = [], ge_soapOps = [], ge_needsDateType = False, ge_needsTimeType = False,
     ge_needsDateTimeType = False, ge_needsDurationType = False, ge_needsTag = [],
     ge_needsStdPkg = [], ge_needsExtPkg = [], ge_importedSchemas = {},
     ge_usedNamespaces = None, ge_localNamespace = []\<rparr>"

text \<open>\<^verbatim>\<open>m[k] = true\<close> on a \<^verbatim>\<open>map[string]bool\<close> whose keys are kept as a list.\<close>

definition setKey :: "string \<Rightarrow> string list \<Rightarrow> string list" where
  "setKey k ks = (if k \<in> set ks then ks else ks @ [k])"

subsection \<open>The import resolver\<close>

text \<open>
  What lies outside the encoder is a parameter: the URL parser (\<^verbatim>\<open>net/url\<close>), the HTTP
  client, the file system and the XML decoder. Each is a function of its input, with
  \<open>Inl\<close> for the error it returns. A decoder for \<^verbatim>\<open>*wsdl.Definitions\<close> decodes into
  the definitions it is handed.
\<close>

record url =
  u_Scheme :: string
  u_Host :: string
  u_User :: "string option"
  u_Path :: string
  u_RawPath :: string

record world =
  w_urlParse :: "string \<Rightarrow> string + url"
  w_urlString :: "url \<Rightarrow> string"
  w_urlEscapedPath :: "url \<Rightarrow> string"
  w_httpGet :: "string \<Rightarrow> string + string"
  w_osOpen :: "string \<Rightarrow> string + string"
  w_decodeSchema :: "string \<Rightarrow> string + schema"
  w_decodeDefinitions :: "string \<Rightarrow> definitions \<Rightarrow> string + definitions"

text \<open>
  \<^verbatim>\<open>importRemote\<close>. The encoder is paired with a log of the locations fetched, one entry
  per call of \<^verbatim>\<open>http.Get\<close> or \<^verbatim>\<open>os.Open\<close>, in order. The result \<open>Inr None\<close> is the early
  \<^verbatim>\<open>return nil\<close> for a location already imported, which leaves \<open>v\<close> as it is;
  \<open>Inr (Some v)\<close> is a successful decode; \<open>Inl e\<close> is the error returned.
  Only the \<^verbatim>\<open>http\<close>/\<^verbatim>\<open>https\<close> case marks the location as imported.
\<close>

definition importRemote ::
  "world \<Rightarrow> (string \<Rightarrow> string + 'v) \<Rightarrow> goEncoder \<times> string list \<Rightarrow> string
     \<Rightarrow> (goEncoder \<times> string list) \<times> (string + 'v option)" where
  "importRemote W decode st location =
     (case st of (ge, log) \<Rightarrow>
        if location \<in> ge_importedSchemas ge then (st, Inr None)
        else (case w_urlParse W location of
          Inl err \<Rightarrow> (st, Inl err)
        | Inr u \<Rightarrow>
           if u_Scheme u = ''http'' \<or> u_Scheme u = ''https'' then
             (let u' = (if u_User u = None
                        then u\<lparr>u_User := map_of (ge_authInfo ge) (u_Host u)\<rparr> else u)
              in case w_httpGet W (w_urlString W u') of
                   Inl err \<Rightarrow> ((ge, log @ [location]), Inl err)
                 | Inr body \<Rightarrow>
                     ((ge\<lparr>ge_importedSchemas := insert location (ge_importedSchemas ge)\<rparr>,
                       log @ [location]),
                      (case decode body of Inl err \<Rightarrow> Inl err | Inr v \<Rightarrow> Inr (Some v))))
           else
             (case w_osOpen W (u_Path u) of
                Inl err \<Rightarrow>
                  ((ge, log @ [location]),
                   Inl (''could not open file raw: '' @ u_RawPath u @ '' path: '' @ u_Path u
                        @ '' escaped: '' @ w_urlEscapedPath W u @ '' : '' @ err))
              | Inr file \<Rightarrow>
                  ((ge, log @ [location]),
                   (case decode file of Inl err \<Rightarrow> Inl err | Inr v \<Rightarrow> Inr (Some v))))))"

text \<open>\<^verbatim>\<open>unionSchemasData\<close>: an assignment to an entry of a nil map panics.\<close>

definition unionSchemasData :: "definitions \<Rightarrow> schema \<Rightarrow> definitions outcome" where
  "unionSchemasData d s =
     (if sch_Namespaces s \<noteq> [] \<and> df_Namespaces d = None
      then Panic ''assignment to entry in nil map''
      else Done (d\<lparr>
        df_Namespaces :=
          (case df_Namespaces d of
             None \<Rightarrow> None
           | Some ns \<Rightarrow> Some (fold (\<lambda>(k, v). AList.update k v) (sch_Namespaces s) ns)),
        df_Schema := (df_Schema d)\<lparr>
          sch_ComplexTypes := sch_ComplexTypes (df_Schema d)
            @ map (\<lambda>ct. ct\<lparr>ct_TargetNamespace := sch_TargetNamespace s\<rparr>) (sch_ComplexTypes s),
          sch_SimpleTypes := sch_SimpleTypes (df_Schema d)
            @ map (\<lambda>st. st\<lparr>st_TargetNamespace := sch_TargetNamespace s\<rparr>) (sch_SimpleTypes s),
          sch_Elements := sch_Elements (df_Schema d) @ sch_Elements s\<rparr>\<rparr>))"

text \<open>The state the resolver threads: the encoder, the fetch log and the definitions.\<close>

type_synonym impState = "(goEncoder \<times> string list) \<times> definitions"

text \<open>A loop that calls \<open>f\<close> on each location and drops the error it returns, as the two
  loops at the end of \<^verbatim>\<open>includeImport\<close> do.\<close>

fun eachIgnoringError ::
  "(impState \<Rightarrow> string \<Rightarrow> (impState \<times> string option) outcome) \<Rightarrow> impState \<Rightarrow> string list
     \<Rightarrow> impState outcome" where
  "eachIgnoringError f st [] = Done st"
| "eachIgnoringError f st (location # items) =
     (case f st location of
        Done (st', err) \<Rightarrow> eachIgnoringError f st' items
      | Panic m \<Rightarrow> Panic m
      | OutOfFuel \<Rightarrow> OutOfFuel)"

text \<open>A loop that returns the first error, as the loops of \<^verbatim>\<open>importSchema\<close> do.\<close>

fun eachOrError ::
  "(impState \<Rightarrow> string \<Rightarrow> (impState \<times> string option) outcome) \<Rightarrow> impState \<Rightarrow> string list
     \<Rightarrow> (impState \<times> string option) outcome" where
  "eachOrError f st [] = Done (st, None)"
| "eachOrError f st (location # items) =
     (case f st location of
        Done (st', None) \<Rightarrow> eachOrError f st' items
      | Done (st', Some err) \<Rightarrow> Done (st', Some err)
      | Panic m \<Rightarrow> Panic m
      | OutOfFuel \<Rightarrow> OutOfFuel)"

text \<open>\<^verbatim>\<open>includeImport\<close>, with fuel for the depth of the recursion through the imports of
  the fetched schemas. The second component of the result is the error returned
  (\<open>None\<close> is \<^verbatim>\<open>nil\<close>).\<close>

primrec includeImport ::
  "nat \<Rightarrow> world \<Rightarrow> impState \<Rightarrow> string \<Rightarrow> (impState \<times> string option) outcome" where
  "includeImport 0 W st location = OutOfFuel"
| "includeImport (Suc n) W st location =
     (case st of (gl, d) \<Rightarrow>
        if location = [] \<or> location \<in> ge_importedSchemas (fst gl) then Done (st, None)
        else (case importRemote W (w_decodeSchema W) gl location of
          (gl', Inl err) \<Rightarrow> Done ((gl', d), Some err)
        | (gl', Inr v) \<Rightarrow>
            (let schema = (case v of
                             None \<Rightarrow> \<lparr>sch_TargetNamespace = [], sch_Namespaces = [],
                                       sch_Imports = [], sch_Includes = [], sch_SimpleTypes = [],
                                       sch_ComplexTypes = [], sch_Elements = []\<rparr>
                           | Some s \<Rightarrow> s)
             in case unionSchemasData d schema of
                  Done d' \<Rightarrow>
                    (case eachIgnoringError (includeImport n W) (gl', d') (sch_Imports schema) of
                       Done st1 \<Rightarrow>
                         (case eachIgnoringError (includeImport n W) st1 (sch_Includes schema) of
                            Done st2 \<Rightarrow> Done (st2, None)
                          | Panic m \<Rightarrow> Panic m
                          | OutOfFuel \<Rightarrow> OutOfFuel)
                     | Panic m \<Rightarrow> Panic m
                     | OutOfFuel \<Rightarrow> OutOfFuel)
                | Panic m \<Rightarrow> Panic m
                | OutOfFuel \<Rightarrow> OutOfFuel)))"

definition importSchema ::
  "nat \<Rightarrow> world \<Rightarrow> impState \<Rightarrow> (impState \<times> string option) outcome" where
  "importSchema n W st =
     (case eachOrError (includeImport n W) st (sch_Imports (df_Schema (snd st))) of
        Done (st1, None) \<Rightarrow> eachOrError (includeImport n W) st1 (sch_Includes (df_Schema (snd st)))
      | r \<Rightarrow> r)"

text \<open>\<^verbatim>\<open>importRoot\<close>: a fetched document is decoded into the definitions themselves.\<close>

fun importRoot ::
  "world \<Rightarrow> impState \<Rightarrow> string list \<Rightarrow> impState \<times> string option" where
  "importRoot W st [] = (st, None)"
| "importRoot W st (location # imports) =
     (if location = [] then importRoot W st imports
      else (case st of (gl, d) \<Rightarrow>
        (case importRemote W (\<lambda>body. w_decodeDefinitions W body d) gl location of
           (gl', Inl err) \<Rightarrow> ((gl', d), Some err)
         | (gl', Inr None) \<Rightarrow> importRoot W (gl', d) imports
         | (gl', Inr (Some d')) \<Rightarrow> importRoot W (gl', d') imports)))"

definition importParts ::
  "nat \<Rightarrow> world \<Rightarrow> impState \<Rightarrow> (impState \<times> string option) outcome" where
  "importParts n W st =
     (case importRoot W st (df_Imports (snd st)) of
        (st1, Some err) \<Rightarrow> Done (st1, Some err)
      | (st1, None) \<Rightarrow> importSchema n W st1)"

subsection \<open>Templates\<close>

text \<open>
  A parsed \<^verbatim>\<open>text/template\<close> is a list of nodes, executed in order; each node writes
  its text to the output as it is reached. \<^verbatim>\<open>{{index .X i}}\<close> fails when \<open>i\<close> is out of
  range: execution stops there and what was written stays written (the encoder ignores
  the error \<^verbatim>\<open>Execute\<close> returns).
\<close>

datatype node = Lit string | Index "string list" nat

fun execute :: "node list \<Rightarrow> string" where
  "execute [] = []"
| "execute (Lit s # ns) = s @ execute ns"
| "execute (Index xs i # ns) = (if i < length xs then xs ! i @ execute ns else [])"

subsection \<open>Comments and type names\<close>

fun commentWords :: "nat \<times> string \<Rightarrow> string list \<Rightarrow> string" where
  "commentWords (count, line) [] = (if line \<noteq> [] then line @ ''\<newline>'' else [])"
| "commentWords (count, line) (word # words) =
     (let count1 = (if line = [] then 2 else count);
          line1 = (if line = [] then ''//'' else line);
          count2 = count1 + length word
      in if count2 > 60 then line1 @ '' '' @ word @ ''\<newline>'' @ commentWords (0, []) words
         else commentWords (count2 + 1, line1 @ '' '' @ word) words)"

definition writeComments :: "string \<Rightarrow> string \<Rightarrow> string" where
  "writeComments typeName comment =
     (let c1 = trimBoth (\<lambda>c. c = CHR '' '')
                 (map (\<lambda>c. if c = CHR 0x0A then CHR '' '' else c) comment);
          c2 = (if c1 = [] then goSymbol typeName @ '' was auto-generated from WSDL.'' else c1)
      in commentWords (0, []) (split (CHR '' '') c2))"

text \<open>\<^verbatim>\<open>wsdl2goType\<close> records the date types it meets in the encoder.\<close>

definition wsdl2goType :: "goEncoder \<Rightarrow> string \<Rightarrow> goEncoder \<times> string" where
  "wsdl2goType ge t =
     (let v = trimns t; l = toLower v in
      if map_of (ge_stypes ge) v \<noteq> None then (ge, goSymbol v)
      else if l = ''byte'' \<or> l = ''unsignedbyte'' then (ge, ''byte'')
      else if l = ''int'' then (ge, ''int'')
      else if l = ''integer'' then (ge, ''int64'')
      else if l = ''long'' then (ge, ''int64'')
      else if l = ''float'' \<or> l = ''double'' \<or> l = ''decimal'' then (ge, ''float64'')
      else if l = ''boolean'' then (ge, ''bool'')
      else if l = ''hexbinary'' \<or> l = ''base64binary'' then (ge, ''[]byte'')
      else if l = ''string'' \<or> l = ''anyuri'' \<or> l = ''token'' \<or> l = ''nmtoken''
              \<or> l = ''qname'' \<or> l = ''language'' \<or> l = ''id'' then (ge, ''string'')
      else if l = ''date'' then (ge\<lparr>ge_needsDateType := True\<rparr>, ''Date'')
      else if l = ''time'' then (ge\<lparr>ge_needsTimeType := True\<rparr>, ''Time'')
      else if l = ''nonnegativeinteger'' then (ge, ''uint'')
      else if l = ''positiveinteger'' then (ge, ''uint64'')
      else if l = ''normalizedstring'' then (ge, ''string'')
      else if l = ''unsignedint'' then (ge, ''uint'')
      else if l = ''datetime'' then (ge\<lparr>ge_needsDateTimeType := True\<rparr>, ''DateTime'')
      else if l = ''duration'' then (ge\<lparr>ge_needsDurationType := True\<rparr>, ''Duration'')
      else if l = ''anysequence'' \<or> l = ''anytype'' \<or> l = ''anysimpletype''
        then (ge, ''interface{}'')
      else if l = ''idref'' then (ge, ''string'')
      else if l = ''idrefs'' then (ge, ''string'')
      else if map_of (ge_ctypes ge) (goSymbol v) = None then (ge, ''string'')
      else (ge, ''*'' @ goSymbol v))"

definition wsdl2goDefault :: "string \<Rightarrow> string" where
  "wsdl2goDefault t =
     (let v0 = trimns t;
          v = (case v0 of c # cs \<Rightarrow> (if c = CHR ''*'' then cs else v0) | [] \<Rightarrow> v0) in
      if v = ''error'' then ''errors.New('' @ DQ @ ''not implemented'' @ DQ @ '')''
      else if v = ''bool'' then ''false''
      else if v = ''uint'' \<or> v = ''int'' \<or> v = ''int64'' \<or> v = ''float64'' then ''0''
      else if v = ''string'' then DQ @ DQ
      else if v = ''[]byte'' \<or> v = ''interface{}'' then ''nil''
      else ''&'' @ v @ ''{}'')"

subsection \<open>Emitting types\<close>

definition sortedSimpleTypes :: "goEncoder \<Rightarrow> string list" where
  "sortedSimpleTypes ge = sort (map fst (ge_stypes ge))"

definition sortedComplexTypes :: "goEncoder \<Rightarrow> string list" where
  "sortedComplexTypes ge = sort (map fst (ge_ctypes ge))"

definition sortedOperations :: "goEncoder \<Rightarrow> string list" where
  "sortedOperations ge = sort (map fst (ge_soapOps ge))"

definition genDateTypes :: "goEncoder \<Rightarrow> string" where
  "genDateTypes ge =
     (if ge_needsDateType ge
        then writeComments ''Date'' ''Date in WSDL format.'' @ ''type Date string\<newline>\<newline>''
        else [])
     @ (if ge_needsTimeType ge
        then writeComments ''Time'' ''Time in WSDL format.'' @ ''type Time string\<newline>\<newline>''
        else [])
     @ (if ge_needsDateTimeType ge
        then writeComments ''DateTime'' ''DateTime in WSDL format.''
             @ ''type DateTime string\<newline>\<newline>''
        else [])
     @ (if ge_needsDurationType ge
        then writeComments ''Duration'' ''Duration in WSDL format.''
             @ ''type Duration string\<newline>\<newline>''
        else [])"

record validatorData =
  vd_TypeName :: string
  vd_Type :: string
  vd_Args :: "string list"

definition validatorT :: "validatorData \<Rightarrow> node list" where
  "validatorT d =
     [Lit (''\<newline>// Validate validates ''),
        Lit (vd_TypeName d),
        Lit (''.\<newline>func (v ''),
        Lit (vd_TypeName d),
        Lit ('') Validate() bool {\<newline>'' @ TAB @ ''for _, vv := range []''),
        Lit (vd_Type d),
        Lit ('' {\<newline>'' @ TAB @ TAB)]
     @ concat (map (\<lambda>arg.
          [Lit arg,
           Lit ('',''),
           Lit (''\<newline>'')])
         (vd_Args d))
     @ [Lit (''\<newline>'' @ TAB @ ''}{\<newline>'' @ TAB @ TAB @ ''if reflect.DeepEqual(v, vv) {\<newline>'' @ TAB @ TAB @ TAB @ ''return true\<newline>'' @ TAB @ TAB @ ''}\<newline>'' @ TAB @ ''}\<newline>'' @ TAB @ ''return false\<newline>}\<newline>'')]"

definition genValidator :: "goEncoder \<Rightarrow> string \<Rightarrow> restriction \<Rightarrow> goEncoder \<times> string" where
  "genValidator ge typeName r =
     (if rs_Enum r = [] then (ge, [])
      else case wsdl2goType ge (rs_Base r) of
        (ge1, t) \<Rightarrow>
          (ge1\<lparr>ge_needsStdPkg := setKey ''reflect'' (ge_needsStdPkg ge1)\<rparr>,
           execute (validatorT \<lparr>vd_TypeName = typeName, vd_Type = t,
             vd_Args = map (\<lambda>v. if t = ''string'' then goQuote (en_Value v) else en_Value v)
                         (rs_Enum r)\<rparr>)))"

definition genGoXMLTypeFunction :: "complexType \<Rightarrow> string" where
  "genGoXMLTypeFunction ct =
     (case ct_ComplexContent ct of
        None \<Rightarrow> []
      | Some cc \<Rightarrow>
         (case cc_Extension cc of
            None \<Rightarrow> []
          | Some ext \<Rightarrow>
             if ct_TargetNamespace ct = [] then []
             else if ex_Base ext \<noteq> [] \<and> \<not> ct_Abstract ct then
               writeComments ''SetXMLType'' []
               @ ''func (t *'' @ goSymbol (ct_Name ct) @ '') SetXMLType() {\<newline>''
               @ ''if t.OverrideTypeNamespace != nil {\<newline>''
               @ ''    t.TypeNamespace = *t.OverrideTypeNamespace\<newline>''
               @ ''} else {\<newline>''
               @ ''    t.TypeNamespace = '' @ DQ @ ct_TargetNamespace ct @ DQ @ ''\<newline>''
               @ ''}\<newline>}\<newline>\<newline>''
             else []))"

definition genXMLName :: "goEncoder \<Rightarrow> string \<Rightarrow> string \<Rightarrow> string" where
  "genXMLName ge targetNamespace name =
     (case map_of (ge_needsTag ge) name of
        None \<Rightarrow> []
      | Some elName \<Rightarrow>
          if ge_localNamespace ge = [] then
            ''XMLName xml.Name '' @ BQ @ ''xml:'' @ DQ @ targetNamespace @ '' '' @ elName @ DQ
            @ '' json:'' @ DQ @ ''-'' @ DQ @ '' yaml:'' @ DQ @ ''-'' @ DQ @ BQ @ ''\<newline>''
          else
            ''XMLName xml.Name '' @ BQ @ ''xml:'' @ DQ @ ge_localNamespace ge @ '':'' @ elName @ DQ
            @ '' json:'' @ DQ @ ''-'' @ DQ @ '' yaml:'' @ DQ @ ''-'' @ DQ @ BQ @ ''\<newline>'')"

text \<open>The tag line of a field: \<^verbatim>\<open>"%s `xml:\"%s\" json:\"%s\" yaml:\"%s\"`\n"\<close>.\<close>

definition fieldTags :: "string \<Rightarrow> string \<Rightarrow> string" where
  "fieldTags typ tag =
     typ @ '' '' @ BQ @ ''xml:'' @ DQ @ tag @ DQ @ '' json:'' @ DQ @ tag @ DQ
     @ '' yaml:'' @ DQ @ tag @ DQ @ BQ @ ''\<newline>''"

text \<open>
  The element \<^verbatim>\<open>genElementField\<close> goes on with when the element has no type but an
  inline complex type: the single element of its sequence (or of its choice, when there
  is no sequence) under the outer name, or an \<^verbatim>\<open>anysequence\<close> for a single wildcard.
  The second component is \<^verbatim>\<open>slicetype\<close>.
\<close>

definition collapseNested :: "heap \<Rightarrow> element \<Rightarrow> element \<times> string" where
  "collapseNested H el =
     (case el_ComplexType el of
        None \<Rightarrow> (el, [])
      | Some a \<Rightarrow>
         if el_Type el \<noteq> [] then (el, [])
         else
          (let ct = cts H a;
               seq = (case ct_Sequence ct of
                        Some s \<Rightarrow> Some s
                      | None \<Rightarrow>
                         (case ct_Choice ct of
                            None \<Rightarrow> None
                          | Some c \<Rightarrow> Some \<lparr>sq_ComplexTypes = ch_ComplexTypes c,
                              sq_Elements = ch_Elements c, sq_Any = ch_Any c, sq_Choices = []\<rparr>))
           in case seq of
                None \<Rightarrow> (el, [])
              | Some s \<Rightarrow>
                 (case sq_Elements s of
                    [seqel] \<Rightarrow> (seqel\<lparr>el_Name := el_Name el\<rparr>, el_Name seqel)
                  | _ \<Rightarrow>
                     (case sq_Any s of
                        [any] \<Rightarrow>
                          (\<lparr>el_Name = el_Name el, el_Type = ''anysequence'', el_Ref = [],
                            el_Min = any_Min any, el_Max = any_Max any, el_Nillable = False,
                            el_Tag = [], el_ComplexType = None\<rparr>, el_Name el)
                      | _ \<Rightarrow> (el, [])))))"

text \<open>\<^verbatim>\<open>genElementField\<close>. \<open>enrich ref el\<close> stands for \<^verbatim>\<open>refElement.Copy().Enrich(el)\<close>
  of package \<^verbatim>\<open>wsdl\<close>.\<close>

definition genElementField ::
  "(element \<Rightarrow> element \<Rightarrow> element) \<Rightarrow> goEncoder \<Rightarrow> heap \<Rightarrow> element \<Rightarrow> RedefinedStructFields
     \<Rightarrow> goEncoder \<times> RedefinedStructFields \<times> string" where
  "genElementField enrich ge H el0 redefined =
     (if el_Name el0 \<in> redefined then (ge, redefined, [])
      else
       (let redefined1 = insert (el_Name el0) redefined;
            resolved = (if el_Ref el0 \<noteq> [] then
                          (case map_of (ge_elements ge) (trimns (el_Ref el0)) of
                             None \<Rightarrow> None
                           | Some refElement \<Rightarrow> Some (enrich refElement el0))
                        else Some el0)
        in case resolved of
             None \<Rightarrow> (ge, redefined1, [])
           | Some el1 \<Rightarrow>
              (case collapseNested H el1 of
                 (el, slicetype) \<Rightarrow>
                  (let et = (if el_Type el = [] then ''string'' else el_Type el);
                       many = (el_Max el \<noteq> [] \<and> el_Max el \<noteq> ''1'');
                       tag0 = (if many \<and> slicetype \<noteq> [] then el_Name el @ ''>'' @ slicetype
                               else el_Name el)
                   in case wsdl2goType ge et of
                        (ge1, typ0) \<Rightarrow>
                         (let opt = (el_Nillable el \<or> el_Min el = 0);
                              tag1 = (if opt then tag0 @ '',omitempty'' else tag0);
                              typ = (if opt \<and> \<not> ge_noSimpleTypeIndirect ge1
                                        \<and> \<not> hasPrefix typ0 ''*''
                                     then ''*'' @ typ0 else typ0);
                              tag = (if el_Tag el \<noteq> [] then el_Tag el else tag1)
                          in (ge1, redefined1,
                              goSymbol (el_Name el) @ '' '' @ (if many then ''[]'' else [])
                              @ fieldTags typ tag))))))"

text \<open>\<^verbatim>\<open>genAttributeField\<close> writes the name and the type it settles on back into the
  attribute: the second component is the attribute as the call leaves it.\<close>

definition genAttributeField ::
  "goEncoder \<Rightarrow> attribute \<Rightarrow> RedefinedStructFields
     \<Rightarrow> goEncoder \<times> attribute \<times> RedefinedStructFields \<times> string" where
  "genAttributeField ge attr0 redefined =
     (if at_Name attr0 \<in> redefined then (ge, attr0, redefined, [])
      else
       (let redefined1 = insert (at_Name attr0) redefined;
            attr1 = (if at_Name attr0 = [] \<and> at_Ref attr0 \<noteq> []
                     then attr0\<lparr>at_Name := trimns (at_Ref attr0)\<rparr> else attr0);
            attr = (if at_Type attr1 = [] then attr1\<lparr>at_Type := ''string''\<rparr> else attr1);
            tagName = (if at_TagName attr = [] then at_Name attr else at_TagName attr);
            tag0 = tagName @ '',attr''
        in case wsdl2goType ge (at_Type attr) of
             (ge1, typ) \<Rightarrow>
               (let tag = (if at_Nillable attr \<or> at_Min attr = 0 then tag0 @ '',omitempty''
                           else tag0)
                in (ge1, attr, redefined1, goSymbol (at_Name attr) @ '' '' @ fieldTags typ tag))))"

text \<open>The loops of \<^verbatim>\<open>genStructFields\<close> over elements and over attributes. An attribute
  is an address: what \<^verbatim>\<open>genAttributeField\<close> writes into it is stored.\<close>

fun genElementFields ::
  "(element \<Rightarrow> element \<Rightarrow> element) \<Rightarrow> goEncoder \<Rightarrow> heap \<Rightarrow> element list
     \<Rightarrow> RedefinedStructFields \<Rightarrow> goEncoder \<times> RedefinedStructFields \<times> string" where
  "genElementFields enrich ge H [] redefined = (ge, redefined, [])"
| "genElementFields enrich ge H (el # els) redefined =
     (case genElementField enrich ge H el redefined of
        (ge1, redefined1, out1) \<Rightarrow>
          (case genElementFields enrich ge1 H els redefined1 of
             (ge2, redefined2, out2) \<Rightarrow> (ge2, redefined2, out1 @ out2)))"

fun genAttributeFields ::
  "goEncoder \<Rightarrow> heap \<Rightarrow> nat list \<Rightarrow> RedefinedStructFields
     \<Rightarrow> goEncoder \<times> heap \<times> RedefinedStructFields \<times> string" where
  "genAttributeFields ge H [] redefined = (ge, H, redefined, [])"
| "genAttributeFields ge H (a # as) redefined =
     (case genAttributeField ge (ats H a) redefined of
        (ge1, attr, redefined1, out1) \<Rightarrow>
          (case genAttributeFields ge1 (H\<lparr>ats := (ats H)(a := attr)\<rparr>) as redefined1 of
             (ge2, H2, redefined2, out2) \<Rightarrow> (ge2, H2, redefined2, out1 @ out2)))"

definition versionAttribute :: attribute where
  "versionAttribute = \<lparr>at_Name = ''Version'', at_Ref = [], at_Type = ''xsd:string'',
     at_ArrayType = [], at_TagName = [], at_Min = 0, at_Nillable = False\<rparr>"

definition genStructFields ::
  "(element \<Rightarrow> element \<Rightarrow> element) \<Rightarrow> goEncoder \<Rightarrow> heap \<Rightarrow> complexType
     \<Rightarrow> RedefinedStructFields \<Rightarrow> goEncoder \<times> heap \<times> string" where
  "genStructFields enrich ge H ct redefined =
     (let ownElements =
            ct_AllElements ct
            @ (case ct_Sequence ct of
                 None \<Rightarrow> []
               | Some s \<Rightarrow> sq_Elements s @ concat (map sc_Elements (sq_Choices s)))
            @ (case ct_Choice ct of
                 None \<Rightarrow> []
               | Some c \<Rightarrow>
                   ch_Elements c
                   @ (case ch_Sequence c of None \<Rightarrow> [] | Some s \<Rightarrow> sq_Elements s))
      in case genElementFields enrich ge H ownElements redefined of
           (ge1, redefined1, out1) \<Rightarrow>
             (case genAttributeFields ge1 H (ct_Attributes ct) redefined1 of
                (ge2, H2, redefined2, out2) \<Rightarrow>
                  if ge_requestVersion ge2 \<noteq> [] then
                    (case genAttributeField ge2 versionAttribute redefined2 of
                       (ge3, attr, redefined3, out3) \<Rightarrow> (ge3, H2, out1 @ out2 @ out3))
                  else (ge2, H2, out1 @ out2)))"

text \<open>The count \<open>c\<close> of \<^verbatim>\<open>genGoStruct\<close>: how many of "no flat fields", "no extension" and
  "no own content" hold.\<close>

definition emptinessCount :: "complexType \<Rightarrow> nat" where
  "emptinessCount ct =
     (if ct_AllElements ct = [] then 1 else 0)
     + (if (case ct_ComplexContent ct of None \<Rightarrow> True | Some cc \<Rightarrow> cc_Extension cc = None)
        then 1 else 0)
     + (if ct_Sequence ct = None \<and> ct_Choice ct = None then 1
        else if (case ct_Sequence ct of
                   None \<Rightarrow> False
                 | Some s \<Rightarrow> sq_ComplexTypes s = [] \<and> sq_Elements s = [] \<and> sq_Choices s = [])
          then 1
        else if (case ct_Choice ct of
                   None \<Rightarrow> False
                 | Some c \<Rightarrow> ch_ComplexTypes c = [] \<and> ch_Elements c = []
                     \<and> (case ch_Sequence c of None \<Rightarrow> True | Some s \<Rightarrow> sq_Elements s = []))
          then 1
        else 0)"

text \<open>The restriction of a SOAP array: one attribute, with an \<^verbatim>\<open>arrayType\<close>.\<close>

definition arrayTypeOf :: "heap \<Rightarrow> complexType \<Rightarrow> string option" where
  "arrayTypeOf H ct =
     (case ct_ComplexContent ct of
        None \<Rightarrow> None
      | Some cc \<Rightarrow>
         (case cc_Restriction cc of
            None \<Rightarrow> None
          | Some restr \<Rightarrow>
             (case rs_Attributes restr of
                [a] \<Rightarrow> (if at_ArrayType (ats H a) \<noteq> [] then Some (at_ArrayType (ats H a))
                        else None)
              | _ \<Rightarrow> None)))"

definition genGoStruct ::
  "(element \<Rightarrow> element \<Rightarrow> element) \<Rightarrow> goEncoder \<Rightarrow> heap \<Rightarrow> definitions \<Rightarrow> nat
     \<Rightarrow> goEncoder \<times> heap \<times> string" where
  "genGoStruct enrich ge H d a =
     (let ct = cts H a;
          c = emptinessCount ct;
          name = goSymbol (ct_Name ct);
          comments = writeComments name (ct_Doc ct)
      in if ct_Abstract ct then (ge, H, comments @ ''type '' @ name @ '' interface{}\<newline>\<newline>'')
         else if (case ct_Sequence ct of
                    None \<Rightarrow> False | Some s \<Rightarrow> sq_Any s \<noteq> [] \<and> sq_Elements s = [])
           then (ge, H, comments @ ''type '' @ name @ '' []interface{}\<newline>\<newline>'')
         else if (case ct_Choice ct of
                    None \<Rightarrow> False | Some ch \<Rightarrow> ch_Any ch \<noteq> [] \<and> ch_Elements ch = [])
           then (ge, H, comments @ ''type '' @ name @ '' []interface{}\<newline>\<newline>'')
         else case arrayTypeOf H ct of
           Some arrayType \<Rightarrow>
             (case wsdl2goType ge (takeWhile (\<lambda>c. c \<noteq> CHR ''['') (trimns arrayType)) of
                (ge1, typ) \<Rightarrow>
                  (ge1, H, comments @ ''type '' @ name @ '' struct {\<newline>''
                     @ ''Items []'' @ fieldTags typ ''item,omitempty''
                     @ ''}\<newline>\<newline>''))
         | None \<Rightarrow>
             if c > 2 \<and> ct_Attributes ct = [] \<and> ct_SimpleContent ct = None then
               (ge, H, comments @ ''type '' @ name @ '' struct {\<newline>''
                  @ genXMLName ge (df_TargetNamespace d) name @ ''}\<newline>\<newline>'')
             else
               (case genStructFields enrich ge H ct {} of
                  (ge1, H1, flds) \<Rightarrow>
                    (ge1, H1, comments @ ''type '' @ name @ '' struct {\<newline>''
                       @ genXMLName ge (df_TargetNamespace d) name
                       @ flds
                       @ (if (case ct_ComplexContent ct of
                                 None \<Rightarrow> False | Some cc \<Rightarrow> cc_Extension cc \<noteq> None)
                             \<or> (case ct_Choice ct of
                                   None \<Rightarrow> False | Some ch \<Rightarrow> ch_Sequence ch \<noteq> None)
                             \<or> ct_Sequence ct \<noteq> None
                          then ''TypeNamespace string '' @ BQ @ ''xml:'' @ DQ
                               @ ''xmlns,attr,omitempty'' @ DQ @ BQ @ ''\<newline>''
                               @ ''\<newline>''
                               @ ''OverrideTypeNamespace *string '' @ BQ @ ''xml:'' @ DQ @ ''-''
                               @ DQ @ BQ @ ''\<newline>''
                          else [])
                       @ ''}\<newline>\<newline>'')))"

text \<open>\<^verbatim>\<open>genOpStructMessage\<close>; \<open>None\<close> is the nil message, whose \<^verbatim>\<open>Name\<close> cannot be
  read.\<close>

fun genPartFields ::
  "(element \<Rightarrow> element \<Rightarrow> element) \<Rightarrow> goEncoder \<Rightarrow> heap \<Rightarrow> part list \<Rightarrow> goEncoder \<times> string" where
  "genPartFields enrich ge H [] = (ge, [])"
| "genPartFields enrich ge H (p # ps) =
     (let wsdlType = (if pt_Type p = [] then pt_Element p else pt_Type p);
          partName =
            (if pt_Element p \<noteq> [] then
               (case map_of (ge_elements ge) (trimns (pt_Element p)) of
                  Some el \<Rightarrow> trimns (el_Name el)
                | None \<Rightarrow>
                   (case map_of (ge_ctypes ge) (trimns (pt_Element p)) of
                      Some a \<Rightarrow> trimns (ct_Name (cts H a))
                    | None \<Rightarrow>
                       (case map_of (ge_stypes ge) (trimns (pt_Element p)) of
                          Some st \<Rightarrow> trimns (st_Name st)
                        | None \<Rightarrow> pt_Name p)))
             else pt_Name p)
      in case genElementField enrich ge H
                \<lparr>el_Name = partName, el_Type = wsdlType, el_Ref = [], el_Min = 0, el_Max = [],
                 el_Nillable = False, el_Tag = [], el_ComplexType = None\<rparr> {} of
           (ge1, redefined, out1) \<Rightarrow>
             (case genPartFields enrich ge1 H ps of
                (ge2, out2) \<Rightarrow> (ge2, out1 @ out2)))"

definition sanitizedOperationsType :: "string \<Rightarrow> string" where
  "sanitizedOperationsType opName = ''Operation'' @ goSymbol opName"

definition genOpStructMessage ::
  "(element \<Rightarrow> element \<Rightarrow> element) \<Rightarrow> goEncoder \<Rightarrow> heap \<Rightarrow> definitions \<Rightarrow> string
     \<Rightarrow> message option \<Rightarrow> (goEncoder \<times> string) outcome" where
  "genOpStructMessage enrich ge H d name message =
     (case message of
        None \<Rightarrow> Panic ''nil pointer dereference''
      | Some m \<Rightarrow>
         (let sanitizedMessageName = sanitizedOperationsType (msg_Name m) in
          if sanitizedMessageName \<in> ge_wroteOpStruct ge then Done (ge, [])
          else
           (let ge1 = ge\<lparr>ge_wroteOpStruct := insert sanitizedMessageName (ge_wroteOpStruct ge)\<rparr>
            in case genPartFields enrich ge1 H (msg_Parts m) of
                 (ge2, flds) \<Rightarrow>
                   Done (ge2,
                     writeComments sanitizedMessageName (''Operation wrapper for '' @ name @ ''.'')
                     @ writeComments sanitizedMessageName []
                     @ ''type '' @ sanitizedMessageName @ '' struct {\<newline>''
                     @ (case map_of (ge_needsTag ge1) sanitizedMessageName of
                          None \<Rightarrow> []
                        | Some elName \<Rightarrow>
                            ''XMLName xml.Name '' @ BQ @ ''xml:'' @ DQ @ df_TargetNamespace d
                            @ '' '' @ elName @ DQ @ '' json:'' @ DQ @ ''-'' @ DQ @ '' yaml:''
                            @ DQ @ ''-'' @ DQ @ BQ @ ''\<newline>'')
                     @ flds
                     @ ''}\<newline>\<newline>''))))"

text \<open>\<^verbatim>\<open>genGoOpStruct\<close> reads \<^verbatim>\<open>ge.funcs[bo.Name].Input.Message\<close> and the messages it
  names without a check: each missing link is a nil pointer dereference.\<close>

definition genGoOpStruct ::
  "(element \<Rightarrow> element \<Rightarrow> element) \<Rightarrow> goEncoder \<Rightarrow> heap \<Rightarrow> definitions \<Rightarrow> bindingOperation
     \<Rightarrow> (goEncoder \<times> string) outcome" where
  "genGoOpStruct enrich ge H d bo =
     (let name = goSymbol (bo_Name bo) in
      case map_of (ge_funcs ge) (bo_Name bo) of
        None \<Rightarrow> Panic ''nil pointer dereference''
      | Some f \<Rightarrow>
         (case op_Input f of
            None \<Rightarrow> Panic ''nil pointer dereference''
          | Some inMsg \<Rightarrow>
             (case map_of (ge_messages ge) (trimns inMsg) of
                None \<Rightarrow> Panic ''nil pointer dereference''
              | Some inputMessage \<Rightarrow>
                 (case (if msg_Parts inputMessage \<noteq> []
                        then genOpStructMessage enrich ge H d name (Some inputMessage)
                        else Done (ge, [])) of
                    Done (ge1, out1) \<Rightarrow>
                      (case op_Output f of
                         None \<Rightarrow> Panic ''nil pointer dereference''
                       | Some outMsg \<Rightarrow>
                          (case genOpStructMessage enrich ge1 H d name
                                  (map_of (ge_messages ge1) (trimns outMsg)) of
                             Done (ge2, out2) \<Rightarrow> Done (ge2, out1 @ out2)
                           | Panic m \<Rightarrow> Panic m
                           | OutOfFuel \<Rightarrow> OutOfFuel))
                  | Panic m \<Rightarrow> Panic m
                  | OutOfFuel \<Rightarrow> OutOfFuel))))"

subsection \<open>\<^verbatim>\<open>writeGoTypes\<close>\<close>

text \<open>The loop over the member types of a union: the Go names collected (\<open>ntypes\<close>) and
  the keys of \<^verbatim>\<open>baseTypes\<close>. A member that is not a key of \<^verbatim>\<open>ge.stypes\<close> makes the
  encoder panic.\<close>

fun unionMemberTypes ::
  "goEncoder \<Rightarrow> string \<Rightarrow> string list \<Rightarrow> string list \<Rightarrow> string list
     \<Rightarrow> (goEncoder \<times> string list \<times> string list) outcome" where
  "unionMemberTypes ge stname [] ntypes baseTypes = Done (ge, ntypes, baseTypes)"
| "unionMemberTypes ge stname (t0 # types) ntypes baseTypes =
     (let t = trimSpace t0 in
      if t = [] then unionMemberTypes ge stname types ntypes baseTypes
      else case wsdl2goType ge t of
        (ge1, goType) \<Rightarrow>
          (case map_of (ge_stypes ge1) t of
             Some st \<Rightarrow>
               (case st_Restriction st of
                  None \<Rightarrow> unionMemberTypes ge1 stname types (ntypes @ [goType]) baseTypes
                | Some r \<Rightarrow>
                    unionMemberTypes ge1 stname types (ntypes @ [goType])
                      (setKey (rs_Base r) baseTypes))
           | None \<Rightarrow>
               Panic (''Union for '' @ SQ @ stname @ SQ @ '': simple type '' @ SQ @ t @ SQ
                      @ '' must be in ge.stypes'')))"

fun unionSimpleTypes ::
  "restriction option list \<Rightarrow> string list \<Rightarrow> string list \<Rightarrow> string list \<times> string list" where
  "unionSimpleTypes [] ntypes baseTypes = (ntypes, baseTypes)"
| "unionSimpleTypes (t # ts) ntypes baseTypes =
     (case t of
        None \<Rightarrow> unionSimpleTypes ts (ntypes @ [''ANONIMOUS'']) baseTypes
      | Some r \<Rightarrow> unionSimpleTypes ts (ntypes @ [''ANONIMOUS'']) (setKey (rs_Base r) baseTypes))"

text \<open>One round of the loop over the sorted simple types.\<close>

definition writeSimpleType :: "goEncoder \<Rightarrow> simpleType \<Rightarrow> (goEncoder \<times> string) outcome" where
  "writeSimpleType ge st =
     (let stname = goSymbol (st_Name st) in
      case st_Restriction st of
        Some r \<Rightarrow>
          (case wsdl2goType ge (rs_Base r) of
             (ge1, base) \<Rightarrow>
               (case genValidator ge1 stname r of
                  (ge2, validator) \<Rightarrow>
                    Done (ge2, writeComments stname []
                      @ ''type '' @ stname @ '' '' @ base @ ''\<newline>\<newline>'' @ validator)))
      | None \<Rightarrow>
         (case st_Union st of
            None \<Rightarrow> Done (ge, [])
          | Some u \<Rightarrow>
             (case unionMemberTypes ge stname (split (CHR '' '') (un_MemberTypes u)) [] [] of
                Done (ge1, ntypes1, baseTypes1) \<Rightarrow>
                  (case unionSimpleTypes (un_SimpleTypes u) ntypes1 baseTypes1 of
                     (ntypes, baseTypes) \<Rightarrow>
                       (let doc = stname @ '' is a union of: '' @ join '', '' ntypes;
                            comments = writeComments stname doc
                        in case baseTypes of
                             [baseType] \<Rightarrow>
                               (case wsdl2goType ge1 baseType of
                                  (ge2, base) \<Rightarrow>
                                    Done (ge2, comments @ ''type '' @ stname @ '' '' @ base
                                                @ ''\<newline>\<newline>''))
                           | _ \<Rightarrow>
                               Done (ge1, comments @ ''type '' @ stname
                                           @ '' interface{}\<newline>\<newline>'')))
              | Panic m \<Rightarrow> Panic m
              | OutOfFuel \<Rightarrow> OutOfFuel)))"

text \<open>The three loops of \<^verbatim>\<open>writeGoTypes\<close>, each over the sorted keys of its catalog. A
  key that is absent from the catalog does not arise: the keys are those of the catalog.\<close>

fun writeSimpleTypes :: "goEncoder \<Rightarrow> string list \<Rightarrow> (goEncoder \<times> string) outcome" where
  "writeSimpleTypes ge [] = Done (ge, [])"
| "writeSimpleTypes ge (name # names) =
     (case map_of (ge_stypes ge) name of
        None \<Rightarrow> Panic ''nil pointer dereference''
      | Some st \<Rightarrow>
         (case writeSimpleType ge st of
            Done (ge1, out1) \<Rightarrow>
              (case writeSimpleTypes ge1 names of
                 Done (ge2, out2) \<Rightarrow> Done (ge2, out1 @ out2)
               | Panic m \<Rightarrow> Panic m
               | OutOfFuel \<Rightarrow> OutOfFuel)
          | Panic m \<Rightarrow> Panic m
          | OutOfFuel \<Rightarrow> OutOfFuel))"

fun writeComplexTypes ::
  "(element \<Rightarrow> element \<Rightarrow> element) \<Rightarrow> goEncoder \<Rightarrow> heap \<Rightarrow> definitions \<Rightarrow> string list
     \<Rightarrow> (goEncoder \<times> heap \<times> string) outcome" where
  "writeComplexTypes enrich ge H d [] = Done (ge, H, [])"
| "writeComplexTypes enrich ge H d (name # names) =
     (case map_of (ge_ctypes ge) name of
        None \<Rightarrow> Panic ''nil pointer dereference''
      | Some a \<Rightarrow>
         (case genGoStruct enrich ge H d a of
            (ge1, H1, out1) \<Rightarrow>
              (case writeComplexTypes enrich ge1 H1 d names of
                 Done (ge2, H2, out2) \<Rightarrow>
                   Done (ge2, H2, out1 @ genGoXMLTypeFunction (cts H1 a) @ out2)
               | Panic m \<Rightarrow> Panic m
               | OutOfFuel \<Rightarrow> OutOfFuel)))"

fun writeOpStructs ::
  "(element \<Rightarrow> element \<Rightarrow> element) \<Rightarrow> goEncoder \<Rightarrow> heap \<Rightarrow> definitions \<Rightarrow> string list
     \<Rightarrow> (goEncoder \<times> string) outcome" where
  "writeOpStructs enrich ge H d [] = Done (ge, [])"
| "writeOpStructs enrich ge H d (name # names) =
     (case map_of (ge_soapOps ge) name of
        None \<Rightarrow> Panic ''nil pointer dereference''
      | Some bo \<Rightarrow>
         (case genGoOpStruct enrich ge H d bo of
            Done (ge1, out1) \<Rightarrow>
              (case writeOpStructs enrich ge1 H d names of
                 Done (ge2, out2) \<Rightarrow> Done (ge2, out1 @ out2)
               | Panic m \<Rightarrow> Panic m
               | OutOfFuel \<Rightarrow> OutOfFuel)
          | Panic m \<Rightarrow> Panic m
          | OutOfFuel \<Rightarrow> OutOfFuel))"

text \<open>\<^verbatim>\<open>writeGoTypes\<close>: the date types the body turned out to need come first in the
  output. The error it returns is always nil.\<close>

definition writeGoTypes ::
  "(element \<Rightarrow> element \<Rightarrow> element) \<Rightarrow> goEncoder \<Rightarrow> heap \<Rightarrow> definitions
     \<Rightarrow> (goEncoder \<times> heap \<times> string) outcome" where
  "writeGoTypes enrich ge H d =
     (case writeSimpleTypes ge (sortedSimpleTypes ge) of
        Done (ge1, out1) \<Rightarrow>
          (case writeComplexTypes enrich ge1 H d (sortedComplexTypes ge1) of
             Done (ge2, H2, out2) \<Rightarrow>
               (case writeOpStructs enrich ge2 H2 d (sortedOperations ge2) of
                  Done (ge3, out3) \<Rightarrow> Done (ge3, H2, genDateTypes ge3 @ out1 @ out2 @ out3)
                | Panic m \<Rightarrow> Panic m
                | OutOfFuel \<Rightarrow> OutOfFuel)
           | Panic m \<Rightarrow> Panic m
           | OutOfFuel \<Rightarrow> OutOfFuel)
      | Panic m \<Rightarrow> Panic m
      | OutOfFuel \<Rightarrow> OutOfFuel)"

subsection \<open>Operations: parameters, the interface and the client functions\<close>

record parameter =
  pm_code :: string
  pm_dataType :: string
  pm_xmlToken :: string

definition isGoKeyword :: "string \<Rightarrow> bool" where
  "isGoKeyword s = (s \<in> set [''break'', ''case'', ''chan'', ''const'', ''continue'', ''default'',
     ''else'', ''defer'', ''fallthrough'', ''for'', ''func'', ''go'', ''goto'', ''if'', ''import'',
     ''interface'', ''map'', ''package'', ''range'', ''return'', ''select'', ''struct'', ''switch'',
     ''type'', ''var''])"

definition maskKeywordUsage :: "string \<Rightarrow> string" where
  "maskKeywordUsage c = (if isGoKeyword c then ''_'' @ c else c)"

definition code :: "parameter list \<Rightarrow> string list" where
  "code list = map (\<lambda>p. maskKeywordUsage (pm_code p) @ '' '' @ pm_dataType p) list"

definition codeParams :: "parameter list \<Rightarrow> string list" where
  "codeParams list = map pm_dataType list"

definition inputArgs :: "string list \<Rightarrow> string" where
  "inputArgs ins = join '','' (''ctx context.Context'' # ins)"

text \<open>One round of the loop of \<^verbatim>\<open>genParams\<close>.\<close>

definition genParam :: "goEncoder \<Rightarrow> part \<Rightarrow> bool \<Rightarrow> goEncoder \<times> parameter" where
  "genParam ge param needsTag =
     (case (if pt_Type param \<noteq> [] then
              (case wsdl2goType ge (pt_Type param) of
                 (ge1, t) \<Rightarrow> (ge1, pt_Name param, t, t, trimns (pt_Type param)))
            else if pt_Element param \<noteq> [] then
              (case (case map_of (ge_elements ge) (trimns (pt_Element param)) of
                       Some el \<Rightarrow> wsdl2goType ge (trimns (el_Type el))
                     | None \<Rightarrow> wsdl2goType ge (pt_Element param)) of
                 (ge1, t) \<Rightarrow>
                   (ge1, goSymbol (pt_Element param), t, trimns (pt_Element param),
                    trimns (pt_Element param)))
            else (ge, pt_Name param, [], [], [])) of
        (ge1, c, t, token, elName) \<Rightarrow>
          ((if needsTag then
              ge1\<lparr>ge_needsStdPkg := setKey ''encoding/xml'' (ge_needsStdPkg ge1),
                  ge_needsTag := AList.update (trimPrefix t ''*'') elName (ge_needsTag ge1)\<rparr>
            else ge1),
           \<lparr>pm_code = c, pm_dataType = t, pm_xmlToken = token\<rparr>))"

fun genParamsLoop :: "goEncoder \<Rightarrow> part list \<Rightarrow> bool \<Rightarrow> goEncoder \<times> parameter list" where
  "genParamsLoop ge [] needsTag = (ge, [])"
| "genParamsLoop ge (param # parts) needsTag =
     (case genParam ge param needsTag of
        (ge1, p) \<Rightarrow>
          (case genParamsLoop ge1 parts needsTag of
             (ge2, ps) \<Rightarrow> (ge2, p # ps)))"

definition genParams :: "goEncoder \<Rightarrow> message \<Rightarrow> bool \<Rightarrow> goEncoder \<times> parameter list" where
  "genParams ge m needsTag = genParamsLoop ge (msg_Parts m) needsTag"

text \<open>\<^verbatim>\<open>inputParams\<close> and \<^verbatim>\<open>outputParams\<close>: \<open>Inl\<close> is the error returned for a message
  that is not defined.\<close>

definition inputParams :: "goEncoder \<Rightarrow> operation \<Rightarrow> goEncoder \<times> (string + parameter list)" where
  "inputParams ge op =
     (case op_Input op of
        None \<Rightarrow> (ge, Inr [])
      | Some msg \<Rightarrow>
         (let im = trimns msg in
          case map_of (ge_messages ge) im of
            None \<Rightarrow> (ge, Inl (''operation '' @ goQuote (op_Name op) @ '' wants input message ''
                               @ goQuote im @ '' but it'' @ SQ @ ''s not defined''))
          | Some req \<Rightarrow> (case genParams ge req False of (ge1, ps) \<Rightarrow> (ge1, Inr ps))))"

definition errParameter :: parameter where
  "errParameter = \<lparr>pm_code = ''err'', pm_dataType = ''error'', pm_xmlToken = []\<rparr>"

definition outputParams :: "goEncoder \<Rightarrow> operation \<Rightarrow> goEncoder \<times> (string + parameter list)" where
  "outputParams ge op =
     (case op_Output op of
        None \<Rightarrow> (ge, Inr [errParameter])
      | Some msg \<Rightarrow>
         (let om = trimns msg in
          case map_of (ge_messages ge) om of
            None \<Rightarrow> (ge, Inl (''operation '' @ goQuote (op_Name op) @ '' wants output message ''
                               @ goQuote om @ '' but it'' @ SQ @ ''s not defined''))
          | Some resp \<Rightarrow>
              (case genParams ge resp False of (ge1, ps) \<Rightarrow> (ge1, Inr (ps @ [errParameter])))))"

definition getGoClientType :: "goEncoder \<Rightarrow> definitions \<Rightarrow> string" where
  "getGoClientType ge d =
     (if ge_goClientType ge \<noteq> [] then ge_goClientType ge else ptt_Name (df_PortType d))"

text \<open>\<^verbatim>\<open>strings.ToLower(n)[:1] + n[1:]\<close> and \<^verbatim>\<open>strings.ToUpper(s[:1]) + s[1:]\<close>: slicing
  the empty string at 1 panics.\<close>

definition lowerFirst :: "string \<Rightarrow> string outcome" where
  "lowerFirst n = (case n of [] \<Rightarrow> Panic ''slice bounds out of range'' | c # cs \<Rightarrow> Done (toLowerC c # cs))"

definition upperFirst :: "string \<Rightarrow> string outcome" where
  "upperFirst s = (case s of [] \<Rightarrow> Panic ''slice bounds out of range'' | c # cs \<Rightarrow> Done (toUpperC c # cs))"

text \<open>\<^verbatim>\<open>fixFuncNameConflicts\<close> appends \<^verbatim>\<open>Func\<close> until the name is no type's name. Each
  round makes the name longer, so it ends once the name is longer than every type name.\<close>

function fixFuncNameConflicts :: "goEncoder \<Rightarrow> string \<Rightarrow> string" where
  "fixFuncNameConflicts ge name =
     (if map_of (ge_stypes ge) name \<noteq> None then fixFuncNameConflicts ge (name @ ''Func'')
      else if map_of (ge_ctypes ge) name \<noteq> None then fixFuncNameConflicts ge (name @ ''Func'')
      else name)"
  by pat_completeness auto
termination
proof (relation "measure (\<lambda>(ge, name).
    card {k \<in> fst ` set (ge_stypes ge) \<union> fst ` set (ge_ctypes ge). length name \<le> length k})")
  show "wf (measure (\<lambda>(ge, name).
    card {k \<in> fst ` set (ge_stypes ge) \<union> fst ` set (ge_ctypes ge). length name \<le> length k}))"
    by simp
next
  fix ge :: goEncoder and name :: string
  let ?K = "fst ` set (ge_stypes ge) \<union> fst ` set (ge_ctypes ge)"
  have less: "name \<in> ?K \<Longrightarrow>
      card {k \<in> ?K. length (name @ ''Func'') \<le> length k} < card {k \<in> ?K. length name \<le> length k}"
  proof -
    assume m: "name \<in> ?K"
    have "name \<in> {k \<in> ?K. length name \<le> length k}"
      and "name \<notin> {k \<in> ?K. length (name @ ''Func'') \<le> length k}"
      and "{k \<in> ?K. length (name @ ''Func'') \<le> length k} \<subseteq> {k \<in> ?K. length name \<le> length k}"
      using m by auto
    then have "{k \<in> ?K. length (name @ ''Func'') \<le> length k} \<subset> {k \<in> ?K. length name \<le> length k}"
      by blast
    then show ?thesis by (intro psubset_card_mono) auto
  qed
  {
    assume "map_of (ge_stypes ge) name \<noteq> None"
    then have "name \<in> ?K" by (auto simp: map_of_eq_None_iff)
    then show "((ge, name @ ''Func''), (ge, name)) \<in> measure (\<lambda>(ge, name).
      card {k \<in> fst ` set (ge_stypes ge) \<union> fst ` set (ge_ctypes ge). length name \<le> length k})"
      using less by simp
  }
  {
    assume "\<not> map_of (ge_stypes ge) name \<noteq> None" "map_of (ge_ctypes ge) name \<noteq> None"
    then have "name \<in> ?K" by (auto simp: map_of_eq_None_iff)
    then show "((ge, name @ ''Func''), (ge, name)) \<in> measure (\<lambda>(ge, name).
      card {k \<in> fst ` set (ge_stypes ge) \<union> fst ` set (ge_ctypes ge). length name \<le> length k})"
      using less by simp
  }
qed

record interfaceTypeFunc =
  itf_Doc :: string
  itf_Name :: string
  itf_Input :: string
  itf_Output :: string

record interfaceType =
  it_Name :: string
  it_Impl :: string
  it_Funcs :: "interfaceTypeFunc list"

definition interfaceTypeT :: "interfaceType \<Rightarrow> node list" where
  "interfaceTypeT d =
     [Lit (''\<newline>// new''),
        Lit (it_Name d),
        Lit ('' creates an initializes a ''),
        Lit (it_Name d),
        Lit (''.\<newline>func new''),
        Lit (it_Name d),
        Lit (''(cli *client) ''),
        Lit (it_Name d),
        Lit ('' {\<newline>'' @ TAB @ ''return &''),
        Lit (it_Impl d),
        Lit (''{cli}\<newline>}\<newline>\<newline>// ''),
        Lit (it_Name d),
        Lit ('' was auto-generated from WSDL\<newline>// and defines interface for the remote service. Useful for testing.\<newline>type ''),
        Lit (it_Name d),
        Lit ('' interface {'')]
     @ concat (map (\<lambda>f.
          [Lit (''\<newline>''),
           Lit (itf_Doc f),
           Lit (itf_Name f),
           Lit (''(''),
           Lit (itf_Input f),
           Lit ('') (''),
           Lit (itf_Output f),
           Lit ('')\<newline>'')])
         (it_Funcs d))
     @ [Lit (''\<newline>}\<newline>'')]"

record portTypeData =
  ptd_Name :: string
  ptd_Interface :: string

definition portTypeT :: "portTypeData \<Rightarrow> node list" where
  "portTypeT d =
     [Lit (''\<newline>// ''),
        Lit (ptd_Name d),
        Lit ('' implements the ''),
        Lit (ptd_Interface d),
        Lit ('' interface.\<newline>type ''),
        Lit (ptd_Name d),
        Lit ('' struct {\<newline>'' @ TAB @ ''cli *client\<newline>}\<newline>\<newline>'')]"

text \<open>The data of the two templates of a client function. The struct handed to
  \<^verbatim>\<open>soapFuncT\<close> has no \<^verbatim>\<open>RoundTripType\<close> and no \<^verbatim>\<open>Action\<close>; neither template mentions
  either field.\<close>

record soapFuncData =
  sf_RoundTripType :: string
  sf_Action :: string
  sf_GoClientType :: string
  sf_Name :: string
  sf_OpName :: string
  sf_OpInputDataType :: string
  sf_InputNames :: "string list"
  sf_OpResponseName :: string
  sf_OpResponseDataType :: string
  sf_OpOutputNames :: "string list"
  sf_OpOutputPrefixes :: "string list"
  sf_Input :: string
  sf_Output :: string
  sf_RetDef :: string
  sf_RPCStyle :: bool

definition soapFuncT :: "soapFuncData \<Rightarrow> node list" where
  "soapFuncT d =
     [Lit (''func (c *''),
        Lit (sf_GoClientType d),
        Lit ('') ''),
        Lit (sf_Name d),
        Lit (''(''),
        Lit (sf_Input d),
        Lit ('') (''),
        Lit (sf_Output d),
        Lit ('') {\<newline>'' @ TAB @ [CHR 0xCE] @ [CHR 0xB1] @ '' := struct {\<newline>'' @ TAB @ TAB)]
     @ (if sf_OpInputDataType d \<noteq> []
        then [Lit (''\<newline>'' @ TAB @ TAB @ TAB)]
          @ (if sf_RPCStyle d
           then [Lit (''M'')]
           else [])
          @ [Lit ('' ''),
           Lit (sf_OpInputDataType d),
           Lit ('' '' @ BQ @ ''xml:'' @ DQ),
           Lit (sf_OpName d),
           Lit (DQ @ BQ @ ''\<newline>'' @ TAB @ TAB)]
        else [])
     @ [Lit (''\<newline>'' @ TAB @ ''}{\<newline>'' @ TAB @ TAB)]
     @ (if sf_OpInputDataType d \<noteq> []
        then [Lit (sf_OpInputDataType d),
           Lit ('' {\<newline>'' @ TAB @ TAB @ TAB)]
          @ concat (map (\<lambda>element.
             [Lit element,
              Lit ('',\<newline>'' @ TAB @ TAB @ TAB)])
            (sf_InputNames d))
          @ [Lit (''\<newline>'' @ TAB @ TAB @ ''},'')]
        else [])
     @ [Lit (''\<newline>'' @ TAB @ ''}\<newline>\<newline>'' @ TAB @ [CHR 0xCE] @ [CHR 0xB3] @ '' := struct {\<newline>'' @ TAB @ TAB)]
     @ (if sf_OpResponseDataType d \<noteq> []
        then [Lit (''\<newline>'' @ TAB @ TAB @ TAB)]
          @ (if sf_RPCStyle d
           then [Lit (''M '')]
           else [])
          @ [Lit (sf_OpResponseDataType d),
           Lit ('' '' @ BQ @ ''xml:'' @ DQ),
           Lit (sf_OpResponseName d),
           Lit (DQ @ BQ @ ''\<newline>'' @ TAB @ TAB)]
        else [])
     @ [Lit (''\<newline>'' @ TAB @ ''}{}\<newline>'' @ TAB @ ''if err := c.cli.RoundTripWithAction('' @ DQ),
        Lit (sf_Name d),
        Lit (DQ @ '', '' @ [CHR 0xCE] @ [CHR 0xB1] @ '', &'' @ [CHR 0xCE] @ [CHR 0xB3] @ ''); err != nil {\<newline>'' @ TAB @ TAB @ ''return ''),
        Lit (sf_RetDef d),
        Lit (''\<newline>'' @ TAB @ ''}\<newline>'' @ TAB @ ''return '')]
     @ concat (map (\<lambda>(index, element).
          [Index (sf_OpOutputPrefixes d) index,
           Lit ([CHR 0xCE] @ [CHR 0xB3] @ ''.'')]
          @ (if sf_RPCStyle d
           then [Lit (''M.'')]
           else [])
          @ [Lit element,
           Lit ('', '')])
         (enumerate 0 (sf_OpOutputNames d)))
     @ [Lit (''nil\<newline>}\<newline>'')]"

definition soapActionFuncT :: "soapFuncData \<Rightarrow> node list" where
  "soapActionFuncT d =
     [Lit (''func (c *''),
        Lit (sf_GoClientType d),
        Lit ('') ''),
        Lit (sf_Name d),
        Lit (''(''),
        Lit (sf_Input d),
        Lit ('') (''),
        Lit (sf_Output d),
        Lit ('') {\<newline>    ''),
        Index (sf_InputNames d) 0,
        Lit (''.Version = RequestVersion\<newline>    ''),
        Index (sf_InputNames d) 0,
        Lit (''.TypeNamespace = Namespace\<newline>    ''),
        Index (sf_InputNames d) 0,
        Lit (''.Party = c.cli.party\<newline>\<newline>'' @ TAB @ ''req := struct {\<newline>'' @ TAB @ TAB)]
     @ (if sf_OpInputDataType d \<noteq> []
        then [Lit (''\<newline>'' @ TAB @ TAB @ TAB)]
          @ (if sf_RPCStyle d
           then [Lit (''M'')]
           else [])
          @ [Lit ('' ''),
           Lit (sf_OpInputDataType d),
           Lit ('' '' @ BQ @ ''xml:'' @ DQ),
           Lit (sf_OpName d),
           Lit (DQ @ BQ @ ''\<newline>'' @ TAB @ TAB)]
        else [])
     @ [Lit (''\<newline>'' @ TAB @ ''}{\<newline>'' @ TAB @ TAB)]
     @ (if sf_OpInputDataType d \<noteq> []
        then [Lit (sf_OpInputDataType d),
           Lit ('' {\<newline>'' @ TAB @ TAB @ TAB)]
          @ concat (map (\<lambda>element.
             [Lit element,
              Lit ('',\<newline>'' @ TAB @ TAB @ TAB)])
            (sf_InputNames d))
          @ [Lit (''\<newline>'' @ TAB @ TAB @ ''},'')]
        else [])
     @ [Lit (''\<newline>'' @ TAB @ ''}\<newline>\<newline>'' @ TAB @ ''res := struct {\<newline>'' @ TAB @ TAB @ ''XMLName  xml.Name '' @ BQ @ ''xml:'' @ DQ @ ''Envelope'' @ DQ @ BQ @ ''\<newline>'' @ TAB @ TAB @ ''XMLNSNS2 string   '' @ BQ @ ''xml:'' @ DQ @ ''xmlns:ns2,attr'' @ DQ @ BQ @ ''\<newline>'' @ TAB @ TAB @ ''XMLNSNS3 string   '' @ BQ @ ''xml:'' @ DQ @ ''xmlns:ns3,attr'' @ DQ @ BQ @ ''\<newline>        Body     struct {\<newline>            '')]
     @ (if sf_OpResponseDataType d \<noteq> []
        then [Lit (''\<newline>                '')]
          @ (if sf_RPCStyle d
           then [Lit (''M '')]
           else [])
          @ [Index (sf_OpOutputNames d) 0,
           Lit ('' ''),
           Index (sf_OpOutputNames d) 0,
           Lit (''\<newline>            '')]
        else [])
     @ [Lit (''\<newline>        } '' @ BQ @ ''xml:'' @ DQ @ ''Body'' @ DQ @ BQ @ ''\<newline>'' @ TAB @ ''}{}\<newline>\<newline>    err := c.cli.call(ctx, '' @ DQ),
        Lit (sf_Name d),
        Lit (DQ @ '', req, &res)\<newline>    if err != nil {\<newline>'' @ TAB @ TAB @ ''return nil, err\<newline>    }\<newline>\<newline>    return &res.Body.''),
        Index (sf_OpOutputNames d) 0,
        Lit ('', nil\<newline>}\<newline>'')]"

text \<open>The loop of \<^verbatim>\<open>writeInterfaceFuncs\<close>: an operation without a binding operation is
  skipped.\<close>

fun interfaceFuncs ::
  "goEncoder \<Rightarrow> string list \<Rightarrow> (goEncoder \<times> (string + interfaceTypeFunc list)) outcome" where
  "interfaceFuncs ge [] = Done (ge, Inr [])"
| "interfaceFuncs ge (fn # fns) =
     (case map_of (ge_funcs ge) fn of
        None \<Rightarrow> Panic ''nil pointer dereference''
      | Some op \<Rightarrow>
         if map_of (ge_soapOps ge) (op_Name op) = None then interfaceFuncs ge fns
         else
          (case inputParams ge op of
             (ge1, Inl err) \<Rightarrow> Done (ge1, Inl err)
           | (ge1, Inr inParams) \<Rightarrow>
              (case outputParams ge1 op of
                 (ge2, Inl err) \<Rightarrow> Done (ge2, Inl err)
               | (ge2, Inr outParams) \<Rightarrow>
                  (let name = goSymbol (op_Name op);
                       f = \<lparr>itf_Doc = writeComments name (op_Doc op), itf_Name = name,
                            itf_Input = inputArgs (code inParams),
                            itf_Output = join '','' (codeParams outParams)\<rparr>
                   in case interfaceFuncs ge2 fns of
                        Done (ge3, Inr fs) \<Rightarrow> Done (ge3, Inr (f # fs))
                      | r \<Rightarrow> r))))"

text \<open>The writers return the encoder, the text written and the error (\<open>None\<close> is nil).\<close>

definition writeInterfaceFuncs ::
  "goEncoder \<Rightarrow> definitions \<Rightarrow> (goEncoder \<times> string \<times> string option) outcome" where
  "writeInterfaceFuncs ge d =
     (case interfaceFuncs ge (ge_funcnames ge) of
        Done (ge1, Inl err) \<Rightarrow> Done (ge1, [], Some err)
      | Done (ge1, Inr funcs) \<Rightarrow>
         (let n = getGoClientType ge1 d in
          case lowerFirst n of
            Done impl \<Rightarrow>
              Done (ge1, execute (interfaceTypeT
                     \<lparr>it_Name = goSymbol n, it_Impl = impl, it_Funcs = funcs\<rparr>), None)
          | Panic m \<Rightarrow> Panic m
          | OutOfFuel \<Rightarrow> OutOfFuel)
      | Panic m \<Rightarrow> Panic m
      | OutOfFuel \<Rightarrow> OutOfFuel)"

definition writeGoClientType ::
  "goEncoder \<Rightarrow> definitions \<Rightarrow> (goEncoder \<times> string \<times> string option) outcome" where
  "writeGoClientType ge d =
     (if ge_funcs ge = [] then Done (ge, [], None)
      else
       (let n = getGoClientType ge d in
        case lowerFirst n of
          Done impl \<Rightarrow>
            Done (ge, execute (portTypeT \<lparr>ptd_Name = impl, ptd_Interface = goSymbol n\<rparr>), None)
        | Panic m \<Rightarrow> Panic m
        | OutOfFuel \<Rightarrow> OutOfFuel))"

text \<open>The loop of \<^verbatim>\<open>writeSOAPFunc\<close> over the output parameters but the last (the error):
  the field names of the response, the prefixes that dereference them, and the values
  returned on an error.\<close>

fun outputNames :: "parameter list \<Rightarrow> (string list \<times> string list \<times> string list) outcome" where
  "outputNames [] = Done ([], [], [])"
| "outputNames (p # ps) =
     (case upperFirst (pm_code p) of
        Done n \<Rightarrow>
          (case outputNames ps of
             Done (names, prefixes, defaults) \<Rightarrow>
               Done (n # names,
                     (if hasPrefix (pm_dataType p) ''*'' then [] else ''*'') # prefixes,
                     (if hasPrefix (pm_dataType p) ''*'' then ''nil''
                      else wsdl2goDefault (pm_dataType p)) # defaults)
           | r \<Rightarrow> r)
      | Panic m \<Rightarrow> Panic m
      | OutOfFuel \<Rightarrow> OutOfFuel)"

text \<open>The name of the message of an operation's input or output, as
  \<^verbatim>\<open>ge.messages[trimns(io.Message)].Name\<close> reads it.\<close>

definition messageName :: "goEncoder \<Rightarrow> string \<Rightarrow> string outcome" where
  "messageName ge msg =
     (case map_of (ge_messages ge) (trimns msg) of
        None \<Rightarrow> Panic ''nil pointer dereference''
      | Some m \<Rightarrow> Done (msg_Name m))"

text \<open>
  The fields \<^verbatim>\<open>writeSOAPFunc\<close> computes for its templates before it looks at the
  actions of the binding operation (\<^verbatim>\<open>RoundTripType\<close> and \<^verbatim>\<open>Action\<close> are filled in
  after). Every panic of \<^verbatim>\<open>writeSOAPFunc\<close> happens here, before anything is written.
\<close>

definition soapFuncFields ::
  "goEncoder \<Rightarrow> definitions \<Rightarrow> operation \<Rightarrow> parameter list \<Rightarrow> parameter list
     \<Rightarrow> soapFuncData outcome" where
  "soapFuncFields ge d op ins outs =
     (let rpcStyle = (bd_BindingType_Style (df_Binding d) = Some ''rpc'');
          inputNames = map (\<lambda>p. if hasPrefix (pm_dataType p) ''*''
                                 then maskKeywordUsage (pm_code p)
                                 else ''&'' @ maskKeywordUsage (pm_code p)) ins;
          outputDataTypes = map pm_dataType outs
      in if outs = [] then Panic ''makeslice: len out of range''
         else case outputNames (butlast outs) of
           Done (operationOutputNames, operationOutputPrefixes, defaults) \<Rightarrow>
            (let retDefaults = defaults @ [''err''] in
             case map_of (ge_funcs ge) (op_Name op) of
               None \<Rightarrow> Panic ''nil pointer dereference''
             | Some f \<Rightarrow>
                (case op_Input f of
                   None \<Rightarrow> Panic ''nil pointer dereference''
                 | Some fmsg \<Rightarrow>
                    (let nsSplit = split (CHR '':'') fmsg;
                         namespacedOpName = (if length nsSplit > 1
                                             then hd nsSplit @ '':'' @ op_Name op
                                             else op_Name op);
                         opResponseName = op_Name op @ ''Response'';
                         inType = (case op_Input op of
                                     Some msg \<Rightarrow>
                                       if ins \<noteq> [] then
                                         (case messageName ge msg of
                                            Done n \<Rightarrow> Done (sanitizedOperationsType n)
                                          | Panic m \<Rightarrow> Panic m
                                          | OutOfFuel \<Rightarrow> OutOfFuel)
                                       else if rpcStyle then Done ''struct{}'' else Done []
                                   | None \<Rightarrow> if rpcStyle then Done ''struct{}'' else Done [])
                     in case inType of
                          Done operationInputDataType0 \<Rightarrow>
                           (case (case op_Output op of
                                    Some msg \<Rightarrow>
                                      (case messageName ge msg of
                                         Done n \<Rightarrow>
                                           Done (operationInputDataType0,
                                                 sanitizedOperationsType n)
                                       | Panic m \<Rightarrow> Panic m
                                       | OutOfFuel \<Rightarrow> OutOfFuel)
                                  | None \<Rightarrow>
                                      Done (if rpcStyle then ''struct{}''
                                            else operationInputDataType0, [])) of
                              Done (operationInputDataType, operationOutputDataType) \<Rightarrow>
                               (case lowerFirst (getGoClientType ge d) of
                                  Done goClientType \<Rightarrow>
                                    Done \<lparr>sf_RoundTripType = [],
                                          sf_Action = [],
                                          sf_GoClientType = goClientType,
                                          sf_Name = goSymbol (op_Name op),
                                          sf_OpName = namespacedOpName,
                                          sf_OpInputDataType = operationInputDataType,
                                          sf_InputNames = inputNames,
                                          sf_OpResponseName = opResponseName,
                                          sf_OpResponseDataType = operationOutputDataType,
                                          sf_OpOutputNames = operationOutputNames,
                                          sf_OpOutputPrefixes = operationOutputPrefixes,
                                          sf_Input = inputArgs (code ins),
                                          sf_Output = join '','' outputDataTypes,
                                          sf_RetDef = join '','' retDefaults,
                                          sf_RPCStyle = rpcStyle\<rparr>
                                | Panic m \<Rightarrow> Panic m
                                | OutOfFuel \<Rightarrow> OutOfFuel)
                            | Panic m \<Rightarrow> Panic m
                            | OutOfFuel \<Rightarrow> OutOfFuel)
                        | Panic m \<Rightarrow> Panic m
                        | OutOfFuel \<Rightarrow> OutOfFuel)))
         | Panic m \<Rightarrow> Panic m
         | OutOfFuel \<Rightarrow> OutOfFuel)"

text \<open>\<^verbatim>\<open>writeSOAPFunc\<close>: the text written and the boolean returned. The action is the
  SOAP 1.2 one, or else the SOAP 1.1 one; \<^verbatim>\<open>soapActionFuncT\<close> is executed when it is not
  empty and \<^verbatim>\<open>soapFuncT\<close> otherwise.\<close>

definition writeSOAPFunc ::
  "goEncoder \<Rightarrow> definitions \<Rightarrow> operation \<Rightarrow> parameter list \<Rightarrow> parameter list
     \<Rightarrow> (string \<times> bool) outcome" where
  "writeSOAPFunc ge d op ins outs =
     (case map_of (ge_soapOps ge) (op_Name op) of
        None \<Rightarrow> Done ([], False)
      | Some bindingOp \<Rightarrow>
         (case soapFuncFields ge d op ins outs of
            Done dat \<Rightarrow>
              (let soapAction = (if bo_Operation_Action bindingOp = []
                                 then bo_Operation11_Action bindingOp
                                 else bo_Operation_Action bindingOp);
                   soapFunctionName = (if bo_Operation_Action bindingOp = []
                                       then ''RoundTripWithAction'' else ''RoundTripSoap12'')
               in if soapAction \<noteq> []
                  then Done (execute (soapActionFuncT
                               (dat\<lparr>sf_RoundTripType := soapFunctionName,
                                    sf_Action := soapAction\<rparr>)), True)
                  else Done (execute (soapFuncT dat), True))
          | Panic m \<Rightarrow> Panic m
          | OutOfFuel \<Rightarrow> OutOfFuel))"

text \<open>The function written for an operation that \<^verbatim>\<open>writeSOAPFunc\<close> declined.\<close>

definition stubFunc :: "goEncoder \<Rightarrow> operation \<Rightarrow> parameter list \<Rightarrow> parameter list \<Rightarrow> string" where
  "stubFunc ge op inParams outParams =
     ''func '' @ fixFuncNameConflicts ge (goSymbol (op_Name op))
     @ ''('' @ inputArgs (code inParams)
     @ '') ('' @ join '','' (codeParams outParams)
     @ '') {\<newline>return '' @ join '','' (map (\<lambda>p. wsdl2goDefault (pm_dataType p)) outParams)
     @ ''\<newline>}\<newline>\<newline>''"

text \<open>One round of the loop of \<^verbatim>\<open>writeGoClientFuncs\<close>. What was written before an error
  is returned stays written.\<close>

definition writeGoClientFunc ::
  "goEncoder \<Rightarrow> definitions \<Rightarrow> operation \<Rightarrow> (goEncoder \<times> string \<times> string option) outcome" where
  "writeGoClientFunc ge d op =
     (let comments = writeComments (op_Name op) (op_Doc op) in
      case inputParams ge op of
        (ge1, Inl err) \<Rightarrow> Done (ge1, comments, Some err)
      | (ge1, Inr inParams) \<Rightarrow>
         (case outputParams ge1 op of
            (ge2, Inl err) \<Rightarrow> Done (ge2, comments, Some err)
          | (ge2, Inr outParams) \<Rightarrow>
             (case writeSOAPFunc ge2 d op inParams outParams of
                Done (out, True) \<Rightarrow> Done (ge2, comments @ out, None)
              | Done (out, False) \<Rightarrow>
                  Done (ge2\<lparr>ge_needsStdPkg :=
                              setKey ''context'' (setKey ''errors'' (ge_needsStdPkg ge2))\<rparr>,
                        comments @ out @ stubFunc ge2 op inParams outParams, None)
              | Panic m \<Rightarrow> Panic m
              | OutOfFuel \<Rightarrow> OutOfFuel)))"

fun writeGoClientFuncsLoop ::
  "goEncoder \<Rightarrow> definitions \<Rightarrow> string list \<Rightarrow> (goEncoder \<times> string \<times> string option) outcome" where
  "writeGoClientFuncsLoop ge d [] = Done (ge, [], None)"
| "writeGoClientFuncsLoop ge d (fn # fns) =
     (case map_of (ge_funcs ge) fn of
        None \<Rightarrow> Panic ''nil pointer dereference''
      | Some op \<Rightarrow>
         (case writeGoClientFunc ge d op of
            Done (ge1, out1, None) \<Rightarrow>
              (case writeGoClientFuncsLoop ge1 d fns of
                 Done (ge2, out2, err) \<Rightarrow> Done (ge2, out1 @ out2, err)
               | r \<Rightarrow> r)
          | r \<Rightarrow> r))"

definition writeGoClientFuncs ::
  "goEncoder \<Rightarrow> definitions \<Rightarrow> (goEncoder \<times> string \<times> string option) outcome" where
  "writeGoClientFuncs ge0 d =
     (let ge = ge0\<lparr>ge_needsStdPkg :=
                  setKey ''encoding/xml'' (setKey ''context'' (ge_needsStdPkg ge0))\<rparr> in
      if bd_Type (df_Binding d) \<noteq> []
         \<and> trimns (bd_Type (df_Binding d)) \<noteq> trimns (ptt_Name (df_PortType d))
      then Done (ge, [], Some (''binding '' @ goQuote (bd_Name (df_Binding d))
                   @ '' requires port type '' @ goQuote (bd_Type (df_Binding d))
                   @ '' but it'' @ SQ @ ''s not defined''))
      else if ge_funcs ge = [] then Done (ge, [], None)
      else writeGoClientFuncsLoop ge d (ge_funcnames ge))"

subsection \<open>The registry of operations and messages\<close>

definition cacheFuncs :: "goEncoder \<Rightarrow> definitions \<Rightarrow> goEncoder" where
  "cacheFuncs ge d =
     (let funcs = fold (\<lambda>v. AList.update (op_Name v) v) (ptt_Operations (df_PortType d))
                    (ge_funcs ge)
      in ge\<lparr>ge_funcs := funcs, ge_funcnames := sort (map fst funcs)\<rparr>)"

definition cacheMessages :: "goEncoder \<Rightarrow> definitions \<Rightarrow> goEncoder" where
  "cacheMessages ge d =
     ge\<lparr>ge_messages := fold (\<lambda>v. AList.update (msg_Name v) v) (df_Messages d) (ge_messages ge)\<rparr>"

definition cacheSOAPOperations :: "goEncoder \<Rightarrow> definitions \<Rightarrow> goEncoder" where
  "cacheSOAPOperations ge d =
     ge\<lparr>ge_soapOps := fold (\<lambda>v. AList.update (bo_Name v) v) (bd_Operations (df_Binding d))
                         (ge_soapOps ge)\<rparr>"

text \<open>\<^verbatim>\<open>addVersionAttrToOpTypes\<close> makes two attributes and appends both to the input type
  of every operation, in the order the map of operations is ranged over (\<open>fs\<close>).\<close>

definition typeNamespaceAttribute :: attribute where
  "typeNamespaceAttribute = \<lparr>at_Name = ''TypeNamespace'', at_Ref = [], at_Type = ''xsd:string'',
     at_ArrayType = [], at_TagName = ''xmlns'', at_Min = 0, at_Nillable = False\<rparr>"

fun addVersionAttrs ::
  "goEncoder \<Rightarrow> heap \<Rightarrow> nat \<Rightarrow> nat \<Rightarrow> operation list \<Rightarrow> heap outcome" where
  "addVersionAttrs ge H typeNamespace version [] = Done H"
| "addVersionAttrs ge H typeNamespace version (f # fs) =
     (case op_Input f of
        None \<Rightarrow> Panic ''nil pointer dereference''
      | Some msg \<Rightarrow>
         (case messageName ge msg of
            Done inputType \<Rightarrow>
              (case map_of (ge_ctypes ge) inputType of
                 None \<Rightarrow> addVersionAttrs ge H typeNamespace version fs
               | Some a \<Rightarrow>
                   (let ct = cts H a;
                        attrs1 = fst (flatAttributeField H (ct_Attributes ct) typeNamespace {});
                        attrs2 = fst (flatAttributeField H attrs1 version {})
                    in addVersionAttrs ge (setct H a (ct\<lparr>ct_Attributes := attrs2\<rparr>))
                         typeNamespace version fs))
          | Panic m \<Rightarrow> Panic m
          | OutOfFuel \<Rightarrow> OutOfFuel))"

definition addVersionAttrToOpTypes ::
  "(string list \<Rightarrow> string list) \<Rightarrow> goEncoder \<Rightarrow> heap \<Rightarrow> heap outcome" where
  "addVersionAttrToOpTypes order ge H =
     (if ge_requestVersion ge \<noteq> [] then
        (let typeNamespace = at_next H;
             version = at_next H + 1;
             H1 = H\<lparr>ats := (ats H)(typeNamespace := typeNamespaceAttribute,
                                     version := versionAttribute),
                    at_next := at_next H + 2\<rparr>
         in addVersionAttrs ge H1 typeNamespace version
              (List.map_filter (map_of (ge_funcs ge)) (order (map fst (ge_funcs ge)))))
      else Done H)"

subsection \<open>\<^verbatim>\<open>encode\<close> and \<^verbatim>\<open>Encode\<close>\<close>

text \<open>
  Go ranges over a map in an order that is not specified and differs from run to run.
  A run is given the order of each such loop as a function from the keys, as stored, to
  the keys as the loop meets them; it is a permutation of them.
\<close>

record orders =
  ord_ctypes :: "string list \<Rightarrow> string list"
  ord_funcs :: "string list \<Rightarrow> string list"
  ord_needsStdPkg :: "string list \<Rightarrow> string list"
  ord_needsExtPkg :: "string list \<Rightarrow> string list"

definition validOrders :: "orders \<Rightarrow> bool" where
  "validOrders os =
     (\<forall>f \<in> {ord_ctypes os, ord_funcs os, ord_needsStdPkg os, ord_needsExtPkg os}.
        \<forall>ks. distinct ks \<longrightarrow> distinct (f ks) \<and> set (f ks) = set ks)"

text \<open>The last loop of \<^verbatim>\<open>cacheTypes\<close>: every registered complex type is flattened.\<close>

fun flattenAll :: "nat \<Rightarrow> (string \<times> nat) list \<Rightarrow> heap \<Rightarrow> nat list \<Rightarrow> heap outcome" where
  "flattenAll n ctypes H [] = Done H"
| "flattenAll n ctypes H (a # as) =
     (case flatTypeElements n ctypes H a of
        Done H1 \<Rightarrow> flattenAll n ctypes H1 as
      | Panic m \<Rightarrow> Panic m
      | OutOfFuel \<Rightarrow> OutOfFuel)"

definition flattenRegistry :: "orders \<Rightarrow> nat \<Rightarrow> goEncoder \<Rightarrow> heap \<Rightarrow> heap outcome" where
  "flattenRegistry os n ge H =
     flattenAll n (ge_ctypes ge) H
       (List.map_filter (map_of (ge_ctypes ge)) (ord_ctypes os (map fst (ge_ctypes ge))))"

text \<open>The functions \<^verbatim>\<open>encode\<close> picks, by what is to be generated.\<close>

datatype writer = WriteInterfaceFuncs | WriteGoTypes | WriteGoClientType | WriteGoClientFuncs

definition writers :: "goEncoder \<Rightarrow> writer list" where
  "writers ge =
     (if ge_soapOps ge \<noteq> [] then
        (if ge_generateOnlyTypes ge then [WriteGoTypes]
         else if ge_generateOnlyInterface ge
           then [WriteInterfaceFuncs, WriteGoClientType, WriteGoClientFuncs]
         else [WriteInterfaceFuncs, WriteGoTypes, WriteGoClientType, WriteGoClientFuncs])
      else
        (if ge_generateOnlyTypes ge then [WriteGoTypes]
         else if ge_generateOnlyInterface ge then [WriteGoClientFuncs]
         else [WriteGoClientFuncs, WriteGoTypes]))"

definition runWriter ::
  "(element \<Rightarrow> element \<Rightarrow> element) \<Rightarrow> writer \<Rightarrow> goEncoder \<Rightarrow> heap \<Rightarrow> definitions
     \<Rightarrow> (goEncoder \<times> heap \<times> string \<times> string option) outcome" where
  "runWriter enrich f ge H d =
     (case f of
        WriteGoTypes \<Rightarrow>
          (case writeGoTypes enrich ge H d of
             Done (ge1, H1, out) \<Rightarrow> Done (ge1, H1, out, None)
           | Panic m \<Rightarrow> Panic m
           | OutOfFuel \<Rightarrow> OutOfFuel)
      | _ \<Rightarrow>
          (case (case f of
                   WriteInterfaceFuncs \<Rightarrow> writeInterfaceFuncs ge d
                 | WriteGoClientType \<Rightarrow> writeGoClientType ge d
                 | _ \<Rightarrow> writeGoClientFuncs ge d) of
             Done (ge1, out, err) \<Rightarrow> Done (ge1, H, out, err)
           | Panic m \<Rightarrow> Panic m
           | OutOfFuel \<Rightarrow> OutOfFuel))"

fun runWriters ::
  "(element \<Rightarrow> element \<Rightarrow> element) \<Rightarrow> writer list \<Rightarrow> goEncoder \<Rightarrow> heap \<Rightarrow> definitions
     \<Rightarrow> (goEncoder \<times> heap \<times> string \<times> string option) outcome" where
  "runWriters enrich [] ge H d = Done (ge, H, [], None)"
| "runWriters enrich (f # ff) ge H d =
     (case runWriter enrich f ge H d of
        Done (ge1, H1, out1, None) \<Rightarrow>
          (case runWriters enrich ff ge1 H1 d of
             Done (ge2, H2, out2, err) \<Rightarrow> Done (ge2, H2, out1 @ out2, err)
           | r \<Rightarrow> r)
      | r \<Rightarrow> r)"

text \<open>The head of the file: the package clause, the imports in the order the two maps
  are ranged over, and the two variables.\<close>

definition fileHeader :: "orders \<Rightarrow> goEncoder \<Rightarrow> definitions \<Rightarrow> string" where
  "fileHeader os ge d =
     ''package '' @ (case ge_packageName ge of Some n \<Rightarrow> n | None \<Rightarrow> ''%!s(<nil>)'')
     @ ''\<newline>\<newline>import (\<newline>''
     @ concat (map (\<lambda>pkg. goQuote pkg @ ''\<newline>'') (ord_needsStdPkg os (ge_needsStdPkg ge)))
     @ (if ge_needsStdPkg ge \<noteq> [] then ''\<newline>'' else [])
     @ concat (map (\<lambda>pkg. goQuote pkg @ ''\<newline>'') (ord_needsExtPkg os (ge_needsExtPkg ge)))
     @ '')\<newline>\<newline>''
     @ (if sch_TargetNamespace (df_Schema d) \<noteq> [] \<and> \<not> ge_generateOnlyInterface ge
        then writeComments ''Namespace'' []
             @ ''var Namespace = '' @ goQuote (sch_TargetNamespace (df_Schema d))
             @ ''\<newline>\<newline>''
        else [])
     @ (if ge_requestVersion ge \<noteq> [] \<and> \<not> ge_generateOnlyInterface ge
        then writeComments ''RequestVersion'' []
             @ ''var RequestVersion = '' @ goQuote (ge_requestVersion ge) @ ''\<newline>\<newline>''
        else [])"

text \<open>
  \<^verbatim>\<open>encode\<close>. The registry of types (\<^verbatim>\<open>setNamespace\<close> and \<^verbatim>\<open>cacheTypes\<close> up to its last
  loop, which catalogue the simple types, complex types, aliases and elements of the
  schema and lay the complex types and attributes out in the store) is the parameter
  \<open>buildRegistry\<close>; every statement below about \<open>encode\<close> holds whatever it is. The
  result is the encoder and either the error returned (\<open>Inl\<close>) or the text written to
  \<open>w\<close> (\<open>Inr\<close>).
\<close>

definition encode ::
  "orders \<Rightarrow> (element \<Rightarrow> element \<Rightarrow> element)
     \<Rightarrow> (goEncoder \<Rightarrow> definitions \<Rightarrow> (goEncoder \<times> heap) outcome)
     \<Rightarrow> nat \<Rightarrow> world \<Rightarrow> goEncoder \<Rightarrow> definitions \<Rightarrow> (goEncoder \<times> (string + string)) outcome" where
  "encode os enrich buildRegistry n W ge0 d0 =
     (case unionSchemasData d0 (df_Schema d0) of
        Done d1 \<Rightarrow>
         (case importParts n W ((ge0, []), d1) of
            Done (((ge1, log), d), err) \<Rightarrow>
             (let ge2 = ge1\<lparr>ge_usedNamespaces := df_Namespaces d\<rparr> in
              case err of
                Some e \<Rightarrow> Done (ge2, Inl (''wsdl import: '' @ e))
              | None \<Rightarrow>
                 (case buildRegistry ge2 d of
                    Done (ge3, H0) \<Rightarrow>
                     (case flattenRegistry os n ge3 H0 of
                        Done H1 \<Rightarrow>
                         (let ge4 = cacheSOAPOperations (cacheMessages (cacheFuncs ge3 d) d) d in
                          case addVersionAttrToOpTypes (ord_funcs os) ge4 H1 of
                            Done H2 \<Rightarrow>
                             (case runWriters enrich (writers ge4) ge4 H2 d of
                                Done (ge5, H3, b, Some e) \<Rightarrow> Done (ge5, Inl e)
                              | Done (ge5, H3, b, None) \<Rightarrow>
                                  Done (ge5, Inr (fileHeader os ge5 d @ b))
                              | Panic m \<Rightarrow> Panic m
                              | OutOfFuel \<Rightarrow> OutOfFuel)
                          | Panic m \<Rightarrow> Panic m
                          | OutOfFuel \<Rightarrow> OutOfFuel)
                      | Panic m \<Rightarrow> Panic m
                      | OutOfFuel \<Rightarrow> OutOfFuel)
                  | Panic m \<Rightarrow> Panic m
                  | OutOfFuel \<Rightarrow> OutOfFuel))
          | Panic m \<Rightarrow> Panic m
          | OutOfFuel \<Rightarrow> OutOfFuel)
      | Panic m \<Rightarrow> Panic m
      | OutOfFuel \<Rightarrow> OutOfFuel)"

text \<open>
  What \<^verbatim>\<open>Encode\<close> calls outside the encoder: \<^verbatim>\<open>BindingPackageName\<close> (of this package,
  not among the sources), the Go parser, the search for \<^verbatim>\<open>gofmt\<close>, the \<^verbatim>\<open>gofmt\<close>
  process (its standard output, its standard error and the error of \<^verbatim>\<open>cmd.Run\<close>), and
  \<^verbatim>\<open>fmt.Errorf\<close> applied to a text as its format. The result of \<^verbatim>\<open>Encode\<close> records the
  error returned, what was written to the encoder's writer, and the external calls made.
\<close>

record externals =
  x_BindingPackageName :: "binding \<Rightarrow> string"
  x_ParseFile :: "string \<Rightarrow> string option"
  x_gofmtPath :: "string + string"
  x_runGofmt :: "string \<Rightarrow> string \<Rightarrow> string \<times> string \<times> string option"
  x_Errorf :: "string \<Rightarrow> string"

datatype call = ParseFile string | LookupGofmt | RunGofmt string string

record encodeResult =
  er_error :: "string option"
  er_written :: string
  er_calls :: "call list"

text \<open>The listing of the source with line numbers (\<^verbatim>\<open>"%5d\t%s\n"\<close> per scanned line).\<close>

fun digitsRev :: "nat \<Rightarrow> nat \<Rightarrow> string" where
  "digitsRev 0 n = []"
| "digitsRev (Suc fuel) n =
     (''0123456789'' ! (n mod 10)) # (if n < 10 then [] else digitsRev fuel (n div 10))"

definition decimal :: "nat \<Rightarrow> string" where
  "decimal n = rev (digitsRev (Suc n) n)"

definition padLeft :: "nat \<Rightarrow> string \<Rightarrow> string" where
  "padLeft w s = replicate (w - length s) (CHR '' '') @ s"

definition scanLines :: "string \<Rightarrow> string list" where
  "scanLines s =
     map (\<lambda>l. if l \<noteq> [] \<and> last l = CHR 0x0D then butlast l else l)
       (let ls = split (CHR 0x0A) s in if last ls = [] then butlast ls else ls)"

definition numberedSource :: "string \<Rightarrow> string" where
  "numberedSource input =
     concat (map (\<lambda>(i, l). padLeft 5 (decimal (Suc i)) @ TAB @ l @ ''\<newline>'')
               (enumerate 0 (scanLines input)))"

definition Encode ::
  "externals \<Rightarrow> orders \<Rightarrow> (element \<Rightarrow> element \<Rightarrow> element)
     \<Rightarrow> (goEncoder \<Rightarrow> definitions \<Rightarrow> (goEncoder \<times> heap) outcome)
     \<Rightarrow> nat \<Rightarrow> world \<Rightarrow> goEncoder \<Rightarrow> definitions option \<Rightarrow> encodeResult outcome" where
  "Encode X os enrich buildRegistry n W ge0 dopt =
     (case dopt of
        None \<Rightarrow> Done \<lparr>er_error = None, er_written = [], er_calls = []\<rparr>
      | Some d \<Rightarrow>
         (let ge = (if ge_packageName ge0 = None
                    then ge0\<lparr>ge_packageName := Some (x_BindingPackageName X (df_Binding d))\<rparr>
                    else ge0) in
          case encode os enrich buildRegistry n W ge d of
            Done (ge1, Inl err) \<Rightarrow> Done \<lparr>er_error = Some err, er_written = [], er_calls = []\<rparr>
          | Done (ge1, Inr input) \<Rightarrow>
             if input = [] then Done \<lparr>er_error = None, er_written = [], er_calls = []\<rparr>
             else
              (case x_ParseFile X input of
                 Some err \<Rightarrow>
                   Done \<lparr>er_error = Some (''generated bad code: '' @ err @ ''\<newline>''
                                            @ numberedSource input),
                         er_written = [], er_calls = [ParseFile input]\<rparr>
               | None \<Rightarrow>
                  (case x_gofmtPath X of
                     Inl err \<Rightarrow>
                       Done \<lparr>er_error = Some (''cannot find gofmt with err: '' @ err),
                             er_written = [], er_calls = [ParseFile input, LookupGofmt]\<rparr>
                   | Inr path \<Rightarrow>
                      (case x_runGofmt X path input of
                         (stdout, errb, None) \<Rightarrow>
                           Done \<lparr>er_error = None, er_written = stdout,
                                 er_calls = [ParseFile input, LookupGofmt, RunGofmt path input]\<rparr>
                       | (stdout, errb, Some err) \<Rightarrow>
                           Done \<lparr>er_error = Some (x_Errorf X
                                    (''gofmt: '' @ err @ ''\<newline>''
                                     @ (if errb \<noteq> [] then ''gofmt stderr:\<newline>'' @ errb
                                                           @ ''\<newline>'' else [])
                                     @ ''generated code:\<newline>'' @ input @ ''\<newline>'')),
                                 er_written = stdout,
                                 er_calls = [ParseFile input, LookupGofmt, RunGofmt path input]\<rparr>)))
          | Panic m \<Rightarrow> Panic m
          | OutOfFuel \<Rightarrow> OutOfFuel))"

subsection \<open>Properties stated in the specification's words\<close>

text \<open>First occurrence wins: of the fields of one list that share a name, the first is
  kept and the later ones are dropped.\<close>

fun keep_first :: "element list \<Rightarrow> element list" where
  "keep_first [] = []"
| "keep_first (x # xs) = x # keep_first (filter (\<lambda>y. el_Name y \<noteq> el_Name x) xs)"

text \<open>The shape markers of an extension: cleared when the content is absent or holds no
  extension.\<close>

definition noComplexExtension :: "complexType \<Rightarrow> bool" where
  "noComplexExtension ct =
     (case ct_ComplexContent ct of None \<Rightarrow> True | Some cc \<Rightarrow> cc_Extension cc = None)"

definition noSimpleExtension :: "complexType \<Rightarrow> bool" where
  "noSimpleExtension ct =
     (case ct_SimpleContent ct of None \<Rightarrow> True | Some sc \<Rightarrow> sc_Extension sc = None)"



definition ownElements :: "complexType \<Rightarrow> element list" where
  "ownElements ct =
     (case ct_Sequence ct of
        None \<Rightarrow> []
      | Some s \<Rightarrow> sq_Elements s @ concat (map sc_Elements (sq_Choices s)))
     @ (case ct_Choice ct of
        None \<Rightarrow> []
      | Some c \<Rightarrow> ch_Elements c
          @ (case ch_Sequence c of None \<Rightarrow> [] | Some s \<Rightarrow> sq_Elements s))"

text \<open>The flat field list of the type at an address, as names and types.\<close>

definition fieldsOf :: "heap \<Rightarrow> nat \<Rightarrow> (string \<times> string) list" where
  "fieldsOf H a = map (\<lambda>e. (el_Name e, el_Type e)) (ct_AllElements (cts H a))"

text \<open>A recursive call keeps cleared extensions cleared, at every address, and leaves
  the attributes alone.\<close>

definition keepsClear :: "(heap \<Rightarrow> nat \<Rightarrow> heap outcome) \<Rightarrow> bool" where
  "keepsClear f = (\<forall>H v H' b. f H v = Done H' \<longrightarrow>
      (noComplexExtension (cts H b) \<longrightarrow> noComplexExtension (cts H' b))
      \<and> (noSimpleExtension (cts H b) \<longrightarrow> noSimpleExtension (cts H' b))
      \<and> ats H' = ats H)"

subsection \<open>Example schemas\<close>

definition mkElement :: "string \<Rightarrow> string \<Rightarrow> element" where
  "mkElement n t = \<lparr>el_Name = n, el_Type = t, el_Ref = [], el_Min = 1, el_Max = [],
      el_Nillable = False, el_Tag = [], el_ComplexType = None\<rparr>"

definition emptyComplexType :: complexType where
  "emptyComplexType = \<lparr>ct_Name = [], ct_Doc = [], ct_TargetNamespace = [], ct_Abstract = False,
     ct_AllElements = [], ct_Attributes = [], ct_Sequence = None, ct_Choice = None,
     ct_ComplexContent = None, ct_SimpleContent = None\<rparr>"

definition emptyAttribute :: attribute where
  "emptyAttribute = \<lparr>at_Name = [], at_Ref = [], at_Type = [], at_ArrayType = [], at_TagName = [],
     at_Min = 0, at_Nillable = False\<rparr>"

text \<open>\<^verbatim>\<open>Derived\<close> (at 0) extends \<^verbatim>\<open>tns:Base\<close> (at 1) and holds the complex type
  \<^verbatim>\<open>Mixin\<close> (at 2) in the sequence of its extension. \<^verbatim>\<open>Base\<close> declares \<^verbatim>\<open>x\<close> twice,
  \<^verbatim>\<open>Mixin\<close> declares another \<^verbatim>\<open>x\<close>, and \<^verbatim>\<open>Derived\<close> itself declares \<^verbatim>\<open>y\<close> twice.\<close>

definition exHeap :: heap where
  "exHeap = \<lparr>cts = (\<lambda>_. emptyComplexType)
     (0 := emptyComplexType\<lparr>ct_Name := ''Derived'',
            ct_ComplexContent := Some \<lparr>cc_Extension = Some \<lparr>ex_Base = ''tns:Base'',
               ex_Sequence = Some (emptySequence\<lparr>sq_ComplexTypes := [2],
                    sq_Elements := [mkElement ''y'' ''int'', mkElement ''y'' ''string'']\<rparr>),
               ex_Choice = None, ex_Attributes = []\<rparr>, cc_Restriction = None\<rparr>\<rparr>,
      1 := emptyComplexType\<lparr>ct_Name := ''Base'',
            ct_Sequence := Some (emptySequence\<lparr>sq_Elements :=
               [mkElement ''x'' ''int'', mkElement ''x'' ''string'', mkElement ''z'' ''int'']\<rparr>)\<rparr>,
      2 := emptyComplexType\<lparr>ct_Name := ''Mixin'',
            ct_Sequence := Some (emptySequence\<lparr>sq_Elements := [mkElement ''x'' ''long'']\<rparr>)\<rparr>),
     ats = (\<lambda>_. emptyAttribute), at_next = 0\<rparr>"

definition exCtypes :: "(string \<times> nat) list" where
  "exCtypes = [(''Derived'', 0), (''Base'', 1), (''Mixin'', 2)]"


text \<open>The same types as a schema declares them: \<^verbatim>\<open>Derived\<close> extends \<^verbatim>\<open>tns:Base\<close> and
  holds \<^verbatim>\<open>Mixin\<close> in the sequence of its extension; \<^verbatim>\<open>Base\<close> extends \<^verbatim>\<open>tns:GrandBase\<close>
  (at 3), which declares \<^verbatim>\<open>x\<close>, and declares \<^verbatim>\<open>x\<close> again.\<close>

definition exHeapGrand :: heap where
  "exHeapGrand = \<lparr>cts = (\<lambda>_. emptyComplexType)
     (0 := emptyComplexType\<lparr>ct_Name := ''Derived'',
            ct_ComplexContent := Some \<lparr>cc_Extension = Some \<lparr>ex_Base = ''tns:Base'',
               ex_Sequence = Some (emptySequence\<lparr>sq_ComplexTypes := [2],
                    sq_Elements := [mkElement ''y'' ''int'', mkElement ''y'' ''string'']\<rparr>),
               ex_Choice = None, ex_Attributes = []\<rparr>, cc_Restriction = None\<rparr>\<rparr>,
      1 := emptyComplexType\<lparr>ct_Name := ''Base'',
            ct_ComplexContent := Some \<lparr>cc_Extension = Some \<lparr>ex_Base = ''tns:GrandBase'',
               ex_Sequence = Some (emptySequence\<lparr>sq_Elements :=
                    [mkElement ''x'' ''string'', mkElement ''z'' ''int'']\<rparr>),
               ex_Choice = None, ex_Attributes = []\<rparr>, cc_Restriction = None\<rparr>\<rparr>,
      2 := emptyComplexType\<lparr>ct_Name := ''Mixin'',
            ct_Sequence := Some (emptySequence\<lparr>sq_Elements := [mkElement ''x'' ''long'']\<rparr>)\<rparr>,
      3 := emptyComplexType\<lparr>ct_Name := ''GrandBase'',
            ct_Sequence := Some (emptySequence\<lparr>sq_Elements := [mkElement ''x'' ''int'']\<rparr>)\<rparr>),
     ats = (\<lambda>_. emptyAttribute), at_next = 0\<rparr>"

definition exCtypesGrand :: "(string \<times> nat) list" where
  "exCtypesGrand = [(''Derived'', 0), (''Base'', 1), (''Mixin'', 2), (''GrandBase'', 3)]"

definition emptySchema :: schema where
  "emptySchema = \<lparr>sch_TargetNamespace = [], sch_Namespaces = [], sch_Imports = [],
     sch_Includes = [], sch_SimpleTypes = [], sch_ComplexTypes = [], sch_Elements = []\<rparr>"

definition emptyDefinitions :: definitions where
  "emptyDefinitions = \<lparr>df_TargetNamespace = [], df_Namespaces = Some [],
     df_Schema = emptySchema, df_Imports = [], df_Messages = [],
     df_PortType = \<lparr>ptt_Name = [], ptt_Operations = []\<rparr>,
     df_Binding = \<lparr>bd_Name = [], bd_Type = [], bd_BindingType_Style = None,
                   bd_Operations = []\<rparr>\<rparr>"

text \<open>A URL parser for the examples: the scheme is the text before the first colon, if
  there is one, and the path is the whole location.\<close>

definition exUrlParse :: "string \<Rightarrow> string + url" where
  "exUrlParse s =
     Inr \<lparr>u_Scheme = (if CHR '':'' \<in> set s then takeWhile (\<lambda>c. c \<noteq> CHR '':'') s else []),
          u_Host = [], u_User = None, u_Path = s, u_RawPath = []\<rparr>"

text \<open>The schema of the definitions imports \<^verbatim>\<open>http://h/b.xsd\<close>, which can be fetched and
  imports \<^verbatim>\<open>http://h/c.xsd\<close>, which cannot.\<close>

definition exWorldFail :: world where
  "exWorldFail = \<lparr>w_urlParse = exUrlParse, w_urlString = u_Path, w_urlEscapedPath = u_Path,
     w_httpGet = (\<lambda>u. if u = ''http://h/b.xsd'' then Inr ''<b/>'' else Inl ''404 Not Found''),
     w_osOpen = (\<lambda>p. Inl ''no such file or directory''),
     w_decodeSchema = (\<lambda>body. if body = ''<b/>''
                         then Inr (emptySchema\<lparr>sch_Imports := [''http://h/c.xsd'']\<rparr>)
                         else Inl ''EOF''),
     w_decodeDefinitions = (\<lambda>body d. Inl ''EOF'')\<rparr>"

definition exDefsFail :: definitions where
  "exDefsFail =
     emptyDefinitions\<lparr>df_Schema := emptySchema\<lparr>sch_Imports := [''http://h/b.xsd'']\<rparr>\<rparr>"

text \<open>The same, with \<^verbatim>\<open>http://h/c.xsd\<close> listed by the definitions' own schema.\<close>

definition exDefsFailDirect :: definitions where
  "exDefsFailDirect =
     emptyDefinitions\<lparr>df_Schema := emptySchema\<lparr>sch_Imports := [''http://h/c.xsd'']\<rparr>\<rparr>"

text \<open>Local files: \<^verbatim>\<open>a.xsd\<close> and \<^verbatim>\<open>b.xsd\<close> both import \<^verbatim>\<open>c.xsd\<close>, which imports
  nothing.\<close>

definition exWorldFiles :: world where
  "exWorldFiles = \<lparr>w_urlParse = exUrlParse, w_urlString = u_Path, w_urlEscapedPath = u_Path,
     w_httpGet = (\<lambda>u. Inl ''404 Not Found''),
     w_osOpen = (\<lambda>p. if p = ''a.xsd'' then Inr ''<a/>''
                      else if p = ''b.xsd'' then Inr ''<b/>''
                      else if p = ''c.xsd'' then Inr ''<c/>''
                      else Inl ''no such file or directory''),
     w_decodeSchema = (\<lambda>body. if body = ''<a/>'' then Inr (emptySchema\<lparr>sch_Imports := [''c.xsd'']\<rparr>)
                         else if body = ''<b/>'' then Inr (emptySchema\<lparr>sch_Imports := [''c.xsd'']\<rparr>)
                         else if body = ''<c/>'' then Inr emptySchema
                         else Inl ''EOF''),
     w_decodeDefinitions = (\<lambda>body d. Inl ''EOF'')\<rparr>"

text \<open>Definitions whose schema imports \<^verbatim>\<open>a.xsd\<close> and \<^verbatim>\<open>b.xsd\<close>, and definitions whose
  schema imports and includes \<^verbatim>\<open>c.xsd\<close>.\<close>

definition exDefsDiamond :: definitions where
  "exDefsDiamond =
     emptyDefinitions\<lparr>df_Schema := emptySchema\<lparr>sch_Imports := [''a.xsd'', ''b.xsd'']\<rparr>\<rparr>"

definition exDefsTwice :: definitions where
  "exDefsTwice = emptyDefinitions\<lparr>df_Schema :=
     emptySchema\<lparr>sch_Imports := [''c.xsd''], sch_Includes := [''c.xsd'']\<rparr>\<rparr>"

text \<open>Documents behind \<^verbatim>\<open>http\<close>: \<^verbatim>\<open>a.xsd\<close> imports \<^verbatim>\<open>b.xsd\<close>, which imports \<^verbatim>\<open>a.xsd\<close>.\<close>

definition exWorldHttp :: world where
  "exWorldHttp = \<lparr>w_urlParse = exUrlParse, w_urlString = u_Path, w_urlEscapedPath = u_Path,
     w_httpGet = (\<lambda>u. if u = ''http://h/a.xsd'' then Inr ''<a/>''
                      else if u = ''http://h/b.xsd'' then Inr ''<b/>''
                      else Inl ''404 Not Found''),
     w_osOpen = (\<lambda>p. Inl ''no such file or directory''),
     w_decodeSchema = (\<lambda>body. if body = ''<a/>''
                           then Inr (emptySchema\<lparr>sch_Imports := [''http://h/b.xsd'']\<rparr>)
                         else if body = ''<b/>''
                           then Inr (emptySchema\<lparr>sch_Imports := [''http://h/a.xsd'']\<rparr>)
                         else Inl ''EOF''),
     w_decodeDefinitions = (\<lambda>body d. Inl ''EOF'')\<rparr>"

definition exDefsHttpCycle :: definitions where
  "exDefsHttpCycle = emptyDefinitions\<lparr>df_Schema :=
     emptySchema\<lparr>sch_Imports := [''http://h/a.xsd''], sch_Includes := [''http://h/a.xsd'']\<rparr>\<rparr>"

subsection \<open>Reading results\<close>

definition returned :: "'a outcome \<Rightarrow> 'a option" where
  "returned r = (case r of Done x \<Rightarrow> Some x | _ \<Rightarrow> None)"

definition panicMessage :: "'a outcome \<Rightarrow> string option" where
  "panicMessage r = (case r of Panic m \<Rightarrow> Some m | _ \<Rightarrow> None)"

definition emitted :: "goEncoder \<times> heap \<times> string \<Rightarrow> string" where
  "emitted r = snd (snd r)"

text \<open>The declaration of a complex type as a bare repeated opaque value, and a complex
  type without shape markers.\<close>

definition opaqueDeclaration :: "complexType \<Rightarrow> string" where
  "opaqueDeclaration ct =
     writeComments (goSymbol (ct_Name ct)) (ct_Doc ct)
     @ ''type '' @ goSymbol (ct_Name ct) @ '' []interface{}\<newline>\<newline>''"

definition unmarked :: "complexType \<Rightarrow> bool" where
  "unmarked ct = (ct_Sequence ct = None \<and> ct_Choice ct = None)"

definition keepsUnmarked :: "(heap \<Rightarrow> nat \<Rightarrow> heap outcome) \<Rightarrow> bool" where
  "keepsUnmarked f =
     (\<forall>H v H' b. f H v = Done H' \<longrightarrow> unmarked (cts H b) \<longrightarrow> unmarked (cts H' b))"

subsection \<open>Example registries\<close>

definition idOrders :: orders where
  "idOrders = \<lparr>ord_ctypes = (\<lambda>ks. ks), ord_funcs = (\<lambda>ks. ks), ord_needsStdPkg = (\<lambda>ks. ks),
     ord_needsExtPkg = (\<lambda>ks. ks)\<rparr>"

definition revOrders :: orders where
  "revOrders = \<lparr>ord_ctypes = rev, ord_funcs = rev, ord_needsStdPkg = rev,
     ord_needsExtPkg = rev\<rparr>"

definition exEnrich :: "element \<Rightarrow> element \<Rightarrow> element" where
  "exEnrich refElement el = refElement"

text \<open>The simple type \<^verbatim>\<open>U\<close> is the union of \<^verbatim>\<open>A\<close>, which is registered, and
  \<^verbatim>\<open>Missing\<close>, which is not.\<close>

definition exGeUnion :: goEncoder where
  "exGeUnion = NewEncoder\<lparr>ge_stypes :=
     [(''A'', \<lparr>st_Name = ''A'', st_TargetNamespace = [],
               st_Restriction = Some \<lparr>rs_Base = ''xsd:string'', rs_Enum = [],
                                       rs_Attributes = []\<rparr>,
               st_Union = None\<rparr>),
      (''U'', \<lparr>st_Name = ''U'', st_TargetNamespace = [], st_Restriction = None,
               st_Union = Some \<lparr>un_MemberTypes = ''A Missing'', un_SimpleTypes = []\<rparr>\<rparr>)]\<rparr>"

text \<open>The complex type \<^verbatim>\<open>Payload\<close> (at 0) is a sequence of one wildcard and nothing
  else.\<close>

definition exHeapPayload :: heap where
  "exHeapPayload = \<lparr>cts = (\<lambda>_. emptyComplexType)
     (0 := emptyComplexType\<lparr>ct_Name := ''Payload'',
            ct_Sequence := Some (emptySequence\<lparr>sq_Any :=
              [\<lparr>any_Min = 0, any_Max = ''unbounded''\<rparr>]\<rparr>)\<rparr>),
     ats = (\<lambda>_. emptyAttribute), at_next = 0\<rparr>"

definition exGePayload :: goEncoder where
  "exGePayload = NewEncoder\<lparr>ge_ctypes := [(''Payload'', 0)]\<rparr>"

subsection \<open>An example service\<close>

text \<open>The port type \<^verbatim>\<open>PingPort\<close> has one operation, \<^verbatim>\<open>Ping\<close>, from the message
  \<^verbatim>\<open>PingRequest\<close> (one part, the element \<^verbatim>\<open>Ping\<close>) to \<^verbatim>\<open>PingResponse\<close> (one part, the
  element \<^verbatim>\<open>PingResult\<close>). The definitions bind no operation.\<close>

definition exOpPing :: operation where
  "exOpPing = \<lparr>op_Name = ''Ping'', op_Doc = [], op_Input = Some ''tns:PingRequest'',
     op_Output = Some ''tns:PingResponse''\<rparr>"

definition exDefsPing :: definitions where
  "exDefsPing = emptyDefinitions\<lparr>
     df_Messages :=
       [\<lparr>msg_Name = ''PingRequest'',
         msg_Parts = [\<lparr>pt_Name = ''parameters'', pt_Type = [], pt_Element = ''tns:Ping''\<rparr>]\<rparr>,
        \<lparr>msg_Name = ''PingResponse'',
         msg_Parts = [\<lparr>pt_Name = ''parameters'', pt_Type = [],
                       pt_Element = ''tns:PingResult''\<rparr>]\<rparr>],
     df_PortType := \<lparr>ptt_Name = ''PingPort'', ptt_Operations = [exOpPing]\<rparr>\<rparr>"

text \<open>The registry of its schema: two complex types without content and the two
  elements.\<close>

definition exRegistryPing :: "goEncoder \<Rightarrow> goEncoder" where
  "exRegistryPing ge = ge\<lparr>
      ge_ctypes := [(''Ping'', 0), (''PingResult'', 1)],
      ge_elements := [(''Ping'', mkElement ''Ping'' ''Ping''),
                      (''PingResult'', mkElement ''PingResult'' ''PingResult'')]\<rparr>"

definition exHeapPing :: heap where
  "exHeapPing = \<lparr>cts = (\<lambda>_. emptyComplexType)
     (0 := emptyComplexType\<lparr>ct_Name := ''Ping''\<rparr>,
      1 := emptyComplexType\<lparr>ct_Name := ''PingResult''\<rparr>),
     ats = (\<lambda>_. emptyAttribute), at_next = 0\<rparr>"

definition exBuildPing :: "goEncoder \<Rightarrow> definitions \<Rightarrow> (goEncoder \<times> heap) outcome" where
  "exBuildPing ge d = Done (exRegistryPing ge, exHeapPing)"

text \<open>The encoder once the operations and messages are cached, and the same with a
  binding operation for \<^verbatim>\<open>Ping\<close> that has the given SOAP 1.2 and SOAP 1.1 actions.\<close>

definition exGePing :: goEncoder where
  "exGePing = cacheMessages (cacheFuncs (exRegistryPing NewEncoder) exDefsPing) exDefsPing"


definition paramsOf :: "goEncoder \<times> (string + parameter list) \<Rightarrow> parameter list" where
  "paramsOf r = (case snd r of Inr ps \<Rightarrow> ps | Inl e \<Rightarrow> [])"

definition exInsPing :: "parameter list" where
  "exInsPing = paramsOf (inputParams exGePing exOpPing)"

definition exOutsPing :: "parameter list" where
  "exOutsPing = paramsOf (outputParams (fst (inputParams exGePing exOpPing)) exOpPing)"


text \<open>What a writer wrote and the error it returned.\<close>

definition written ::
  "(goEncoder \<times> string \<times> string option) outcome \<Rightarrow> (string \<times> string option) option" where
  "written r = (case r of Done (ge, out, err) \<Rightarrow> Some (out, err) | _ \<Rightarrow> None)"

text \<open>An operation of the port type that has no binding operation.\<close>

definition unbound :: "goEncoder \<Rightarrow> string \<Rightarrow> bool" where
  "unbound ge fn =
     (case map_of (ge_funcs ge) fn of
        None \<Rightarrow> False
      | Some op \<Rightarrow> map_of (ge_soapOps ge) (op_Name op) = None)"


text \<open>The function it gets when \<^verbatim>\<open>Ping\<close> is not bound.\<close>

definition exPingStubFunc :: string where
  "exPingStubFunc =
     ''// Ping was auto-generated from WSDL.\<newline>''
       @ ''func PingFunc(ctx context.Context,Ping *Ping) (*PingResult,error) {\<newline>''
       @ ''return &PingResult{},errors.New('' @ DQ @ ''not implemented'' @ DQ @ '')\<newline>''
       @ ''}\<newline>''
       @ ''\<newline>''"

text \<open>A service whose one operation, \<^verbatim>\<open>Stats\<close>, is not bound. Its request has a part of
  type \<^verbatim>\<open>xs:string\<close>, its response parts of types \<^verbatim>\<open>xs:positiveInteger\<close>, \<^verbatim>\<open>xs:date\<close> and
  \<^verbatim>\<open>xs:byte\<close>.\<close>

definition exOpStats :: operation where
  "exOpStats = \<lparr>op_Name = ''Stats'', op_Doc = [], op_Input = Some ''tns:StatsRequest'',
     op_Output = Some ''tns:StatsResponse''\<rparr>"

definition exDefsStats :: definitions where
  "exDefsStats = emptyDefinitions\<lparr>
     df_Messages :=
       [\<lparr>msg_Name = ''StatsRequest'',
         msg_Parts = [\<lparr>pt_Name = ''name'', pt_Type = ''xs:string'', pt_Element = []\<rparr>]\<rparr>,
        \<lparr>msg_Name = ''StatsResponse'',
         msg_Parts = [\<lparr>pt_Name = ''count'', pt_Type = ''xs:positiveInteger'', pt_Element = []\<rparr>,
                      \<lparr>pt_Name = ''day'', pt_Type = ''xs:date'', pt_Element = []\<rparr>,
                      \<lparr>pt_Name = ''flag'', pt_Type = ''xs:byte'', pt_Element = []\<rparr>]\<rparr>],
     df_PortType := \<lparr>ptt_Name = ''StatsPort'', ptt_Operations = [exOpStats]\<rparr>\<rparr>"

definition exGeStats :: goEncoder where
  "exGeStats = cacheMessages (cacheFuncs NewEncoder exDefsStats) exDefsStats"

definition exStatsStubFunc :: string where
  "exStatsStubFunc =
     ''// Stats was auto-generated from WSDL.\<newline>''
       @ ''func Stats(ctx context.Context,name string) (uint64,Date,byte,error) {\<newline>''
       @ ''return &uint64{},&Date{},&byte{},errors.New('' @ DQ @ ''not implemented'' @ DQ @ '')\<newline>''
       @ ''}\<newline>''
       @ ''\<newline>''"

subsection \<open>Example runs of the encoder\<close>

text \<open>The same definitions with \<^verbatim>\<open>Ping\<close> bound, its SOAP 1.2 action being \<^verbatim>\<open>urn:Ping\<close>.\<close>

definition exDefsPingBound :: definitions where
  "exDefsPingBound = exDefsPing\<lparr>df_Binding :=
     \<lparr>bd_Name = ''PingBinding'', bd_Type = ''tns:PingPort'', bd_BindingType_Style = None,
      bd_Operations = [\<lparr>bo_Name = ''Ping'', bo_Operation_Action = ''urn:Ping'',
                        bo_Operation11_Action = []\<rparr>]\<rparr>\<rparr>"

text \<open>A run that meets the standard packages in the reverse of the order \<open>idOrders\<close>
  meets them in, and every other map in the same order.\<close>

definition stdReversed :: orders where
  "stdReversed = idOrders\<lparr>ord_needsStdPkg := rev\<rparr>"

definition encodedText :: "(goEncoder \<times> (string + string)) outcome \<Rightarrow> string option" where
  "encodedText r = (case r of Done (ge, Inr t) \<Rightarrow> Some t | _ \<Rightarrow> None)"

text \<open>A line of the import list.\<close>

definition importLine :: "string \<Rightarrow> string" where
  "importLine pkg = goQuote pkg @ ''\<newline>''"

text \<open>Surroundings in which the parser accepts every text and \<^verbatim>\<open>gofmt\<close> is found and
  returns its input.\<close>

definition exExternals :: externals where
  "exExternals = \<lparr>x_BindingPackageName = (\<lambda>b. ''internal''), x_ParseFile = (\<lambda>src. None),
     x_gofmtPath = Inr ''/usr/bin/gofmt'', x_runGofmt = (\<lambda>path input. (input, [], None)),
     x_Errorf = (\<lambda>s. s)\<rparr>"

definition exBuildEmpty :: "goEncoder \<Rightarrow> definitions \<Rightarrow> (goEncoder \<times> heap) outcome" where
  "exBuildEmpty ge d =
     Done (ge, \<lparr>cts = (\<lambda>_. emptyComplexType), ats = (\<lambda>_. emptyAttribute), at_next = 0\<rparr>)"

text \<open>The declarations written for the bound example service, after the head of the
  file.\<close>

definition exPingBoundBody :: string where
  "exPingBoundBody =
     ''\<newline>''
       @ ''// newPingPort creates an initializes a PingPort.\<newline>''
       @ ''func newPingPort(cli *client) PingPort {\<newline>''
       @ TAB @ ''return &pingPort{cli}\<newline>''
       @ ''}\<newline>''
       @ ''\<newline>''
       @ ''// PingPort was auto-generated from WSDL\<newline>''
       @ ''// and defines interface for the remote service. Useful for testing.\<newline>''
       @ ''type PingPort interface {\<newline>''
       @ ''// Ping was auto-generated from WSDL.\<newline>''
       @ ''Ping(ctx context.Context,Ping *Ping) (*PingResult,error)\<newline>''
       @ ''\<newline>''
       @ ''}\<newline>''
       @ ''// Ping was auto-generated from WSDL.\<newline>''
       @ ''type Ping struct {\<newline>''
       @ ''}\<newline>''
       @ ''\<newline>''
       @ ''// PingResult was auto-generated from WSDL.\<newline>''
       @ ''type PingResult struct {\<newline>''
       @ ''}\<newline>''
       @ ''\<newline>''
       @ ''// Operation wrapper for Ping.\<newline>''
       @ ''// OperationPingRequest was auto-generated from WSDL.\<newline>''
       @ ''type OperationPingRequest struct {\<newline>''
       @ ''Ping *Ping '' @ BQ @ ''xml:'' @ DQ @ ''Ping,omitempty'' @ DQ @ '' json:'' @ DQ @ ''Ping,omitempty'' @ DQ @ '' yaml:'' @ DQ @ ''Ping,omitempty'' @ DQ @ BQ @ ''\<newline>''
       @ ''}\<newline>''
       @ ''\<newline>''
       @ ''// Operation wrapper for Ping.\<newline>''
       @ ''// OperationPingResponse was auto-generated from WSDL.\<newline>''
       @ ''type OperationPingResponse struct {\<newline>''
       @ ''PingResult *PingResult '' @ BQ @ ''xml:'' @ DQ @ ''PingResult,omitempty'' @ DQ @ '' json:'' @ DQ @ ''PingResult,omitempty'' @ DQ @ '' yaml:'' @ DQ @ ''PingResult,omitempty'' @ DQ @ BQ @ ''\<newline>''
       @ ''}\<newline>''
       @ ''\<newline>''
       @ ''\<newline>''
       @ ''// pingPort implements the PingPort interface.\<newline>''
       @ ''type pingPort struct {\<newline>''
       @ TAB @ ''cli *client\<newline>''
       @ ''}\<newline>''
       @ ''\<newline>''
       @ ''// Ping was auto-generated from WSDL.\<newline>''
       @ ''func (c *pingPort) Ping(ctx context.Context,Ping *Ping) (*PingResult,error) {\<newline>''
       @ ''    Ping.Version = RequestVersion\<newline>''
       @ ''    Ping.TypeNamespace = Namespace\<newline>''
       @ ''    Ping.Party = c.cli.party\<newline>''
       @ ''\<newline>''
       @ TAB @ ''req := struct {\<newline>''
       @ TAB @ TAB @ ''\<newline>''
       @ TAB @ TAB @ TAB @ '' OperationPingRequest '' @ BQ @ ''xml:'' @ DQ @ ''tns:Ping'' @ DQ @ BQ @ ''\<newline>''
       @ TAB @ TAB @ ''\<newline>''
       @ TAB @ ''}{\<newline>''
       @ TAB @ TAB @ ''OperationPingRequest {\<newline>''
       @ TAB @ TAB @ TAB @ ''Ping,\<newline>''
       @ TAB @ TAB @ TAB @ ''\<newline>''
       @ TAB @ TAB @ ''},\<newline>''
       @ TAB @ ''}\<newline>''
       @ ''\<newline>''
       @ TAB @ ''res := struct {\<newline>''
       @ TAB @ TAB @ ''XMLName  xml.Name '' @ BQ @ ''xml:'' @ DQ @ ''Envelope'' @ DQ @ BQ @ ''\<newline>''
       @ TAB @ TAB @ ''XMLNSNS2 string   '' @ BQ @ ''xml:'' @ DQ @ ''xmlns:ns2,attr'' @ DQ @ BQ @ ''\<newline>''
       @ TAB @ TAB @ ''XMLNSNS3 string   '' @ BQ @ ''xml:'' @ DQ @ ''xmlns:ns3,attr'' @ DQ @ BQ @ ''\<newline>''
       @ ''        Body     struct {\<newline>''
       @ ''            \<newline>''
       @ ''                PingResult PingResult\<newline>''
       @ ''            \<newline>''
       @ ''        } '' @ BQ @ ''xml:'' @ DQ @ ''Body'' @ DQ @ BQ @ ''\<newline>''
       @ TAB @ ''}{}\<newline>''
       @ ''\<newline>''
       @ ''    err := c.cli.call(ctx, '' @ DQ @ ''Ping'' @ DQ @ '', req, &res)\<newline>''
       @ ''    if err != nil {\<newline>''
       @ TAB @ TAB @ ''return nil, err\<newline>''
       @ ''    }\<newline>''
       @ ''\<newline>''
       @ ''    return &res.Body.PingResult, nil\<newline>''
       @ ''}\<newline>''"

text \<open>The file written for definitions that declare nothing, when only types are
  asked for.\<close>

definition exEmptyFile :: string where
  "exEmptyFile = ''package internal\<newline>\<newline>import (\<newline>)\<newline>\<newline>''"

section \<open>Theorems\<close>

subsection \<open>The flattener\<close>

lemma appendSequence_fields:
  "appendSequence ct seq = Done ct' \<Longrightarrow>
     ct_ComplexContent ct' = ct_ComplexContent ct \<and> ct_SimpleContent ct' = ct_SimpleContent ct
     \<and> ct_Choice ct' = ct_Choice ct \<and> (ct_Sequence ct' = None \<longleftrightarrow> ct_Sequence ct = None)"
  by (auto simp: appendSequence_def split: if_splits option.splits)

lemma appendSequences_fields:
  "appendSequences ct seqs = Done ct' \<Longrightarrow>
     ct_ComplexContent ct' = ct_ComplexContent ct \<and> ct_SimpleContent ct' = ct_SimpleContent ct
     \<and> ct_Choice ct' = ct_Choice ct \<and> (ct_Sequence ct' = None \<longleftrightarrow> ct_Sequence ct = None)"
proof (induction seqs arbitrary: ct)
  case Nil
  then show ?case by simp
next
  case (Cons s seqs)
  then obtain c1 where a: "appendSequence ct s = Done c1" and b: "appendSequences c1 seqs = Done ct'"
    by (auto split: outcome.splits)
  from appendSequence_fields[OF a] Cons.IH[OF b] show ?case by simp
qed

lemma appendBase_fields:
  "appendBase ct b = Done ct' \<Longrightarrow>
     ct_ComplexContent ct' = ct_ComplexContent ct \<and> ct_SimpleContent ct' = ct_SimpleContent ct
     \<and> ct_Choice ct' = ct_Choice ct \<and> (ct_Sequence ct' = None \<longleftrightarrow> ct_Sequence ct = None)"
  by (auto simp: appendBase_def split: option.splits)

lemma flatComplexContent_cc:
  assumes "flatComplexContent ctypes H a = Done H'"
  shows "noComplexExtension (cts H' a) \<and> (b \<noteq> a \<longrightarrow> cts H' b = cts H b)
    \<and> ct_SimpleContent (cts H' b) = ct_SimpleContent (cts H b) \<and> ats H' = ats H"
  using assms
  by (auto simp: flatComplexContent_def Let_def noComplexExtension_def setct_def
      split: option.splits outcome.splits if_splits
      dest!: appendSequences_fields appendBase_fields)

lemma flatSimpleContent_sc:
  assumes "flatSimpleContent ctypes H a = Done H'"
  shows "noSimpleExtension (cts H' a) \<and> (b \<noteq> a \<longrightarrow> cts H' b = cts H b)
    \<and> ct_ComplexContent (cts H' b) = ct_ComplexContent (cts H b) \<and> ats H' = ats H"
  using assms
  by (auto simp: flatSimpleContent_def Let_def noSimpleExtension_def setct_def
      split: option.splits outcome.splits if_splits
      dest!: appendBase_fields)


lemma flatChoice_fields:
  "ct_ComplexContent (flatChoice ct r) = ct_ComplexContent ct"
  "ct_SimpleContent (flatChoice ct r) = ct_SimpleContent ct"
  "ct_Sequence (flatChoice ct r) = ct_Sequence ct"
  "ct_Choice (flatChoice ct r) = None"
  "ct_Attributes (flatChoice ct r) = ct_Attributes ct"
  by (auto simp: flatChoice_def split: option.splits prod.splits)

lemma mergeFragment_clear:
  assumes "keepsClear rec" "mergeFragment rec H a v = Done H'"
  shows "(noComplexExtension (cts H b) \<longrightarrow> noComplexExtension (cts H' b))
    \<and> (noSimpleExtension (cts H b) \<longrightarrow> noSimpleExtension (cts H' b)) \<and> ats H' = ats H"
  using assms
  by (auto simp: mergeFragment_def keepsClear_def Let_def setct_def noComplexExtension_def noSimpleExtension_def
      split: outcome.splits)

lemma mergeFragments_clear:
  assumes "keepsClear rec" "mergeFragments rec H a vs = Done H'"
  shows "(noComplexExtension (cts H b) \<longrightarrow> noComplexExtension (cts H' b)) \<and> (noSimpleExtension (cts H b) \<longrightarrow> noSimpleExtension (cts H' b))
    \<and> ats H' = ats H"
  using assms(2)
proof (induction vs arbitrary: H)
  case Nil
  then show ?case by simp
next
  case (Cons v vs)
  then obtain H1 where a: "mergeFragment rec H a v = Done H1"
    and b: "mergeFragments rec H1 a vs = Done H'"
    by (auto split: outcome.splits)
  from mergeFragment_clear[OF assms(1) a, where b=b] Cons.IH[OF b] show ?case by auto
qed

lemma flatFields_clear:
  assumes "keepsClear rec" "flatFields rec H a = Done H'"
  shows "(noComplexExtension (cts H b) \<longrightarrow> noComplexExtension (cts H' b)) \<and> (noSimpleExtension (cts H b) \<longrightarrow> noSimpleExtension (cts H' b))
    \<and> ats H' = ats H"
proof (cases "ct_Sequence (cts H a)")
  case None
  with assms(2) show ?thesis
    by (auto simp: flatFields_def setct_def noComplexExtension_def noSimpleExtension_def flatChoice_fields)
next
  case (Some s0)
  with assms(2) obtain H1 where m: "mergeFragments rec H a (sq_ComplexTypes s0) = Done H1"
    by (auto simp: flatFields_def split: outcome.splits)
  with assms(2) Some have "\<exists>ct'. H' = setct H1 a ct' \<and> ct_ComplexContent ct' = ct_ComplexContent (cts H1 a)
      \<and> ct_SimpleContent ct' = ct_SimpleContent (cts H1 a)"
    by (auto simp: flatFields_def Let_def flatChoice_fields split: option.splits prod.splits)
  with mergeFragments_clear[OF assms(1) m, where b=b] show ?thesis
    by (auto simp: setct_def noComplexExtension_def noSimpleExtension_def)
qed

lemma flatTypeElements_keepsClear: "keepsClear (flatTypeElements n ctypes)"
proof (induction n)
  case 0
  then show ?case by (simp add: keepsClear_def)
next
  case (Suc n)
  show ?case
    unfolding keepsClear_def
  proof (intro allI impI)
    fix H v H' b
    assume r: "flatTypeElements (Suc n) ctypes H v = Done H'"
    define H0 where "H0 = (if ct_Sequence (cts H v) = None
                then setct H v ((cts H v)\<lparr>ct_Sequence := Some emptySequence\<rparr>) else H)"
    from r obtain H1 H2 where
      c: "flatComplexContent ctypes H0 v = Done H1" and
      s: "flatSimpleContent ctypes H1 v = Done H2" and
      f: "flatFields (flatTypeElements n ctypes) H2 v = Done H'"
      by (auto simp: H0_def Let_def split: outcome.splits)
    have h0: "ct_ComplexContent (cts H0 b) = ct_ComplexContent (cts H b)"
      "ct_SimpleContent (cts H0 b) = ct_SimpleContent (cts H b)" "ats H0 = ats H"
      by (auto simp: H0_def setct_def)
    have c1: "noComplexExtension (cts H b) \<Longrightarrow> noComplexExtension (cts H1 b)"
      using flatComplexContent_cc[OF c, of b] h0 by (cases "b = v") (auto simp: noComplexExtension_def)
    have c2: "noSimpleExtension (cts H b) \<Longrightarrow> noSimpleExtension (cts H1 b)"
      using flatComplexContent_cc[OF c, of b] h0 by (auto simp: noSimpleExtension_def)
    have s1: "noComplexExtension (cts H1 b) \<Longrightarrow> noComplexExtension (cts H2 b)"
      using flatSimpleContent_sc[OF s, of b] by (auto simp: noComplexExtension_def)
    have s2: "noSimpleExtension (cts H1 b) \<Longrightarrow> noSimpleExtension (cts H2 b)"
      using flatSimpleContent_sc[OF s, of b] by (cases "b = v") (auto simp: noSimpleExtension_def)
    from flatFields_clear[OF Suc f, where b=b] c1 c2 s1 s2
      flatComplexContent_cc[OF c, of b] flatSimpleContent_sc[OF s, of b] h0(3)
    show "(noComplexExtension (cts H b) \<longrightarrow> noComplexExtension (cts H' b)) \<and> (noSimpleExtension (cts H b) \<longrightarrow> noSimpleExtension (cts H' b))
      \<and> ats H' = ats H" by auto
  qed
qed

lemma flatFields_markers:
  assumes "flatFields rec H a = Done H'"
  shows "ct_Sequence (cts H' a) = None \<and> ct_Choice (cts H' a) = None"
  using assms
  by (auto simp: flatFields_def Let_def setct_def flatChoice_fields
      split: option.splits outcome.splits prod.splits)

lemma flatTypeElements_cleared:
  assumes "flatTypeElements n ctypes H a = Done H'"
  shows "ct_Sequence (cts H' a) = None" "ct_Choice (cts H' a) = None"
    "noComplexExtension (cts H' a)" "noSimpleExtension (cts H' a)"
proof -
  obtain m where n: "n = Suc m" using assms by (cases n) auto
  define H0 where "H0 = (if ct_Sequence (cts H a) = None
                then setct H a ((cts H a)\<lparr>ct_Sequence := Some emptySequence\<rparr>) else H)"
  from assms n obtain H1 H2 where
      c: "flatComplexContent ctypes H0 a = Done H1" and
      s: "flatSimpleContent ctypes H1 a = Done H2" and
      f: "flatFields (flatTypeElements m ctypes) H2 a = Done H'"
    by (auto simp: H0_def Let_def split: outcome.splits)
  from flatFields_markers[OF f]
  show "ct_Sequence (cts H' a) = None" "ct_Choice (cts H' a) = None" by auto
  have "noComplexExtension (cts H1 a)" using flatComplexContent_cc[OF c, of a] by simp
  then have "noComplexExtension (cts H2 a)" using flatSimpleContent_sc[OF s, of a] by (simp add: noComplexExtension_def)
  then show "noComplexExtension (cts H' a)"
    using flatFields_clear[OF flatTypeElements_keepsClear f, where b=a] by simp
  have "noSimpleExtension (cts H2 a)" using flatSimpleContent_sc[OF s, of a] by simp
  then show "noSimpleExtension (cts H' a)"
    using flatFields_clear[OF flatTypeElements_keepsClear f, where b=a] by simp
qed

lemma flatComplexContent_noop:
  "noComplexExtension (cts H a) \<Longrightarrow> flatComplexContent ctypes H a = Done H"
  by (auto simp: flatComplexContent_def noComplexExtension_def Let_def split: option.splits)

lemma flatSimpleContent_noop:
  "noSimpleExtension (cts H a) \<Longrightarrow> flatSimpleContent ctypes H a = Done H"
  by (auto simp: flatSimpleContent_def noSimpleExtension_def Let_def split: option.splits)

lemma flatFields_empty:
  assumes "ct_Sequence (cts H a) = Some emptySequence" "ct_Choice (cts H a) = None"
  shows "flatFields rec H a = Done (setct H a ((cts H a)\<lparr>ct_Sequence := None\<rparr>))"
proof -
  have "flatChoice ((cts H a)\<lparr>ct_AllElements := ct_AllElements (cts H a), ct_Sequence := None\<rparr>) {}
      = (cts H a)\<lparr>ct_Sequence := None\<rparr>"
    using assms(2) by (cases "cts H a") (simp add: flatChoice_def)
  then show ?thesis using assms(1)
    by (simp add: flatFields_def emptySequence_def)
qed

lemma flatTypeElements_flat_noop:
  assumes "ct_Sequence (cts H a) = None" "ct_Choice (cts H a) = None"
    "noComplexExtension (cts H a)" "noSimpleExtension (cts H a)"
  shows "flatTypeElements (Suc m) ctypes H a = Done H"
proof -
  define H0 where "H0 = setct H a ((cts H a)\<lparr>ct_Sequence := Some emptySequence\<rparr>)"
  have ct0: "cts H0 a = (cts H a)\<lparr>ct_Sequence := Some emptySequence\<rparr>"
    by (simp add: H0_def setct_def)
  have c: "flatComplexContent ctypes H0 a = Done H0"
    using assms(3) by (intro flatComplexContent_noop) (simp add: ct0 noComplexExtension_def)
  have s: "flatSimpleContent ctypes H0 a = Done H0"
    using assms(4) by (intro flatSimpleContent_noop) (simp add: ct0 noSimpleExtension_def)
  have r: "(cts H a)\<lparr>ct_Sequence := None\<rparr> = cts H a"
    using assms(1) by (cases "cts H a") simp
  have "flatFields (flatTypeElements m ctypes) H0 a
      = Done (setct H0 a ((cts H0 a)\<lparr>ct_Sequence := None\<rparr>))"
    using assms(2) by (intro flatFields_empty) (simp_all add: ct0)
  also have "setct H0 a ((cts H0 a)\<lparr>ct_Sequence := None\<rparr>) = H"
    by (simp add: H0_def setct_def r)
  finally show ?thesis using assms(1) c s by (simp add: H0_def)
qed

lemma flatElementFields_keep_first:
  "flatElementFields acc xs R =
     (acc @ keep_first (filter (\<lambda>e. el_Name e \<notin> R) xs), R \<union> el_Name ` set xs)"
proof (induction xs arbitrary: acc R)
  case Nil
  then show ?case by simp
next
  case (Cons x xs)
  show ?case
  proof (cases "el_Name x \<in> R")
    case True
    then show ?thesis using Cons.IH[of acc R] by (auto simp: flatElementField_def)
  next
    case False
    have f: "filter (\<lambda>y. el_Name y \<noteq> el_Name x) (filter (\<lambda>e. el_Name e \<notin> R) xs)
        = filter (\<lambda>e. el_Name e \<notin> insert (el_Name x) R) xs"
      by (induction xs) auto
    have "flatElementFields acc (x # xs) R = flatElementFields (acc @ [x]) xs (insert (el_Name x) R)"
      using False by (simp add: flatElementField_def)
    also have "\<dots> = ((acc @ [x]) @ keep_first (filter (\<lambda>e. el_Name e \<notin> insert (el_Name x) R) xs),
        insert (el_Name x) R \<union> el_Name ` set xs)"
      by (rule Cons.IH)
    also have "\<dots> = (acc @ keep_first (filter (\<lambda>e. el_Name e \<notin> R) (x # xs)),
        R \<union> el_Name ` set (x # xs))"
      using False by (auto intro!: arg_cong[where f=keep_first] filter_cong)
    finally show ?thesis .
  qed
qed

lemma flatElementFields_fresh:
  "fst (flatElementFields acc xs {}) = acc @ keep_first xs"
  by (simp add: flatElementFields_keep_first)

lemma exHeap_flatten:
  "\<exists>H. flatTypeElements 3 exCtypes exHeap 0 = Done H \<and>
     map (\<lambda>e. (el_Name e, el_Type e)) (ct_AllElements (cts H 0)) =
       [(''x'', ''int''), (''z'', ''int''), (''x'', ''long''), (''y'', ''int'')]"
  by (simp add: numeral_3_eq_3 exCtypes_def exHeap_def flatComplexContent_def
      flatSimpleContent_def flatFields_def Let_def setct_def emptySequence_def
      emptyComplexType_def mkElement_def appendBase_def appendSequence_def extSequences_def
      choiceAsSequence_def mergeFragment_def flatElementField_def flatChoice_def trimns_def)

text \<open>One round of the merge loop, whatever the recursive call does: the fields
  accumulated so far are kept and never consulted, and the first occurrences, by name,
  of the fragment's flat field list are appended to them.\<close>

lemma mergeFragment_appends:
  assumes "rec H v = Done H1"
  shows "\<exists>H2. mergeFragment rec H a v = Done H2 \<and>
      ct_AllElements (cts H2 a) =
        ct_AllElements (cts H1 a) @ keep_first (ct_AllElements (cts H1 v))"
  using assms by (simp add: mergeFragment_def Let_def setct_def flatElementFields_fresh)








text \<open>The same through \<^verbatim>\<open>flatTypeElements\<close> from the types as declared, where the
  recursion flattens \<^verbatim>\<open>GrandBase\<close>, \<^verbatim>\<open>Base\<close> and \<^verbatim>\<open>Mixin\<close> on the way: the flat lists
  of \<^verbatim>\<open>Base\<close> and of \<^verbatim>\<open>Derived\<close>.\<close>

lemma exHeapGrand_flatten:
  "map_option (\<lambda>H. (fieldsOf H 1, fieldsOf H 0))
     (returned (flatTypeElements 3 exCtypesGrand exHeapGrand 0))
   = Some ([(''x'', ''int''), (''x'', ''string''), (''z'', ''int'')],
           [(''x'', ''int''), (''z'', ''int''), (''x'', ''long''), (''y'', ''int'')])"
  by code_simp


text \<open>
  C8. Flattening idempotence. When \<^verbatim>\<open>flatTypeElements\<close> has returned for the complex
  type at \<open>a\<close>, a second call on that type returns (with any positive fuel) and leaves
  the whole store as it is: the flat field list, the attributes and every other field of
  every type are unchanged. The shape markers of the type are cleared: no sequence, no
  choice, and no extension under its complex or simple content.
\<close>

theorem flatTypeElements_second_pass_noop:
  assumes "flatTypeElements n ctypes H a = Done H'"
  shows "flatTypeElements (Suc m) ctypes H' a = Done H' \<and>
     ct_Sequence (cts H' a) = None \<and> ct_Choice (cts H' a) = None \<and>
     noComplexExtension (cts H' a) \<and> noSimpleExtension (cts H' a)"
  using flatTypeElements_cleared[OF assms] flatTypeElements_flat_noop[of H' a m ctypes]
  by simp

theorem flatTypeElements_second_pass_noop_witness:
  "\<exists>H'. flatTypeElements 3 exCtypes exHeap 0 = Done H' \<and>
     flatTypeElements (Suc 0) exCtypes H' 0 = Done H' \<and>
     ct_Sequence (cts H' 0) = None \<and> ct_Choice (cts H' 0) = None \<and>
     noComplexExtension (cts H' 0) \<and> noSimpleExtension (cts H' 0)"
proof -
  from exHeap_flatten obtain H' where
    hn: "flatTypeElements 3 exCtypes exHeap 0 = Done H' \<and>
     map (\<lambda>e. (el_Name e, el_Type e)) (ct_AllElements (cts H' 0)) =
       [(''x'', ''int''), (''z'', ''int''), (''x'', ''long''), (''y'', ''int'')]" ..
  then have h: "flatTypeElements 3 exCtypes exHeap 0 = Done H'" ..
  show ?thesis
    by (rule exI[of _ H'], rule conjI[OF h], rule flatTypeElements_second_pass_noop[OF h])
qed

subsection \<open>The import resolver\<close>

text \<open>Behind \<^verbatim>\<open>http\<close> each location is fetched once: the root lists
  \<^verbatim>\<open>http://h/a.xsd\<close> twice, and \<^verbatim>\<open>a.xsd\<close> and \<^verbatim>\<open>b.xsd\<close> import each other.\<close>

lemma http_cycle_terminates:
  "\<exists>ge d. importParts 3 exWorldHttp ((NewEncoder, []), exDefsHttpCycle)
     = Done (((ge, [''http://h/a.xsd'', ''http://h/b.xsd'']), d), None)"
  by (simp add: numeral_3_eq_3 importParts_def importSchema_def importRemote_def
      exWorldHttp_def exDefsHttpCycle_def emptyDefinitions_def emptySchema_def NewEncoder_def
      exUrlParse_def unionSchemasData_def)

text \<open>A location whose scheme is neither \<^verbatim>\<open>http\<close> nor \<^verbatim>\<open>https\<close> is never marked as
  imported, whatever the file system and the decoder return.\<close>

lemma importRemote_local_unmarked:
  assumes "w_urlParse W location = Inr u" "u_Scheme u \<noteq> ''http''" "u_Scheme u \<noteq> ''https''"
  shows "ge_importedSchemas (fst (fst (importRemote W decode (ge, log) location)))
           = ge_importedSchemas ge"
  using assms by (simp add: importRemote_def split: sum.splits)

text \<open>
  C2. Import deduplication fails for local files. \<^verbatim>\<open>importRemote\<close> marks a location as
  imported only in its \<^verbatim>\<open>http\<close>/\<^verbatim>\<open>https\<close> case, so the test of \<^verbatim>\<open>includeImport\<close> never
  finds a local path. A root schema that imports and includes the local file \<^verbatim>\<open>c.xsd\<close>
  fetches it twice; and when the root imports \<^verbatim>\<open>a.xsd\<close> and \<^verbatim>\<open>b.xsd\<close>, which both
  import \<^verbatim>\<open>c.xsd\<close>, the run fetches \<^verbatim>\<open>c.xsd\<close> once for each. (The second component of
  the state is the list of the locations fetched, in order.)
\<close>

theorem local_file_fetched_twice:
  "(\<exists>ge d. importParts 1 exWorldFiles ((NewEncoder, []), exDefsTwice)
         = Done (((ge, [''c.xsd'', ''c.xsd'']), d), None))
   \<and> (\<exists>ge d. importParts 2 exWorldFiles ((NewEncoder, []), exDefsDiamond)
         = Done (((ge, [''a.xsd'', ''c.xsd'', ''b.xsd'', ''c.xsd'']), d), None))"
  by (simp add: numeral_2_eq_2 importParts_def importSchema_def importRemote_def
      exWorldFiles_def exDefsTwice_def exDefsDiamond_def emptyDefinitions_def emptySchema_def
      NewEncoder_def exUrlParse_def unionSchemasData_def)

text \<open>
  C3. A failure below the first level is not fatal. \<^verbatim>\<open>includeImport\<close> drops the error
  of its recursive calls: when the imported \<^verbatim>\<open>http://h/b.xsd\<close> lists
  \<^verbatim>\<open>http://h/c.xsd\<close>, which cannot be retrieved, \<^verbatim>\<open>importParts\<close> fetches both and returns
  no error. The same location listed by the root schema itself does abort the run.
\<close>

theorem transitive_import_failure_ignored:
  "(\<exists>ge d. importParts 2 exWorldFail ((NewEncoder, []), exDefsFail)
       = Done (((ge, [''http://h/b.xsd'', ''http://h/c.xsd'']), d), None))
   \<and> (\<exists>ge d. importParts 2 exWorldFail ((NewEncoder, []), exDefsFailDirect)
       = Done (((ge, [''http://h/c.xsd'']), d), Some ''404 Not Found''))"
  by (simp add: numeral_2_eq_2 importParts_def importSchema_def importRemote_def
      exWorldFail_def exDefsFail_def exDefsFailDirect_def emptyDefinitions_def emptySchema_def
      NewEncoder_def exUrlParse_def unionSchemasData_def)

subsection \<open>Emitting types\<close>

lemma wsdl2goType_stypes: "ge_stypes (fst (wsdl2goType ge t)) = ge_stypes ge"
  by (simp add: wsdl2goType_def Let_def)

lemma wsdl2goType_stypes': "wsdl2goType ge t = (ge1, s) \<Longrightarrow> ge_stypes ge1 = ge_stypes ge"
  using wsdl2goType_stypes[of ge t] by simp

lemma genValidator_stypes': "genValidator ge n r = (ge1, s) \<Longrightarrow> ge_stypes ge1 = ge_stypes ge"
  by (auto simp: genValidator_def split: if_splits prod.splits dest: wsdl2goType_stypes')

lemma unionMemberTypes_Done_stypes:
  "unionMemberTypes ge stname types nt bt = Done (ge1, nt1, bt1) \<Longrightarrow> ge_stypes ge1 = ge_stypes ge"
proof (induction types arbitrary: ge nt bt)
  case Nil
  then show ?case by simp
next
  case (Cons t0 types)
  show ?case
  proof (cases "trimSpace t0 = []")
    case True
    with Cons show ?thesis by simp
  next
    case False
    obtain g1 gt where w: "wsdl2goType ge (trimSpace t0) = (g1, gt)" by (cases "wsdl2goType ge (trimSpace t0)")
    have s: "ge_stypes g1 = ge_stypes ge" using wsdl2goType_stypes'[OF w] .
    from Cons.prems False w show ?thesis
      by (auto simp: Let_def s split: option.splits dest!: Cons.IH)
  qed
qed

lemma unionMemberTypes_not_OutOfFuel:
  "unionMemberTypes ge stname types nt bt \<noteq> OutOfFuel"
proof (induction types arbitrary: ge nt bt)
  case Nil
  then show ?case by simp
next
  case (Cons t0 types)
  show ?case
  proof (cases "trimSpace t0 = []")
    case True
    with Cons show ?thesis by simp
  next
    case False
    obtain g1 gt where w: "wsdl2goType ge (trimSpace t0) = (g1, gt)" by (cases "wsdl2goType ge (trimSpace t0)")
    from False w Cons.IH show ?thesis
      by (auto simp: Let_def split: option.splits)
  qed
qed

lemma unionMemberTypes_missing:
  assumes "t \<in> set types" "trimSpace t \<noteq> []" "map_of (ge_stypes ge) (trimSpace t) = None"
  shows "\<exists>m. unionMemberTypes ge stname types nt bt = Panic m"
  using assms
proof (induction types arbitrary: ge nt bt)
  case Nil
  then show ?case by simp
next
  case (Cons t0 types)
  show ?case
  proof (cases "trimSpace t0 = []")
    case True
    with Cons.prems have "t \<in> set types" by auto
    from Cons.IH[OF this Cons.prems(2,3)] True show ?thesis by simp
  next
    case False
    obtain g1 gt where w: "wsdl2goType ge (trimSpace t0) = (g1, gt)" by (cases "wsdl2goType ge (trimSpace t0)")
    have s: "ge_stypes g1 = ge_stypes ge" using wsdl2goType_stypes'[OF w] .
    show ?thesis
    proof (cases "map_of (ge_stypes ge) (trimSpace t0)")
      case None
      with False w s show ?thesis by (simp add: Let_def)
    next
      case (Some st)
      with Cons.prems have tt: "t \<in> set types" by auto
      have m: "map_of (ge_stypes g1) (trimSpace t) = None" using Cons.prems(3) s by simp
      from Some False w s Cons.IH[OF tt Cons.prems(2) m] show ?thesis
        by (auto simp: Let_def split: option.splits)
    qed
  qed
qed

lemma writeSimpleType_not_OutOfFuel: "writeSimpleType ge st \<noteq> OutOfFuel"
  using unionMemberTypes_not_OutOfFuel
  by (auto simp: writeSimpleType_def Let_def split: option.splits prod.splits outcome.splits list.splits)

lemma writeSimpleType_stypes:
  assumes "writeSimpleType ge st = Done (ge1, out)"
  shows "ge_stypes ge1 = ge_stypes ge"
proof (cases "st_Restriction st")
  case (Some r)
  obtain g1 b where w: "wsdl2goType ge (rs_Base r) = (g1, b)"
    by (cases "wsdl2goType ge (rs_Base r)")
  obtain g2 v where g: "genValidator g1 (goSymbol (st_Name st)) r = (g2, v)"
    by (cases "genValidator g1 (goSymbol (st_Name st)) r")
  from assms Some w g have "ge1 = g2" by (simp add: writeSimpleType_def Let_def)
  with wsdl2goType_stypes'[OF w] genValidator_stypes'[OF g] show ?thesis by simp
next
  case None
  show ?thesis
  proof (cases "st_Union st")
    case n: None
    with None assms show ?thesis by (simp add: writeSimpleType_def Let_def)
  next
    case (Some u)
    from assms None Some obtain g1 nt bt where
      m: "unionMemberTypes ge (goSymbol (st_Name st)) (split (CHR '' '') (un_MemberTypes u)) [] []
          = Done (g1, nt, bt)"
      by (auto simp: writeSimpleType_def Let_def split: outcome.splits)
    have s1: "ge_stypes g1 = ge_stypes ge" using unionMemberTypes_Done_stypes[OF m] .
    obtain nt2 bt2 where us: "unionSimpleTypes (un_SimpleTypes u) nt bt = (nt2, bt2)"
      by (cases "unionSimpleTypes (un_SimpleTypes u) nt bt")
    show ?thesis
    proof (cases "\<exists>b. bt2 = [b]")
      case True
      then obtain b where b: "bt2 = [b]" by blast
      obtain g2 gt where w: "wsdl2goType g1 b = (g2, gt)" by (cases "wsdl2goType g1 b")
      from assms None Some m us b w have "ge1 = g2" by (simp add: writeSimpleType_def Let_def)
      with wsdl2goType_stypes'[OF w] s1 show ?thesis by simp
    next
      case False
      with assms None Some m us have "ge1 = g1"
        by (auto simp: writeSimpleType_def Let_def split: list.splits)
      with s1 show ?thesis by simp
    qed
  qed
qed

lemma writeSimpleType_missing:
  assumes "st_Restriction st = None" "st_Union st = Some u"
    "t \<in> set (split (CHR '' '') (un_MemberTypes u))" "trimSpace t \<noteq> []"
    "map_of (ge_stypes ge) (trimSpace t) = None"
  shows "\<exists>m. writeSimpleType ge st = Panic m"
  using assms unionMemberTypes_missing[OF assms(3,4,5), of "goSymbol (st_Name st)" "[]" "[]"]
  by (auto simp: writeSimpleType_def Let_def)

lemma writeSimpleTypes_missing:
  assumes "name \<in> set names" "map_of (ge_stypes ge) name = Some st"
    "st_Restriction st = None" "st_Union st = Some u"
    "t \<in> set (split (CHR '' '') (un_MemberTypes u))" "trimSpace t \<noteq> []"
    "map_of (ge_stypes ge) (trimSpace t) = None"
  shows "\<exists>m. writeSimpleTypes ge names = Panic m"
  using assms(1,2,7)
proof (induction names arbitrary: ge)
  case Nil
  then show ?case by simp
next
  case (Cons n names)
  show ?case
  proof (cases "map_of (ge_stypes ge) n")
    case None
    then show ?thesis by simp
  next
    case (Some st')
    show ?thesis
    proof (cases "writeSimpleType ge st'")
      case OutOfFuel
      then show ?thesis using writeSimpleType_not_OutOfFuel by blast
    next
      case (Panic m)
      with Some show ?thesis by simp
    next
      case (Done r)
      obtain ge1 out1 where r: "r = (ge1, out1)" by (cases r)
      have s: "ge_stypes ge1 = ge_stypes ge" using writeSimpleType_stypes Done r by blast
      show ?thesis
      proof (cases "n = name")
        case True
        with Some Cons.prems have "st' = st" by simp
        with writeSimpleType_missing[OF assms(3,4,5,6) Cons.prems(3)] Done show ?thesis by simp
      next
        case False
        with Cons.prems have "name \<in> set names" by auto
        from Cons.IH[OF this, of ge1] Cons.prems s obtain m where "writeSimpleTypes ge1 names = Panic m"
          by auto
        with Some Done r show ?thesis by simp
      qed
    qed
  qed
qed


lemma panicMessage_Some: "panicMessage r = Some m \<Longrightarrow> r = Panic m"
  by (auto simp: panicMessage_def split: outcome.splits)

lemma exGeUnion_panics:
  "writeGoTypes exEnrich exGeUnion exHeap emptyDefinitions
   = Panic (''Union for '' @ SQ @ ''U'' @ SQ @ '': simple type '' @ SQ @ ''Missing'' @ SQ
            @ '' must be in ge.stypes'')"
proof -
  have "panicMessage (writeGoTypes exEnrich exGeUnion exHeap emptyDefinitions)
     = Some (''Union for '' @ SQ @ ''U'' @ SQ @ '': simple type '' @ SQ @ ''Missing'' @ SQ
             @ '' must be in ge.stypes'')"
    by code_simp
  then show ?thesis by (rule panicMessage_Some)
qed

text \<open>
  C9. A union with an unregistered member makes code emission panic. Whenever the
  catalog of simple types holds a union (a simple type without a restriction) one of
  whose listed member names, trimmed and not empty, is not a key of the catalog,
  \<^verbatim>\<open>writeGoTypes\<close> does not return an error value: it panics.
\<close>

theorem writeGoTypes_union_member_panics:
  assumes "map_of (ge_stypes ge) name = Some st"
    and "st_Restriction st = None" and "st_Union st = Some u"
    and "t \<in> set (split (CHR '' '') (un_MemberTypes u))"
    and "trimSpace t \<noteq> []" and "map_of (ge_stypes ge) (trimSpace t) = None"
  shows "\<exists>m. writeGoTypes enrich ge H d = Panic m"
proof -
  have "name \<in> set (sortedSimpleTypes ge)"
    using assms(1) by (auto simp: sortedSimpleTypes_def dest!: map_of_SomeD intro: rev_image_eqI)
  from writeSimpleTypes_missing[OF this assms] show ?thesis
    by (auto simp: writeGoTypes_def)
qed

theorem writeGoTypes_union_member_panics_witness:
  "(\<exists>m. writeGoTypes exEnrich exGeUnion exHeap emptyDefinitions = Panic m)
   \<and> writeGoTypes exEnrich exGeUnion exHeap emptyDefinitions
     = Panic (''Union for '' @ SQ @ ''U'' @ SQ @ '': simple type '' @ SQ @ ''Missing'' @ SQ
              @ '' must be in ge.stypes'')"
proof
  have a: "map_of (ge_stypes exGeUnion) ''U'' =
      Some \<lparr>st_Name = ''U'', st_TargetNamespace = [], st_Restriction = None,
             st_Union = Some \<lparr>un_MemberTypes = ''A Missing'', un_SimpleTypes = []\<rparr>\<rparr>"
    by (simp add: exGeUnion_def NewEncoder_def)
  have b: "''Missing'' \<in> set (split (CHR '' '')
      (un_MemberTypes \<lparr>un_MemberTypes = ''A Missing'', un_SimpleTypes = []\<rparr>))" by simp
  have c: "trimSpace ''Missing'' \<noteq> []" by (simp add: trimSpace_def trimBoth_def isSpace_def)
  have d: "map_of (ge_stypes exGeUnion) (trimSpace ''Missing'') = None"
    by (simp add: exGeUnion_def NewEncoder_def trimSpace_def trimBoth_def isSpace_def)
  show "\<exists>m. writeGoTypes exEnrich exGeUnion exHeap emptyDefinitions = Panic m"
    by (rule writeGoTypes_union_member_panics[OF a _ _ b c d]) simp_all
next
  show "writeGoTypes exEnrich exGeUnion exHeap emptyDefinitions
     = Panic (''Union for '' @ SQ @ ''U'' @ SQ @ '': simple type '' @ SQ @ ''Missing'' @ SQ
              @ '' must be in ge.stypes'')"
    by (rule exGeUnion_panics)
qed

lemma genGoStruct_unmarked:
  assumes "unmarked (cts H a)"
  shows "snd (snd (genGoStruct enrich ge H d a)) \<noteq> opaqueDeclaration (cts H a)"
  using assms
  by (auto simp: genGoStruct_def Let_def opaqueDeclaration_def unmarked_def
      split: option.splits prod.splits)

lemma genGoStruct_wildcard:
  assumes "\<not> ct_Abstract (cts H a)" "ct_Sequence (cts H a) = Some s" "sq_Any s \<noteq> []" "sq_Elements s = []"
  shows "snd (snd (genGoStruct enrich ge H d a)) = opaqueDeclaration (cts H a)"
  using assms
  by (auto simp: genGoStruct_def Let_def opaqueDeclaration_def)

lemma mergeFragment_unmarked:
  assumes "keepsUnmarked rec" "mergeFragment rec H a v = Done H'" "unmarked (cts H b)"
  shows "unmarked (cts H' b)"
  using assms
  by (auto simp: mergeFragment_def keepsUnmarked_def Let_def setct_def unmarked_def
      split: outcome.splits)

lemma mergeFragments_unmarked:
  assumes "keepsUnmarked rec" "mergeFragments rec H a vs = Done H'" "unmarked (cts H b)"
  shows "unmarked (cts H' b)"
  using assms(2,3)
proof (induction vs arbitrary: H)
  case Nil
  then show ?case by simp
next
  case (Cons v vs)
  then obtain H1 where a: "mergeFragment rec H a v = Done H1"
    and b: "mergeFragments rec H1 a vs = Done H'"
    by (auto split: outcome.splits)
  from Cons.IH[OF b mergeFragment_unmarked[OF assms(1) a Cons.prems(2)]] show ?case .
qed

lemma flatFields_sets:
  assumes "flatFields rec H a = Done H'"
  shows "ct_Sequence (cts H' a) = None \<and> ct_Choice (cts H' a) = None"
  using assms
  by (auto simp: flatFields_def Let_def setct_def flatChoice_def
      split: option.splits outcome.splits prod.splits)

lemma flatFields_unmarked:
  assumes "keepsUnmarked rec" "flatFields rec H a = Done H'" "b = a \<or> unmarked (cts H b)"
  shows "unmarked (cts H' b)"
proof (cases "b = a")
  case True
  with flatFields_sets[OF assms(2)] show ?thesis by (simp add: unmarked_def)
next
  case False
  with assms(3) have u: "unmarked (cts H b)" by simp
  show ?thesis
  proof (cases "ct_Sequence (cts H a)")
    case None
    with assms(2) False u show ?thesis by (auto simp: flatFields_def setct_def)
  next
    case (Some s0)
    with assms(2) obtain H1 where m: "mergeFragments rec H a (sq_ComplexTypes s0) = Done H1"
      by (auto simp: flatFields_def split: outcome.splits)
    with assms(2) Some have "\<exists>ct'. H' = setct H1 a ct'"
      by (auto simp: flatFields_def Let_def split: option.splits prod.splits)
    with mergeFragments_unmarked[OF assms(1) m u] False show ?thesis
      by (auto simp: setct_def)
  qed
qed

lemma flatComplexContent_frame:
  "flatComplexContent ctypes H a = Done H' \<Longrightarrow> b \<noteq> a \<Longrightarrow> cts H' b = cts H b"
  by (auto simp: flatComplexContent_def Let_def setct_def split: option.splits outcome.splits if_splits)

lemma flatSimpleContent_frame:
  "flatSimpleContent ctypes H a = Done H' \<Longrightarrow> b \<noteq> a \<Longrightarrow> cts H' b = cts H b"
  by (auto simp: flatSimpleContent_def Let_def setct_def split: option.splits outcome.splits if_splits)

lemma flatTypeElements_keepsUnmarked: "keepsUnmarked (flatTypeElements n ctypes)"
proof (induction n)
  case 0
  then show ?case by (simp add: keepsUnmarked_def)
next
  case (Suc n)
  show ?case
    unfolding keepsUnmarked_def
  proof (intro allI impI)
    fix H v H' b
    assume r: "flatTypeElements (Suc n) ctypes H v = Done H'" and u: "unmarked (cts H b)"
    define H0 where "H0 = (if ct_Sequence (cts H v) = None
                then setct H v ((cts H v)\<lparr>ct_Sequence := Some emptySequence\<rparr>) else H)"
    from r obtain H1 H2 where
      c: "flatComplexContent ctypes H0 v = Done H1" and
      s: "flatSimpleContent ctypes H1 v = Done H2" and
      f: "flatFields (flatTypeElements n ctypes) H2 v = Done H'"
      by (auto simp: H0_def Let_def split: outcome.splits)
    have "b = v \<or> unmarked (cts H2 b)"
    proof (cases "b = v")
      case False
      then have "cts H0 b = cts H b" by (simp add: H0_def setct_def)
      with flatComplexContent_frame[OF c False] flatSimpleContent_frame[OF s False] u
      show ?thesis by simp
    qed simp
    from flatFields_unmarked[OF Suc f this] show "unmarked (cts H' b)" .
  qed
qed

lemma flatTypeElements_unmarked:
  assumes "flatTypeElements n ctypes H a = Done H'" "b = a \<or> unmarked (cts H b)"
  shows "unmarked (cts H' b)"
proof (cases "b = a")
  case True
  obtain m where n: "n = Suc m" using assms by (cases n) auto
  define H0 where "H0 = (if ct_Sequence (cts H a) = None
                then setct H a ((cts H a)\<lparr>ct_Sequence := Some emptySequence\<rparr>) else H)"
  from assms n obtain H1 H2 where
      f: "flatFields (flatTypeElements m ctypes) H2 a = Done H'"
    by (auto simp: H0_def Let_def split: outcome.splits)
  from flatFields_sets[OF f] True show ?thesis by (simp add: unmarked_def)
next
  case False
  with assms flatTypeElements_keepsUnmarked[of n ctypes] show ?thesis
    by (auto simp: keepsUnmarked_def)
qed

lemma flattenAll_unmarked:
  assumes "flattenAll n ctypes H as = Done H'" "b \<in> set as \<or> unmarked (cts H b)"
  shows "unmarked (cts H' b)"
  using assms
proof (induction as arbitrary: H)
  case Nil
  then show ?case by simp
next
  case (Cons a as)
  then obtain H1 where a: "flatTypeElements n ctypes H a = Done H1"
    and r: "flattenAll n ctypes H1 as = Done H'"
    by (auto split: outcome.splits)
  have "b \<in> set as \<or> unmarked (cts H1 b)"
    using Cons.prems(2) flatTypeElements_unmarked[OF a, of b] by auto
  from Cons.IH[OF r this] show ?case .
qed

text \<open>Whatever the order of the loop, no complex type of the registry is declared as a
  bare repeated opaque value once \<^verbatim>\<open>cacheTypes\<close> has flattened the registry.\<close>

lemma flattened_registry_never_opaque:
  assumes "flattenRegistry os n ge H = Done H'"
    and "map_of (ge_ctypes ge) name = Some a"
    and "name \<in> set (ord_ctypes os (map fst (ge_ctypes ge)))"
  shows "emitted (genGoStruct enrich ge' H' d a) \<noteq> opaqueDeclaration (cts H' a)"
proof -
  have "a \<in> set (List.map_filter (map_of (ge_ctypes ge)) (ord_ctypes os (map fst (ge_ctypes ge))))"
    using assms(2,3) by (force simp: List.map_filter_def)
  with assms(1) have "unmarked (cts H' a)"
    by (auto simp: flattenRegistry_def intro: flattenAll_unmarked)
  then show ?thesis using genGoStruct_unmarked by (simp add: emitted_def)
qed

text \<open>
  C5. Wildcard degradation does not survive the flattener. \<^verbatim>\<open>genGoStruct\<close> alone
  declares the wildcard-only type \<^verbatim>\<open>Payload\<close> as \<^verbatim>\<open>[]interface{}\<close>; but \<^verbatim>\<open>cacheTypes\<close>
  flattens every registered type first, \<^verbatim>\<open>flatFields\<close> sets \<^verbatim>\<open>ct.Sequence\<close> to nil, and
  what \<^verbatim>\<open>genGoStruct\<close> then writes for \<^verbatim>\<open>Payload\<close> is an empty struct.
\<close>

theorem wildcard_type_emitted_as_struct:
  "emitted (genGoStruct exEnrich exGePayload exHeapPayload emptyDefinitions 0)
     = ''// Payload was auto-generated from WSDL.\<newline>type Payload []interface{}\<newline>\<newline>''
   \<and> map_option (\<lambda>H. emitted (genGoStruct exEnrich exGePayload H emptyDefinitions 0))
          (returned (flattenRegistry idOrders 1 exGePayload exHeapPayload))
     = Some ''// Payload was auto-generated from WSDL.\<newline>type Payload struct {\<newline>}\<newline>\<newline>''"
  by code_simp

subsection \<open>Client functions\<close>

lemma wsdl2goType_keeps:
  "wsdl2goType ge t = (ge1, s) \<Longrightarrow> ge_soapOps ge1 = ge_soapOps ge \<and> ge_funcs ge1 = ge_funcs ge"
  by (auto simp: wsdl2goType_def Let_def split: if_splits)

lemma genParam_keeps:
  "genParam ge p False = (ge1, q) \<Longrightarrow> ge_soapOps ge1 = ge_soapOps ge \<and> ge_funcs ge1 = ge_funcs ge"
  by (auto simp: genParam_def split: if_splits prod.splits option.splits dest: wsdl2goType_keeps)

lemma genParamsLoop_keeps:
  "genParamsLoop ge ps False = (ge1, qs)
     \<Longrightarrow> ge_soapOps ge1 = ge_soapOps ge \<and> ge_funcs ge1 = ge_funcs ge"
proof (induction ps arbitrary: ge ge1 qs)
  case Nil
  then show ?case by simp
next
  case (Cons p ps)
  obtain g1 q where a: "genParam ge p False = (g1, q)" by (cases "genParam ge p False")
  obtain g2 qs' where b: "genParamsLoop g1 ps False = (g2, qs')"
    by (cases "genParamsLoop g1 ps False")
  from Cons.prems a b have "ge1 = g2" by simp
  with genParam_keeps[OF a] Cons.IH[OF b] show ?case by simp
qed

lemma inputParams_keeps:
  "inputParams ge op = (ge1, r) \<Longrightarrow> ge_soapOps ge1 = ge_soapOps ge \<and> ge_funcs ge1 = ge_funcs ge"
  by (auto simp: inputParams_def genParams_def Let_def split: option.splits prod.splits
      dest: genParamsLoop_keeps)

lemma outputParams_keeps:
  "outputParams ge op = (ge1, r) \<Longrightarrow> ge_soapOps ge1 = ge_soapOps ge \<and> ge_funcs ge1 = ge_funcs ge"
  by (auto simp: outputParams_def genParams_def Let_def split: option.splits prod.splits
      dest: genParamsLoop_keeps)

lemma outputParams_last:
  "outputParams ge op = (ge1, Inr outs) \<Longrightarrow> \<exists>ps. outs = ps @ [errParameter]"
  by (auto simp: outputParams_def Let_def split: option.splits prod.splits)

lemma unbound_cong:
  "ge_soapOps ge1 = ge_soapOps ge \<Longrightarrow> ge_funcs ge1 = ge_funcs ge \<Longrightarrow> unbound ge1 = unbound ge"
  by (rule ext) (simp add: unbound_def split: option.splits)

lemma interfaceFuncs_skips_unbound:
  "interfaceFuncs ge fns = interfaceFuncs ge (filter (\<lambda>fn. \<not> unbound ge fn) fns)"
proof (induction fns arbitrary: ge)
  case Nil
  show ?case by simp
next
  case (Cons fn fns)
  show ?case
  proof (cases "map_of (ge_funcs ge) fn")
    case None
    then show ?thesis by (simp add: unbound_def)
  next
    case (Some op)
    show ?thesis
    proof (cases "map_of (ge_soapOps ge) (op_Name op) = None")
      case True
      with Some Cons.IH[of ge] show ?thesis by (simp add: unbound_def)
    next
      case False
      then obtain bo where bo: "map_of (ge_soapOps ge) (op_Name op) = Some bo" by blast
      with Some have nb: "\<not> unbound ge fn" by (simp add: unbound_def)
      obtain ge1 r1 where i: "inputParams ge op = (ge1, r1)" by (cases "inputParams ge op")
      obtain ge2 r2 where o: "outputParams ge1 op = (ge2, r2)" by (cases "outputParams ge1 op")
      have u: "unbound ge2 = unbound ge"
        using inputParams_keeps[OF i] outputParams_keeps[OF o] by (intro unbound_cong) simp_all
      have "interfaceFuncs ge2 fns = interfaceFuncs ge2 (filter (\<lambda>fn. \<not> unbound ge fn) fns)"
        using Cons.IH[of ge2] by (simp add: u)
      with Some bo nb i o show ?thesis
        by (simp split: sum.splits)
    qed
  qed
qed

lemma soapActionFuncT_ignores_action:
  "soapActionFuncT (dat\<lparr>sf_RoundTripType := x, sf_Action := y\<rparr>) = soapActionFuncT dat"
  by (simp add: soapActionFuncT_def)


lemma exPing_inputParams: "snd (inputParams exGePing exOpPing) = Inr exInsPing"
  by code_simp

lemma exPing_outputParams:
  "snd (outputParams (fst (inputParams exGePing exOpPing)) exOpPing) = Inr exOutsPing"
  by code_simp

lemma exPing_stub_text:
  "writeComments (op_Name exOpPing) (op_Doc exOpPing)
     @ stubFunc (fst (outputParams (fst (inputParams exGePing exOpPing)) exOpPing)) exOpPing
         exInsPing exOutsPing = exPingStubFunc"
  by code_simp













text \<open>An operation of the port type without a binding operation, whose messages are
  defined: \<^verbatim>\<open>writeGoClientFuncs\<close> writes for it the comment and a function with the
  operation's inputs and outputs as its signature, whose body returns the default of
  every output, the last of which is \<^verbatim>\<open>errors.New("not implemented")\<close>; and the list of
  functions of the interface is the one of the port type without its unbound
  operations.\<close>

lemma unbound_operation_stub:
  assumes "map_of (ge_soapOps ge) (op_Name op) = None"
      and "inputParams ge op = (ge1, Inr ins)" and "outputParams ge1 op = (ge2, Inr outs)"
  shows "(\<exists>ge'. writeGoClientFunc ge d op =
            Done (ge', writeComments (op_Name op) (op_Doc op)
                   @ ''func '' @ fixFuncNameConflicts ge2 (goSymbol (op_Name op))
                   @ ''('' @ inputArgs (code ins) @ '') ('' @ join '','' (codeParams outs)
                   @ '') {\<newline>return ''
                   @ join '','' (map (\<lambda>p. wsdl2goDefault (pm_dataType p)) outs)
                   @ ''\<newline>}\<newline>\<newline>'', None))
       \<and> (\<exists>ps. outs = ps @ [errParameter]
             \<and> map (\<lambda>p. wsdl2goDefault (pm_dataType p)) outs
                 = map (\<lambda>p. wsdl2goDefault (pm_dataType p)) ps
                   @ [''errors.New('' @ DQ @ ''not implemented'' @ DQ @ '')''])
       \<and> (\<forall>fns. interfaceFuncs ge fns = interfaceFuncs ge (filter (\<lambda>fn. \<not> unbound ge fn) fns))
       \<and> (\<forall>fn. map_of (ge_funcs ge) fn = Some op \<longrightarrow> unbound ge fn)"
proof (intro conjI)
  have s: "ge_soapOps ge2 = ge_soapOps ge"
    using inputParams_keeps[OF assms(2)] outputParams_keeps[OF assms(3)] by simp
  have w: "writeSOAPFunc ge2 d op ins outs = Done ([], False)"
    using assms(1) s by (simp add: writeSOAPFunc_def)
  show "\<exists>ge'. writeGoClientFunc ge d op =
            Done (ge', writeComments (op_Name op) (op_Doc op)
                   @ ''func '' @ fixFuncNameConflicts ge2 (goSymbol (op_Name op))
                   @ ''('' @ inputArgs (code ins) @ '') ('' @ join '','' (codeParams outs)
                   @ '') {\<newline>return ''
                   @ join '','' (map (\<lambda>p. wsdl2goDefault (pm_dataType p)) outs)
                   @ ''\<newline>}\<newline>\<newline>'', None)"
    using assms(2,3) w by (simp add: writeGoClientFunc_def Let_def stubFunc_def)
  from outputParams_last[OF assms(3)] obtain ps where ps: "outs = ps @ [errParameter]" by blast
  show "\<exists>ps. outs = ps @ [errParameter]
             \<and> map (\<lambda>p. wsdl2goDefault (pm_dataType p)) outs
                 = map (\<lambda>p. wsdl2goDefault (pm_dataType p)) ps
                   @ [''errors.New('' @ DQ @ ''not implemented'' @ DQ @ '')'']"
    by (rule exI[of _ ps]) (simp add: ps errParameter_def wsdl2goDefault_def trimns_def)
  show "\<forall>fns. interfaceFuncs ge fns = interfaceFuncs ge (filter (\<lambda>fn. \<not> unbound ge fn) fns)"
    using interfaceFuncs_skips_unbound by blast
  show "\<forall>fn. map_of (ge_funcs ge) fn = Some op \<longrightarrow> unbound ge fn"
    using assms(1) by (simp add: unbound_def)
qed

text \<open>The example service, which binds nothing.\<close>

lemma unbound_operation_stub_Ping:
  "map_option fst (written (writeGoClientFunc exGePing exDefsPing exOpPing)) = Some exPingStubFunc
   \<and> unbound exGePing ''Ping''
   \<and> interfaceFuncs exGePing [''Ping''] = interfaceFuncs exGePing []"
proof -
  have a: "map_of (ge_soapOps exGePing) (op_Name exOpPing) = None"
    by (simp add: exGePing_def cacheMessages_def cacheFuncs_def exRegistryPing_def NewEncoder_def Let_def)
  have b: "inputParams exGePing exOpPing = (fst (inputParams exGePing exOpPing), Inr exInsPing)"
    using exPing_inputParams by (simp add: prod_eq_iff)
  have c: "outputParams (fst (inputParams exGePing exOpPing)) exOpPing
             = (fst (outputParams (fst (inputParams exGePing exOpPing)) exOpPing), Inr exOutsPing)"
    using exPing_outputParams by (simp add: prod_eq_iff)
  have f: "map_of (ge_funcs exGePing) ''Ping'' = Some exOpPing"
    by code_simp
  note t = unbound_operation_stub[OF a b c, of exDefsPing]
  from t obtain ge' where "writeGoClientFunc exGePing exDefsPing exOpPing =
      Done (ge', writeComments (op_Name exOpPing) (op_Doc exOpPing)
                   @ ''func '' @ fixFuncNameConflicts (fst (outputParams (fst (inputParams exGePing exOpPing)) exOpPing)) (goSymbol (op_Name exOpPing))
                   @ ''('' @ inputArgs (code exInsPing) @ '') ('' @ join '','' (codeParams exOutsPing)
                   @ '') {\<newline>return ''
                   @ join '','' (map (\<lambda>p. wsdl2goDefault (pm_dataType p)) exOutsPing)
                   @ ''\<newline>}\<newline>\<newline>'', None)" by blast
  then have 1: "map_option fst (written (writeGoClientFunc exGePing exDefsPing exOpPing)) = Some exPingStubFunc"
    using exPing_stub_text by (simp add: written_def stubFunc_def)
  from t f have 2: "unbound exGePing ''Ping''" by blast
  from t have "interfaceFuncs exGePing [''Ping''] = interfaceFuncs exGePing (filter (\<lambda>fn. \<not> unbound exGePing fn) [''Ping''])" by blast
  with 2 have 3: "interfaceFuncs exGePing [''Ping''] = interfaceFuncs exGePing []" by simp
  from 1 2 3 show ?thesis by simp
qed

text \<open>
  C7. The values a stub returns are not always values of the types it declares.
  \<^verbatim>\<open>wsdl2goDefault\<close> knows \<^verbatim>\<open>bool\<close>, \<^verbatim>\<open>uint\<close>, \<^verbatim>\<open>int\<close>, \<^verbatim>\<open>int64\<close>, \<^verbatim>\<open>float64\<close>, \<^verbatim>\<open>string\<close>,
  \<^verbatim>\<open>[]byte\<close> and \<^verbatim>\<open>interface{}\<close> and writes \<^verbatim>\<open>&T{}\<close> for every other type, also for the
  types \<^verbatim>\<open>uint64\<close>, \<^verbatim>\<open>Date\<close> and \<^verbatim>\<open>byte\<close> that \<^verbatim>\<open>wsdl2goType\<close> gives for
  \<^verbatim>\<open>xs:positiveInteger\<close>, \<^verbatim>\<open>xs:date\<close> and \<^verbatim>\<open>xs:byte\<close>. The unbound operation \<^verbatim>\<open>Stats\<close>,
  whose response has one part of each of these types, gets a stub that returns
  \<^verbatim>\<open>&uint64{}\<close>, \<^verbatim>\<open>&Date{}\<close> and \<^verbatim>\<open>&byte{}\<close>; the interface is written without it.
\<close>

theorem unbound_stub_returns_invalid_defaults:
  "written (writeGoClientFunc exGeStats exDefsStats exOpStats) = Some (exStatsStubFunc, None)
   \<and> map_option snd (returned (interfaceFuncs exGeStats (ge_funcnames exGeStats)))
       = Some (Inr [])"
  by code_simp


subsection \<open>The whole run\<close>

text \<open>Both orders of the examples are orders a run can meet.\<close>

lemma idOrders_valid: "validOrders idOrders"
  by (simp add: validOrders_def idOrders_def)

lemma stdReversed_valid: "validOrders stdReversed"
  by (simp add: validOrders_def stdReversed_def idOrders_def)

text \<open>The head of the file depends on the order of a run only through the order of the
  lines of its two groups of imports.\<close>

lemma fileHeader_imports:
  "\<exists>pre mid post. \<forall>os. fileHeader os ge d =
      pre @ concat (map importLine (ord_needsStdPkg os (ge_needsStdPkg ge))) @ mid
      @ concat (map importLine (ord_needsExtPkg os (ge_needsExtPkg ge))) @ post"
  unfolding fileHeader_def importLine_def
  apply (rule exI[of _ "''package '' @ (case ge_packageName ge of Some n \<Rightarrow> n | None \<Rightarrow> ''%!s(<nil>)'')
     @ ''\<newline>\<newline>import (\<newline>''"])
  apply (rule exI[of _ "(if ge_needsStdPkg ge \<noteq> [] then ''\<newline>'' else [])"])
  apply (rule exI[of _ "'')\<newline>\<newline>''
     @ (if sch_TargetNamespace (df_Schema d) \<noteq> [] \<and> \<not> ge_generateOnlyInterface ge
        then writeComments ''Namespace'' []
             @ ''var Namespace = '' @ goQuote (sch_TargetNamespace (df_Schema d))
             @ ''\<newline>\<newline>''
        else [])
     @ (if ge_requestVersion ge \<noteq> [] \<and> \<not> ge_generateOnlyInterface ge
        then writeComments ''RequestVersion'' []
             @ ''var RequestVersion = '' @ goQuote (ge_requestVersion ge) @ ''\<newline>\<newline>''
        else [])"])
  apply simp
  done

lemma fileHeader_package: "take 8 (fileHeader os ge d @ b) = ''package ''"
  by (simp add: fileHeader_def)

text \<open>The stages of a run of \<^verbatim>\<open>encode\<close> that returns a text.\<close>

lemma encode_stages:
  assumes "encode os enrich br n W ge0 d0 = Done (ge, Inr t)"
  shows "\<exists>d1 ge1 log d ge3 H0 H1 H2 H3 b.
           unionSchemasData d0 (df_Schema d0) = Done d1
         \<and> importParts n W ((ge0, []), d1) = Done (((ge1, log), d), None)
         \<and> br (ge1\<lparr>ge_usedNamespaces := df_Namespaces d\<rparr>) d = Done (ge3, H0)
         \<and> flattenRegistry os n ge3 H0 = Done H1
         \<and> addVersionAttrToOpTypes (ord_funcs os)
               (cacheSOAPOperations (cacheMessages (cacheFuncs ge3 d) d) d) H1 = Done H2
         \<and> runWriters enrich
               (writers (cacheSOAPOperations (cacheMessages (cacheFuncs ge3 d) d) d))
               (cacheSOAPOperations (cacheMessages (cacheFuncs ge3 d) d) d) H2 d
             = Done (ge, H3, b, None)
         \<and> t = fileHeader os ge d @ b"
  using assms
  by (auto simp: encode_def Let_def
           split: outcome.splits prod.splits option.splits sum.splits)

text \<open>Two runs that meet the registry of types and the operations in the same order
  write the same declarations after heads that differ in the order of the imports
  only.\<close>

lemma encode_text:
  assumes "encode os1 enrich br n W ge0 d0 = Done (ge, Inr t1)"
      and "ord_ctypes os2 = ord_ctypes os1" and "ord_funcs os2 = ord_funcs os1"
  shows "\<exists>d b. t1 = fileHeader os1 ge d @ b
           \<and> encode os2 enrich br n W ge0 d0 = Done (ge, Inr (fileHeader os2 ge d @ b))"
proof -
  from encode_stages[OF assms(1)] obtain d1 ge1 log d ge3 H0 H1 H2 H3 b where
    s: "unionSchemasData d0 (df_Schema d0) = Done d1"
       "importParts n W ((ge0, []), d1) = Done (((ge1, log), d), None)"
       "br (ge1\<lparr>ge_usedNamespaces := df_Namespaces d\<rparr>) d = Done (ge3, H0)"
       "flattenRegistry os1 n ge3 H0 = Done H1"
       "addVersionAttrToOpTypes (ord_funcs os1)
               (cacheSOAPOperations (cacheMessages (cacheFuncs ge3 d) d) d) H1 = Done H2"
       "runWriters enrich
               (writers (cacheSOAPOperations (cacheMessages (cacheFuncs ge3 d) d) d))
               (cacheSOAPOperations (cacheMessages (cacheFuncs ge3 d) d) d) H2 d
             = Done (ge, H3, b, None)"
       "t1 = fileHeader os1 ge d @ b"
    by blast
  have f: "flattenRegistry os2 n ge3 H0 = Done H1"
    using s(4) assms(2) by (simp add: flattenRegistry_def)
  have "encode os2 enrich br n W ge0 d0 = Done (ge, Inr (fileHeader os2 ge d @ b))"
    using s(1,2,3,5,6) f assms(3) by (simp add: encode_def Let_def)
  with s(7) show ?thesis by blast
qed

lemma encode_package:
  assumes "encode os enrich br n W ge0 d0 = Done (ge, Inr t)"
  shows "take 8 t = ''package ''"
proof -
  from encode_stages[OF assms] obtain d b where "t = fileHeader os ge d @ b" by blast
  then show ?thesis by (simp only: fileHeader_package)
qed

text \<open>The text \<^verbatim>\<open>encode\<close> hands to the parser and to \<^verbatim>\<open>gofmt\<close> lists the imports in the
  order the map \<^verbatim>\<open>needsStdPkg\<close> is ranged over. For the example service with \<^verbatim>\<open>Ping\<close>
  bound, a run that meets \<^verbatim>\<open>context\<close> before \<^verbatim>\<open>encoding/xml\<close> and a run that meets them
  the other way round hand over the two lines in different orders, before the same
  declarations. What is written to the output is what \<^verbatim>\<open>gofmt\<close> makes of that text.\<close>

lemma import_list_order_varies:
  "encodedText (encode idOrders exEnrich exBuildPing 1 exWorldFiles
                  (NewEncoder\<lparr>ge_packageName := Some ''ping''\<rparr>) exDefsPingBound)
     = Some (''package ping\<newline>\<newline>import (\<newline>'' @ importLine ''context''
             @ importLine ''encoding/xml'' @ ''\<newline>)\<newline>\<newline>'' @ exPingBoundBody)
   \<and> encodedText (encode stdReversed exEnrich exBuildPing 1 exWorldFiles
                  (NewEncoder\<lparr>ge_packageName := Some ''ping''\<rparr>) exDefsPingBound)
     = Some (''package ping\<newline>\<newline>import (\<newline>'' @ importLine ''encoding/xml''
             @ importLine ''context'' @ ''\<newline>)\<newline>\<newline>'' @ exPingBoundBody)"
  by code_simp

text \<open>
  C10 (as the code has it). \<^verbatim>\<open>Encode\<close> of nil definitions returns nil, writes nothing
  and calls neither the parser nor \<^verbatim>\<open>gofmt\<close>. For definitions that are not nil, whenever
  \<^verbatim>\<open>Encode\<close> returns nil the generated text began with the package clause, so it was
  not empty, and it was parsed and piped through \<^verbatim>\<open>gofmt\<close>, whose standard output is what
  was written.
\<close>

theorem Encode_nil_or_parsed:
  "Encode X os enrich br n W ge0 None = Done \<lparr>er_error = None, er_written = [], er_calls = []\<rparr>
   \<and> (\<forall>d r. Encode X os enrich br n W ge0 (Some d) = Done r \<longrightarrow> er_error r = None \<longrightarrow>
         (\<exists>input path. take 8 input = ''package ''
            \<and> er_calls r = [ParseFile input, LookupGofmt, RunGofmt path input]
            \<and> er_written r = fst (x_runGofmt X path input)))"
proof (intro conjI allI impI)
  show "Encode X os enrich br n W ge0 None
          = Done \<lparr>er_error = None, er_written = [], er_calls = []\<rparr>"
    by (simp add: Encode_def)
next
  fix d r
  assume e: "Encode X os enrich br n W ge0 (Some d) = Done r" and ok: "er_error r = None"
  define ge where "ge = (if ge_packageName ge0 = None
                    then ge0\<lparr>ge_packageName := Some (x_BindingPackageName X (df_Binding d))\<rparr>
                    else ge0)"
  from e ok obtain ge1 input where i: "encode os enrich br n W ge d = Done (ge1, Inr input)"
    by (auto simp: Encode_def Let_def ge_def split: outcome.splits prod.splits sum.splits)
  have p: "take 8 input = ''package ''" by (rule encode_package[OF i])
  then have ne: "input \<noteq> []" by auto
  from e ok i ne obtain path where
    "er_calls r = [ParseFile input, LookupGofmt, RunGofmt path input]"
    "er_written r = fst (x_runGofmt X path input)"
    by (auto simp: Encode_def Let_def ge_def split: option.splits sum.splits prod.splits)
  with p show "\<exists>input path. take 8 input = ''package ''
            \<and> er_calls r = [ParseFile input, LookupGofmt, RunGofmt path input]
            \<and> er_written r = fst (x_runGofmt X path input)"
    by blast
qed

text \<open>Definitions that declare nothing, with only types asked for.\<close>

lemma exEmpty_Encode:
  "Encode exExternals idOrders exEnrich exBuildEmpty 0 exWorldFiles
       (NewEncoder\<lparr>ge_generateOnlyTypes := True\<rparr>) (Some emptyDefinitions)
     = Done \<lparr>er_error = None, er_written = exEmptyFile,
              er_calls = [ParseFile exEmptyFile, LookupGofmt,
                          RunGofmt ''/usr/bin/gofmt'' exEmptyFile]\<rparr>"
  by code_simp

text \<open>The theorem at these definitions.\<close>

theorem Encode_nil_or_parsed_witness:
  "Encode exExternals idOrders exEnrich exBuildEmpty 0 exWorldFiles
       (NewEncoder\<lparr>ge_generateOnlyTypes := True\<rparr>) None
     = Done \<lparr>er_error = None, er_written = [], er_calls = []\<rparr>
   \<and> (\<exists>input path. take 8 input = ''package ''
         \<and> [ParseFile exEmptyFile, LookupGofmt, RunGofmt ''/usr/bin/gofmt'' exEmptyFile]
             = [ParseFile input, LookupGofmt, RunGofmt path input]
         \<and> exEmptyFile = fst (x_runGofmt exExternals path input))"
  using Encode_nil_or_parsed[of exExternals idOrders exEnrich exBuildEmpty 0 exWorldFiles
          "NewEncoder\<lparr>ge_generateOnlyTypes := True\<rparr>"] exEmpty_Encode
  by fastforce

text \<open>
  C10 as stated fails for definitions whose generated body is empty: \<^verbatim>\<open>writeGoTypes\<close>
  writes nothing for them, yet the text is the head of the file, it is parsed and
  formatted, and what \<^verbatim>\<open>gofmt\<close> returns is written.
\<close>

theorem empty_body_is_parsed_and_formatted:
  "map_option emitted (returned (writeGoTypes exEnrich
       (NewEncoder\<lparr>ge_generateOnlyTypes := True\<rparr>) exHeapPing emptyDefinitions)) = Some []
   \<and> Encode exExternals idOrders exEnrich exBuildEmpty 0 exWorldFiles
       (NewEncoder\<lparr>ge_generateOnlyTypes := True\<rparr>) (Some emptyDefinitions)
     = Done \<lparr>er_error = None, er_written = exEmptyFile,
              er_calls = [ParseFile exEmptyFile, LookupGofmt,
                          RunGofmt ''/usr/bin/gofmt'' exEmptyFile]\<rparr>"
  by code_simp


end
